theory Spec2Isabelle
  imports Main
begin

section \<open>Errors\<close>

text \<open>
  Go errors are values. \<open>Wrap e m\<close> is \<^verbatim>\<open>errors.Wrap(e, m)\<close>; \<open>StatusError r\<close> is an
  API status error of the control plane with reason \<open>r\<close>; \<open>ErrorString s\<close> is any other
  error (a transport failure, a rejected password).
\<close>

datatype status_reason =
    StatusReasonNotFound
  | StatusReasonAlreadyExists
  | StatusReasonForbidden
  | StatusReasonUnauthorized
  | StatusReasonTimeout
  | StatusReasonServiceUnavailable
  | StatusReasonInternalError
  | StatusReasonUnknown

datatype error =
    StatusError status_reason
  | ErrorString string
  | Wrap error string

text \<open>
  \<^verbatim>\<open>kuberneteserrors.IsNotFound\<close>: the reason of a status error is compared with
  not-found; an error of any other type has an unknown reason.
\<close>

fun IsNotFound :: "error \<Rightarrow> bool" where
  "IsNotFound (StatusError r) = (r = StatusReasonNotFound)"
| "IsNotFound (ErrorString s) = False"
| "IsNotFound (Wrap e m) = False"

section \<open>The cluster, the console and the random source\<close>

datatype kind = Secret | ConfigMap | StatefulSet | Service | Job

text \<open>A resource is found under its kind, its namespace and its name.\<close>

type_synonym resource_key = "kind \<times> string \<times> string"

record resource =
  res_name :: string
  res_content :: "string list"

text \<open>
  What the control plane can answer to a request other than absence or presence of the
  object: the failures are part of the state of the cluster.
\<close>

datatype api_fault =
    Forbidden
  | Unauthorized
  | ServerTimeout
  | ServiceUnavailable
  | InternalError
  | Transport string

fun fault_error :: "api_fault \<Rightarrow> error" where
  "fault_error Forbidden = StatusError StatusReasonForbidden"
| "fault_error Unauthorized = StatusError StatusReasonUnauthorized"
| "fault_error ServerTimeout = StatusError StatusReasonTimeout"
| "fault_error ServiceUnavailable = StatusError StatusReasonServiceUnavailable"
| "fault_error InternalError = StatusError StatusReasonInternalError"
| "fault_error (Transport s) = ErrorString s"

text \<open>
  What the operator does at the console while a prompt runs: a line is typed and entered,
  the prompt is interrupted, or the prompt breaks with another error (the input is closed).
\<close>

datatype console_input = Typed string | Interrupt | Broken

text \<open>The calls that leave the process, in the order they are made.\<close>

datatype event =
    ApiGet resource_key
  | ApiCreate resource_key bool
  | BcryptGenerate string
  | UuidNew

text \<open>
  The random source (\<^verbatim>\<open>crypto/rand\<close>) is read at position \<open>entropy\<close>, and a read of it
  may fail. \<^verbatim>\<open>bcrypt.GenerateFromPassword\<close> reads its salt there and returns the failure
  of the read as its error: \<open>salt_fault\<close> is the message of the error with which the read
  of a salt fails, when it fails. Like the failures of the control plane, it is part of the
  state of the world. \<^verbatim>\<open>uuid.New()\<close> has no error result: it panics when its read
  fails. A panic ends the process inside the call, before the create that would take the
  UUID, and is not a result of any function of these files; the worlds described here are
  those in which the reads of \<^verbatim>\<open>uuid.New()\<close> succeed, so the failure of the random
  source is recorded for the salt reads alone.
\<close>

record world =
  objects :: "resource_key \<rightharpoonup> resource"
  get_fault :: "resource_key \<Rightarrow> api_fault option"
  create_fault :: "resource_key \<Rightarrow> api_fault option"
  entropy :: nat
  salt_fault :: "string option"
  console :: "console_input list"
  trace :: "event list"

text \<open>
  The functions of this package and of its libraries that the two files call and do not
  define: the resource builders, the UUID and bcrypt generators and the YAML serializer.
  A UUID and a hash are functions of what is read from the random source at position
  \<open>entropy\<close>. \<open>bcrypt_reject\<close> is the check that bcrypt makes before it reads its salt (the
  library refuses a cost above its maximum; the cost here is always 10).
\<close>

record deps =
  jwtSecret :: "string \<Rightarrow> string \<Rightarrow> resource"
  pgSecret :: "string \<Rightarrow> string \<Rightarrow> resource"
  sharedPasswordSecret :: "string \<Rightarrow> string \<Rightarrow> resource"
  s3Secret :: "string \<Rightarrow> string \<Rightarrow> string \<Rightarrow> resource"
  minioConfigMap :: "string \<Rightarrow> resource"
  minioStatefulset :: "string \<Rightarrow> resource"
  minioService :: "string \<Rightarrow> resource"
  minioJob :: "string \<Rightarrow> resource"
  uuid_String :: "nat \<Rightarrow> string"
  bcrypt_reject :: "string \<Rightarrow> nat \<Rightarrow> error option"
  bcrypt_hash :: "nat \<Rightarrow> string \<Rightarrow> nat \<Rightarrow> string"
  Encode :: "resource \<Rightarrow> error + string"

definition record_event :: "event \<Rightarrow> world \<Rightarrow> world" where
  "record_event ev w = w\<lparr>trace := trace w @ [ev]\<rparr>"

text \<open>The answer to a query by name: a failure of the control plane, not-found, or the object.\<close>

definition api_query :: "world \<Rightarrow> resource_key \<Rightarrow> error + resource" where
  "api_query w key =
     (case get_fault w key of
        Some f \<Rightarrow> Inl (fault_error f)
      | None \<Rightarrow>
          (case objects w key of
             None \<Rightarrow> Inl (StatusError StatusReasonNotFound)
           | Some obj \<Rightarrow> Inr obj))"

definition api_Get :: "kind \<Rightarrow> string \<Rightarrow> string \<Rightarrow> world \<Rightarrow> (error + resource) \<times> world" where
  "api_Get k namespace name w =
     (api_query w (k, namespace, name), record_event (ApiGet (k, namespace, name)) w)"

text \<open>A create stores the object under its own name, unless the name is taken.\<close>

definition api_Create :: "kind \<Rightarrow> string \<Rightarrow> resource \<Rightarrow> world \<Rightarrow> (error + resource) \<times> world" where
  "api_Create k namespace obj w =
     (let key = (k, namespace, res_name obj) in
      case create_fault w key of
        Some f \<Rightarrow> (Inl (fault_error f), record_event (ApiCreate key False) w)
      | None \<Rightarrow>
          (case objects w key of
             Some old \<Rightarrow>
               (Inl (StatusError StatusReasonAlreadyExists), record_event (ApiCreate key False) w)
           | None \<Rightarrow>
               (Inr obj, record_event (ApiCreate key True) (w\<lparr>objects := (objects w)(key \<mapsto> obj)\<rparr>))))"

definition uuid_New_String :: "deps \<Rightarrow> world \<Rightarrow> string \<times> world" where
  "uuid_New_String dp w =
     (uuid_String dp (entropy w), record_event UuidNew (w\<lparr>entropy := Suc (entropy w)\<rparr>))"

definition bcrypt_GenerateFromPassword ::
    "deps \<Rightarrow> string \<Rightarrow> nat \<Rightarrow> world \<Rightarrow> (error + string) \<times> world" where
  "bcrypt_GenerateFromPassword dp password cost w =
     (case bcrypt_reject dp password cost of
        Some e \<Rightarrow> (Inl e, record_event (BcryptGenerate password) w)
      | None \<Rightarrow>
          (case salt_fault w of
             Some message \<Rightarrow> (Inl (ErrorString message), record_event (BcryptGenerate password) w)
           | None \<Rightarrow>
               (Inr (bcrypt_hash dp (entropy w) password cost),
                record_event (BcryptGenerate password) (w\<lparr>entropy := Suc (entropy w)\<rparr>))))"

section \<open>The deployment parameters\<close>

text \<open>
  The fields of \<^verbatim>\<open>DeployOptions\<close> that the two files read or write; the record is
  extensible, and the functions below are defined for every extension of it.
\<close>

record DeployOptions =
  Namespace :: string
  JWT :: string
  PostgresPassword :: string
  SharedPassword :: string
  SharedPasswordBcrypt :: string
  S3SecretKey :: string
  S3AccessKey :: string

text \<open>
  A call returns, leaves the process by \<^verbatim>\<open>os.Exit\<close>, or never returns.
\<close>

datatype 'a outcome = Returns 'a world | Exits int world | Hangs

section \<open>Secrets\<close>

text \<open>The \<^verbatim>\<open>Validate\<close> function of the password prompt.\<close>

definition validatePassword :: "string \<Rightarrow> error option" where
  "validatePassword input =
     (if length input < 6 then Some (ErrorString ''please enter a longer password'') else None)"

text \<open>
  \<^verbatim>\<open>promptForSharedPassword\<close>: the loop runs the prompt until it returns a result. The
  prompt does not take a line that \<open>validatePassword\<close> refuses and goes on reading. An
  interrupt leaves the process with code -1, any other error runs the prompt again. When
  the console has nothing more to give, the loop never returns.
\<close>

fun promptLoop :: "console_input list \<Rightarrow> world \<Rightarrow> (string \<times> error option) outcome" where
  "promptLoop [] w = Hangs"
| "promptLoop (Typed input # rest) w =
     (case validatePassword input of
        Some refused \<Rightarrow> promptLoop rest w
      | None \<Rightarrow> Returns (input, None) (w\<lparr>console := rest\<rparr>))"
| "promptLoop (Interrupt # rest) w = Exits (- 1) (w\<lparr>console := rest\<rparr>)"
| "promptLoop (Broken # rest) w = promptLoop rest w"

definition promptForSharedPassword :: "world \<Rightarrow> (string \<times> error option) outcome" where
  "promptForSharedPassword w = promptLoop (console w) w"

definition ensureS3Secret :: "deps \<Rightarrow> string \<Rightarrow> world \<Rightarrow> error option \<times> world" where
  "ensureS3Secret dp namespace w =
     (case api_Get Secret namespace ''kotsadm-minio'' w of
        (Inr found, w1) \<Rightarrow> (None, w1)
      | (Inl err, w1) \<Rightarrow>
          if \<not> IsNotFound err then (Some (Wrap err ''failed to get existing s3 secret''), w1)
          else
            (case uuid_New_String dp w1 of (accessKey, w2) \<Rightarrow>
            (case uuid_New_String dp w2 of (secretKey, w3) \<Rightarrow>
            (case api_Create Secret namespace (s3Secret dp namespace accessKey secretKey) w3 of
               (Inl err2, w4) \<Rightarrow> (Some (Wrap err2 ''failed to create s3 secret''), w4)
             | (Inr created, w4) \<Rightarrow> (None, w4)))))"

definition ensureJWTSessionSecret :: "deps \<Rightarrow> string \<Rightarrow> world \<Rightarrow> error option \<times> world" where
  "ensureJWTSessionSecret dp namespace w =
     (case api_Get Secret namespace ''kotsadm-session'' w of
        (Inr found, w1) \<Rightarrow> (None, w1)
      | (Inl err, w1) \<Rightarrow>
          if \<not> IsNotFound err then (Some (Wrap err ''failed to get existing session secret''), w1)
          else
            (case uuid_New_String dp w1 of (jwt, w2) \<Rightarrow>
            (case api_Create Secret namespace (jwtSecret dp namespace jwt) w2 of
               (Inl err2, w3) \<Rightarrow> (Some (Wrap err2 ''failed to create jwt session secret''), w3)
             | (Inr created, w3) \<Rightarrow> (None, w3))))"

definition ensurePostgresSecret ::
    "deps \<Rightarrow> 'a DeployOptions_scheme \<Rightarrow> world \<Rightarrow> error option \<times> world" where
  "ensurePostgresSecret dp deployOptions w =
     (case api_Get Secret (Namespace deployOptions) ''kotsadm-postgres'' w of
        (Inr found, w1) \<Rightarrow> (None, w1)
      | (Inl err, w1) \<Rightarrow>
          if \<not> IsNotFound err then (Some (Wrap err ''failed to get existing postgres secret''), w1)
          else
            (case api_Create Secret (Namespace deployOptions)
                    (pgSecret dp (Namespace deployOptions) (PostgresPassword deployOptions)) w1 of
               (Inl err2, w2) \<Rightarrow> (Some (Wrap err2 ''failed to create postgres secret''), w2)
             | (Inr created, w2) \<Rightarrow> (None, w2)))"

text \<open>
  \<^verbatim>\<open>ensureSharedPasswordSecret\<close> from the call of bcrypt on: the hash is computed from
  the plaintext, then the secret is looked up and created when absent.
\<close>

definition ensureSharedPasswordSecret_hashed ::
    "deps \<Rightarrow> 'a DeployOptions_scheme \<Rightarrow> world \<Rightarrow> error option \<times> world" where
  "ensureSharedPasswordSecret_hashed dp deployOptions w =
     (case bcrypt_GenerateFromPassword dp (SharedPassword deployOptions) 10 w of
        (Inl err, w1) \<Rightarrow> (Some (Wrap err ''failed to bcrypt shared password''), w1)
      | (Inr bcryptPassword, w1) \<Rightarrow>
          (case api_Get Secret (Namespace deployOptions) ''kotsadm-password'' w1 of
             (Inr found, w2) \<Rightarrow> (None, w2)
           | (Inl err, w2) \<Rightarrow>
               if \<not> IsNotFound err
               then (Some (Wrap err ''failed to get existing password secret''), w2)
               else
                 (case api_Create Secret (Namespace deployOptions)
                         (sharedPasswordSecret dp (Namespace deployOptions) bcryptPassword) w2 of
                    (Inl err2, w3) \<Rightarrow> (Some (Wrap err2 ''failed to create password secret''), w3)
                  | (Inr created, w3) \<Rightarrow> (None, w3))))"

text \<open>
  The whole operation: an empty plaintext is asked for at the console and written into the
  parameters, which the caller shares (the argument is a pointer), so the parameters are
  returned with the result.
\<close>

definition ensureSharedPasswordSecret ::
    "deps \<Rightarrow> 'a DeployOptions_scheme \<Rightarrow> world
      \<Rightarrow> (error option \<times> 'a DeployOptions_scheme) outcome" where
  "ensureSharedPasswordSecret dp deployOptions w =
     (if SharedPassword deployOptions = ''''
      then
        (case promptForSharedPassword w of
           Hangs \<Rightarrow> Hangs
         | Exits code w1 \<Rightarrow> Exits code w1
         | Returns (sharedPassword, Some err) w1 \<Rightarrow>
             Returns (Some (Wrap err ''failed to prompt for shared password''), deployOptions) w1
         | Returns (sharedPassword, None) w1 \<Rightarrow>
             (let deployOptions1 = deployOptions\<lparr>SharedPassword := sharedPassword\<rparr> in
              case ensureSharedPasswordSecret_hashed dp deployOptions1 w1 of
                (r, w2) \<Rightarrow> Returns (r, deployOptions1) w2))
      else
        (case ensureSharedPasswordSecret_hashed dp deployOptions w of
           (r, w2) \<Rightarrow> Returns (r, deployOptions) w2))"

definition ensureSecrets ::
    "deps \<Rightarrow> 'a DeployOptions_scheme \<Rightarrow> world
      \<Rightarrow> (error option \<times> 'a DeployOptions_scheme) outcome" where
  "ensureSecrets dp deployOptions w =
     (case ensureJWTSessionSecret dp (Namespace deployOptions) w of
        (Some err, w1) \<Rightarrow>
          Returns (Some (Wrap err ''failed to ensure jwt session secret''), deployOptions) w1
      | (None, w1) \<Rightarrow>
     (case ensurePostgresSecret dp deployOptions w1 of
        (Some err, w2) \<Rightarrow>
          Returns (Some (Wrap err ''failed to ensure postgres secret''), deployOptions) w2
      | (None, w2) \<Rightarrow>
     (case ensureSharedPasswordSecret dp deployOptions w2 of
        Hangs \<Rightarrow> Hangs
      | Exits code w3 \<Rightarrow> Exits code w3
      | Returns (Some err, deployOptions1) w3 \<Rightarrow>
          Returns (Some (Wrap err ''failed to ensure shared password secret''), deployOptions1) w3
      | Returns (None, deployOptions1) w3 \<Rightarrow>
     (case ensureS3Secret dp (Namespace deployOptions1) w3 of
        (Some err, w4) \<Rightarrow>
          Returns (Some (Wrap err ''failed to ensure s3 secret''), deployOptions1) w4
      | (None, w4) \<Rightarrow> Returns (None, deployOptions1) w4))))"

text \<open>
  \<^verbatim>\<open>getSecretsYAML\<close>. Go returns the pair of the documents and the error: the documents
  are \<open>None\<close> where the code returns \<^verbatim>\<open>nil\<close>. The parameters are shared with the caller
  and are returned as the call leaves them.
\<close>

type_synonym docs = "string \<rightharpoonup> string"

definition getSecretsYAML ::
    "deps \<Rightarrow> 'a DeployOptions_scheme \<Rightarrow> world
      \<Rightarrow> (docs option \<times> error option) \<times> 'a DeployOptions_scheme \<times> world" where
  "getSecretsYAML dp deployOptions w =
     (let docs = Map.empty in
      case Encode dp (jwtSecret dp (Namespace deployOptions) (JWT deployOptions)) of
        Inl err \<Rightarrow> ((None, Some (Wrap err ''failed to marshal jwt secret'')), deployOptions, w)
      | Inr jwt \<Rightarrow>
     (let docs = docs(''secret-jwt.yaml'' \<mapsto> jwt) in
      case Encode dp (pgSecret dp (Namespace deployOptions) (PostgresPassword deployOptions)) of
        Inl err \<Rightarrow> ((None, Some (Wrap err ''failed to marshal pg secret'')), deployOptions, w)
      | Inr pg \<Rightarrow>
     (let docs = docs(''secret-pg.yaml'' \<mapsto> pg) in
      case (if SharedPasswordBcrypt deployOptions = ''''
            then
              (case bcrypt_GenerateFromPassword dp (SharedPassword deployOptions) 10 w of
                 (Inl err, w1) \<Rightarrow>
                   (Some (Wrap err ''failed to bcrypt shared password''), deployOptions, w1)
               | (Inr bcryptPassword, w1) \<Rightarrow>
                   (None, deployOptions\<lparr>SharedPasswordBcrypt := bcryptPassword\<rparr>, w1))
            else (None, deployOptions, w)) of
        (Some err, deployOptions1, w1) \<Rightarrow> ((None, Some err), deployOptions1, w1)
      | (None, deployOptions1, w1) \<Rightarrow>
     (case Encode dp (sharedPasswordSecret dp (Namespace deployOptions1)
                        (SharedPasswordBcrypt deployOptions1)) of
        Inl err \<Rightarrow>
          ((None, Some (Wrap err ''failed to marshal shared password secret'')), deployOptions1, w1)
      | Inr sharedPassword \<Rightarrow>
     (let docs = docs(''secret-shared-password.yaml'' \<mapsto> sharedPassword) in
      case (if S3SecretKey deployOptions1 = ''''
            then (case uuid_New_String dp w1 of
                    (u, w2) \<Rightarrow> (deployOptions1\<lparr>S3SecretKey := u\<rparr>, w2))
            else (deployOptions1, w1)) of
        (deployOptions2, w2) \<Rightarrow>
     (case (if S3AccessKey deployOptions2 = ''''
            then (case uuid_New_String dp w2 of
                    (u, w3) \<Rightarrow> (deployOptions2\<lparr>S3AccessKey := u\<rparr>, w3))
            else (deployOptions2, w2)) of
        (deployOptions3, w3) \<Rightarrow>
     (case Encode dp (s3Secret dp (Namespace deployOptions3) (S3AccessKey deployOptions3)
                        (S3SecretKey deployOptions3)) of
        Inl err \<Rightarrow> ((None, Some (Wrap err ''failed to marshal s3 secret'')), deployOptions3, w3)
      | Inr s3 \<Rightarrow>
     (let docs = docs(''secret-s3.yaml'' \<mapsto> s3) in
      ((Some docs, None), deployOptions3, w3)))))))))"

section \<open>The storage service\<close>

definition getMinioYAML :: "deps \<Rightarrow> string \<Rightarrow> docs option \<times> error option" where
  "getMinioYAML dp namespace =
     (let docs = Map.empty in
      case Encode dp (minioConfigMap dp namespace) of
        Inl err \<Rightarrow> (None, Some (Wrap err ''failed to marshal minio config map''))
      | Inr configMap \<Rightarrow>
     (let docs = docs(''minio-configmap.yaml'' \<mapsto> configMap) in
      case Encode dp (minioStatefulset dp namespace) of
        Inl err \<Rightarrow> (None, Some (Wrap err ''failed to marshal minio statefulset''))
      | Inr statefulset \<Rightarrow>
     (let docs = docs(''minio-statefulset.yaml'' \<mapsto> statefulset) in
      case Encode dp (minioService dp namespace) of
        Inl err \<Rightarrow> (None, Some (Wrap err ''failed to marshal minio service''))
      | Inr service \<Rightarrow>
     (let docs = docs(''minio-service.yaml'' \<mapsto> service) in
      case Encode dp (minioJob dp namespace) of
        Inl err \<Rightarrow> (None, Some (Wrap err ''failed to marshal minio job''))
      | Inr job \<Rightarrow>
     (let docs = docs(''minio-job.yaml'' \<mapsto> job) in
      (Some docs, None))))))"

definition ensureMinioConfigMap :: "deps \<Rightarrow> string \<Rightarrow> world \<Rightarrow> error option \<times> world" where
  "ensureMinioConfigMap dp namespace w =
     (case api_Get ConfigMap namespace ''kotsadm-minio'' w of
        (Inr found, w1) \<Rightarrow> (None, w1)
      | (Inl err, w1) \<Rightarrow>
          if \<not> IsNotFound err then (Some (Wrap err ''failed to get existing config map''), w1)
          else
            (case api_Create ConfigMap namespace (minioConfigMap dp namespace) w1 of
               (Inl err2, w2) \<Rightarrow> (Some (Wrap err2 ''failed to create configmap''), w2)
             | (Inr created, w2) \<Rightarrow> (None, w2)))"

definition ensureMinioStatefulset :: "deps \<Rightarrow> string \<Rightarrow> world \<Rightarrow> error option \<times> world" where
  "ensureMinioStatefulset dp namespace w =
     (case api_Get StatefulSet namespace ''kotsadm-minio'' w of
        (Inr found, w1) \<Rightarrow> (None, w1)
      | (Inl err, w1) \<Rightarrow>
          if \<not> IsNotFound err then (Some (Wrap err ''failed to get existing statefulset''), w1)
          else
            (case api_Create StatefulSet namespace (minioStatefulset dp namespace) w1 of
               (Inl err2, w2) \<Rightarrow> (Some (Wrap err2 ''failed to create minio statefulset''), w2)
             | (Inr created, w2) \<Rightarrow> (None, w2)))"

definition ensureMinioService :: "deps \<Rightarrow> string \<Rightarrow> world \<Rightarrow> error option \<times> world" where
  "ensureMinioService dp namespace w =
     (case api_Get Service namespace ''kotsadm-minio'' w of
        (Inr found, w1) \<Rightarrow> (None, w1)
      | (Inl err, w1) \<Rightarrow>
          if \<not> IsNotFound err then (Some (Wrap err ''failed to get existing service''), w1)
          else
            (case api_Create Service namespace (minioService dp namespace) w1 of
               (Inl err2, w2) \<Rightarrow> (Some (Wrap err2 ''failed to create service''), w2)
             | (Inr created, w2) \<Rightarrow> (None, w2)))"

definition ensureMinioJob :: "deps \<Rightarrow> string \<Rightarrow> world \<Rightarrow> error option \<times> world" where
  "ensureMinioJob dp namespace w =
     (case api_Get Job namespace ''kotsadm-minio'' w of
        (Inr found, w1) \<Rightarrow> (None, w1)
      | (Inl err, w1) \<Rightarrow>
          if \<not> IsNotFound err then (Some (Wrap err ''failed to get existing job''), w1)
          else
            (case api_Create Job namespace (minioJob dp namespace) w1 of
               (Inl err2, w2) \<Rightarrow> (Some (Wrap err2 ''failed to create job''), w2)
             | (Inr created, w2) \<Rightarrow> (None, w2)))"

definition ensureMinio ::
    "deps \<Rightarrow> 'a DeployOptions_scheme \<Rightarrow> world \<Rightarrow> error option \<times> world" where
  "ensureMinio dp deployOptions w =
     (case ensureMinioConfigMap dp (Namespace deployOptions) w of
        (Some err, w1) \<Rightarrow> (Some (Wrap err ''failed to ensure minio configmap''), w1)
      | (None, w1) \<Rightarrow>
     (case ensureMinioStatefulset dp (Namespace deployOptions) w1 of
        (Some err, w2) \<Rightarrow> (Some (Wrap err ''failed to ensure minio statefulset''), w2)
      | (None, w2) \<Rightarrow>
     (case ensureMinioService dp (Namespace deployOptions) w2 of
        (Some err, w3) \<Rightarrow> (Some (Wrap err ''failed to ensure minio service''), w3)
      | (None, w3) \<Rightarrow>
     (case ensureMinioJob dp (Namespace deployOptions) w3 of
        (Some err, w4) \<Rightarrow> (Some (Wrap err ''failed to ensure minio job''), w4)
      | (None, w4) \<Rightarrow> (None, w4)))))"

section \<open>Observations\<close>

definition new_events :: "world \<Rightarrow> world \<Rightarrow> event list" where
  "new_events w w' = drop (length (trace w)) (trace w')"

fun is_create :: "event \<Rightarrow> bool" where
  "is_create (ApiCreate key ok) = True"
| "is_create ev = False"

fun is_created :: "event \<Rightarrow> bool" where
  "is_created (ApiCreate key ok) = ok"
| "is_created ev = False"

fun is_hash :: "event \<Rightarrow> bool" where
  "is_hash (BcryptGenerate password) = True"
| "is_hash ev = False"

fun event_kind :: "event \<Rightarrow> kind option" where
  "event_kind (ApiGet key) = Some (fst key)"
| "event_kind (ApiCreate key ok) = Some (fst key)"
| "event_kind ev = None"

text \<open>
  The error with which a call of bcrypt in a world fails, if it fails: the refusal of the
  cost, or else the failure of the read of the salt.
\<close>

definition hash_failure :: "deps \<Rightarrow> string \<Rightarrow> nat \<Rightarrow> world \<Rightarrow> error option" where
  "hash_failure dp password cost w =
     (case bcrypt_reject dp password cost of
        Some e \<Rightarrow> Some e
      | None \<Rightarrow> map_option ErrorString (salt_fault w))"

definition same_cluster :: "world \<Rightarrow> world \<Rightarrow> bool" where
  "same_cluster w w' \<longleftrightarrow>
     objects w' = objects w \<and> get_fault w' = get_fault w \<and> create_fault w' = create_fault w"

fun draw :: "nat \<Rightarrow> world \<Rightarrow> world" where
  "draw 0 w = w"
| "draw (Suc n) w = draw n (record_event UuidNew (w\<lparr>entropy := Suc (entropy w)\<rparr>))"

definition ensure_generic ::
    "kind \<Rightarrow> string \<Rightarrow> string \<Rightarrow> nat \<Rightarrow> (nat \<Rightarrow> resource) \<Rightarrow> string \<Rightarrow> string
      \<Rightarrow> world \<Rightarrow> error option \<times> world" where
  "ensure_generic k namespace name n build msg_get msg_create w =
     (case api_Get k namespace name w of
        (Inr found, w1) \<Rightarrow> (None, w1)
      | (Inl err, w1) \<Rightarrow>
          if \<not> IsNotFound err then (Some (Wrap err msg_get), w1)
          else
            (case api_Create k namespace (build (entropy w1)) (draw n w1) of
               (Inl err2, w2) \<Rightarrow> (Some (Wrap err2 msg_create), w2)
             | (Inr created, w2) \<Rightarrow> (None, w2)))"

datatype ensure_operation =
    EnsureJWTSessionSecret
  | EnsurePostgresSecret
  | EnsureSharedPasswordSecret
  | EnsureS3Secret
  | EnsureMinioConfigMap
  | EnsureMinioStatefulset
  | EnsureMinioService
  | EnsureMinioJob

fun invoke ::
    "deps \<Rightarrow> ensure_operation \<Rightarrow> 'a DeployOptions_scheme \<Rightarrow> world
      \<Rightarrow> (error option \<times> 'a DeployOptions_scheme) outcome" where
  "invoke dp EnsureJWTSessionSecret d w =
     (case ensureJWTSessionSecret dp (Namespace d) w of (r, w') \<Rightarrow> Returns (r, d) w')"
| "invoke dp EnsurePostgresSecret d w =
     (case ensurePostgresSecret dp d w of (r, w') \<Rightarrow> Returns (r, d) w')"
| "invoke dp EnsureSharedPasswordSecret d w = ensureSharedPasswordSecret dp d w"
| "invoke dp EnsureS3Secret d w =
     (case ensureS3Secret dp (Namespace d) w of (r, w') \<Rightarrow> Returns (r, d) w')"
| "invoke dp EnsureMinioConfigMap d w =
     (case ensureMinioConfigMap dp (Namespace d) w of (r, w') \<Rightarrow> Returns (r, d) w')"
| "invoke dp EnsureMinioStatefulset d w =
     (case ensureMinioStatefulset dp (Namespace d) w of (r, w') \<Rightarrow> Returns (r, d) w')"
| "invoke dp EnsureMinioService d w =
     (case ensureMinioService dp (Namespace d) w of (r, w') \<Rightarrow> Returns (r, d) w')"
| "invoke dp EnsureMinioJob d w =
     (case ensureMinioJob dp (Namespace d) w of (r, w') \<Rightarrow> Returns (r, d) w')"

fun queried_kind :: "ensure_operation \<Rightarrow> kind" where
  "queried_kind EnsureJWTSessionSecret = Secret"
| "queried_kind EnsurePostgresSecret = Secret"
| "queried_kind EnsureSharedPasswordSecret = Secret"
| "queried_kind EnsureS3Secret = Secret"
| "queried_kind EnsureMinioConfigMap = ConfigMap"
| "queried_kind EnsureMinioStatefulset = StatefulSet"
| "queried_kind EnsureMinioService = Service"
| "queried_kind EnsureMinioJob = Job"

fun queried_name :: "ensure_operation \<Rightarrow> string" where
  "queried_name EnsureJWTSessionSecret = ''kotsadm-session''"
| "queried_name EnsurePostgresSecret = ''kotsadm-postgres''"
| "queried_name EnsureSharedPasswordSecret = ''kotsadm-password''"
| "queried_name EnsureS3Secret = ''kotsadm-minio''"
| "queried_name EnsureMinioConfigMap = ''kotsadm-minio''"
| "queried_name EnsureMinioStatefulset = ''kotsadm-minio''"
| "queried_name EnsureMinioService = ''kotsadm-minio''"
| "queried_name EnsureMinioJob = ''kotsadm-minio''"

definition queried_key :: "ensure_operation \<Rightarrow> string \<Rightarrow> resource_key" where
  "queried_key op namespace = (queried_kind op, namespace, queried_name op)"

fun get_message :: "ensure_operation \<Rightarrow> string" where
  "get_message EnsureJWTSessionSecret = ''failed to get existing session secret''"
| "get_message EnsurePostgresSecret = ''failed to get existing postgres secret''"
| "get_message EnsureSharedPasswordSecret = ''failed to get existing password secret''"
| "get_message EnsureS3Secret = ''failed to get existing s3 secret''"
| "get_message EnsureMinioConfigMap = ''failed to get existing config map''"
| "get_message EnsureMinioStatefulset = ''failed to get existing statefulset''"
| "get_message EnsureMinioService = ''failed to get existing service''"
| "get_message EnsureMinioJob = ''failed to get existing job''"

definition fixed_names :: "deps \<Rightarrow> bool" where
  "fixed_names dp \<longleftrightarrow>
     (\<forall>ns v. res_name (jwtSecret dp ns v) = ''kotsadm-session'') \<and>
     (\<forall>ns v. res_name (pgSecret dp ns v) = ''kotsadm-postgres'') \<and>
     (\<forall>ns v. res_name (sharedPasswordSecret dp ns v) = ''kotsadm-password'') \<and>
     (\<forall>ns a s. res_name (s3Secret dp ns a s) = ''kotsadm-minio'') \<and>
     (\<forall>ns. res_name (minioConfigMap dp ns) = ''kotsadm-minio'') \<and>
     (\<forall>ns. res_name (minioStatefulset dp ns) = ''kotsadm-minio'') \<and>
     (\<forall>ns. res_name (minioService dp ns) = ''kotsadm-minio'') \<and>
     (\<forall>ns. res_name (minioJob dp ns) = ''kotsadm-minio'')"


fun world_of :: "'a outcome \<Rightarrow> world option" where
  "world_of (Returns x w) = Some w"
| "world_of (Exits code w) = Some w"
| "world_of Hangs = None"

fun returned :: "'a outcome \<Rightarrow> 'a option" where
  "returned (Returns x w) = Some x"
| "returned (Exits code w) = None"
| "returned Hangs = None"

definition invoke_twice ::
    "deps \<Rightarrow> ensure_operation \<Rightarrow> 'a DeployOptions_scheme \<Rightarrow> world
      \<Rightarrow> (error option \<times> 'a DeployOptions_scheme) outcome" where
  "invoke_twice dp op d w =
     (case invoke dp op d w of
        Returns (r, d1) w1 \<Rightarrow> invoke dp op d1 w1
      | Exits code w1 \<Rightarrow> Exits code w1
      | Hangs \<Rightarrow> Hangs)"

definition sample_deps :: deps where
  "sample_deps =
     \<lparr>jwtSecret = (\<lambda>ns jwt. \<lparr>res_name = ''kotsadm-session'', res_content = [ns, jwt]\<rparr>),
      pgSecret = (\<lambda>ns password. \<lparr>res_name = ''kotsadm-postgres'', res_content = [ns, password]\<rparr>),
      sharedPasswordSecret =
        (\<lambda>ns hash. \<lparr>res_name = ''kotsadm-password'', res_content = [ns, hash]\<rparr>),
      s3Secret =
        (\<lambda>ns accessKey secretKey.
           \<lparr>res_name = ''kotsadm-minio'', res_content = [ns, accessKey, secretKey]\<rparr>),
      minioConfigMap = (\<lambda>ns. \<lparr>res_name = ''kotsadm-minio'', res_content = [ns, ''config'']\<rparr>),
      minioStatefulset = (\<lambda>ns. \<lparr>res_name = ''kotsadm-minio'', res_content = [ns, ''set'']\<rparr>),
      minioService = (\<lambda>ns. \<lparr>res_name = ''kotsadm-minio'', res_content = [ns, ''service'']\<rparr>),
      minioJob = (\<lambda>ns. \<lparr>res_name = ''kotsadm-minio'', res_content = [ns, ''job'']\<rparr>),
      uuid_String = (\<lambda>i. ''uuid-'' @ replicate i (CHR ''x'')),
      bcrypt_reject =
        (\<lambda>password cost.
           if 31 < cost
           then Some (ErrorString ''crypto/bcrypt: cost is outside allowed range (4,31)'')
           else None),
      bcrypt_hash = (\<lambda>salt password cost. ''$2a$10$'' @ replicate salt (CHR ''s'') @ password),
      Encode =
        (\<lambda>obj. if res_content obj = [] then Inl (ErrorString ''nothing to encode'')
               else Inr (res_name obj @ concat (res_content obj)))\<rparr>"

definition sample_options :: DeployOptions where
  "sample_options =
     \<lparr>Namespace = ''ns1'', JWT = [], PostgresPassword = ''pg'', SharedPassword = ''password'',
      SharedPasswordBcrypt = [], S3SecretKey = [], S3AccessKey = []\<rparr>"

definition fresh_cluster :: world where
  "fresh_cluster =
     \<lparr>objects = Map.empty, get_fault = (\<lambda>key. None), create_fault = (\<lambda>key. None),
      entropy = 0, salt_fault = None, console = [], trace = []\<rparr>"


text \<open>
  Running ensure-operations in a given order: each operation starts from the cluster and the
  parameters the one before left, and the first operation that returns an error ends the
  run with that operation and its error.
\<close>

fun ensure_in_order ::
    "deps \<Rightarrow> ensure_operation list \<Rightarrow> 'a DeployOptions_scheme \<Rightarrow> world
      \<Rightarrow> ((ensure_operation \<times> error) option \<times> 'a DeployOptions_scheme) outcome" where
  "ensure_in_order dp [] d w = Returns (None, d) w"
| "ensure_in_order dp (op # ops) d w =
     (case invoke dp op d w of
        Hangs \<Rightarrow> Hangs
      | Exits code w1 \<Rightarrow> Exits code w1
      | Returns (Some err, d1) w1 \<Rightarrow> Returns (Some (op, err), d1) w1
      | Returns (None, d1) w1 \<Rightarrow> ensure_in_order dp ops d1 w1)"

text \<open>The message with which a group wraps the error of one of its operations.\<close>

fun step_message :: "ensure_operation \<Rightarrow> string" where
  "step_message EnsureJWTSessionSecret = ''failed to ensure jwt session secret''"
| "step_message EnsurePostgresSecret = ''failed to ensure postgres secret''"
| "step_message EnsureSharedPasswordSecret = ''failed to ensure shared password secret''"
| "step_message EnsureS3Secret = ''failed to ensure s3 secret''"
| "step_message EnsureMinioConfigMap = ''failed to ensure minio configmap''"
| "step_message EnsureMinioStatefulset = ''failed to ensure minio statefulset''"
| "step_message EnsureMinioService = ''failed to ensure minio service''"
| "step_message EnsureMinioJob = ''failed to ensure minio job''"

fun surface ::
    "((ensure_operation \<times> error) option \<times> 'a) outcome \<Rightarrow> (error option \<times> 'a) outcome" where
  "surface (Returns (Some (op, err), d) w) = Returns (Some (Wrap err (step_message op)), d) w"
| "surface (Returns (None, d) w) = Returns (None, d) w"
| "surface (Exits code w) = Exits code w"
| "surface Hangs = Hangs"

definition secrets_order :: "ensure_operation list" where
  "secrets_order =
     [EnsureJWTSessionSecret, EnsurePostgresSecret, EnsureSharedPasswordSecret, EnsureS3Secret]"

definition minio_order :: "ensure_operation list" where
  "minio_order =
     [EnsureMinioConfigMap, EnsureMinioStatefulset, EnsureMinioService, EnsureMinioJob]"


text \<open>
  Modelled from the spec: the Provisioning Orchestrator, the caller of \<open>ensureSecrets\<close> and
  \<open>ensureMinio\<close>, is not in the two files. The spec says of it: "Sequences:
  ensure-credentials group, then ensure-storage-service group. Stops at first failure and
  reports it wrapped with which group/resource failed."
\<close>

definition provision ::
    "deps \<Rightarrow> 'a DeployOptions_scheme \<Rightarrow> world
      \<Rightarrow> (error option \<times> 'a DeployOptions_scheme) outcome" where
  "provision dp deployOptions w =
     (case ensureSecrets dp deployOptions w of
        Hangs \<Rightarrow> Hangs
      | Exits code w1 \<Rightarrow> Exits code w1
      | Returns (Some err, deployOptions1) w1 \<Rightarrow>
          Returns (Some (Wrap err ''failed to ensure secrets''), deployOptions1) w1
      | Returns (None, deployOptions1) w1 \<Rightarrow>
          (case ensureMinio dp deployOptions1 w1 of
             (Some err, w2) \<Rightarrow> Returns (Some (Wrap err ''failed to ensure minio''), deployOptions1) w2
           | (None, w2) \<Rightarrow> Returns (None, deployOptions1) w2))"

definition pass_order :: "ensure_operation list" where
  "pass_order = secrets_order @ minio_order"

fun group_message :: "ensure_operation \<Rightarrow> string" where
  "group_message EnsureJWTSessionSecret = ''failed to ensure secrets''"
| "group_message EnsurePostgresSecret = ''failed to ensure secrets''"
| "group_message EnsureSharedPasswordSecret = ''failed to ensure secrets''"
| "group_message EnsureS3Secret = ''failed to ensure secrets''"
| "group_message EnsureMinioConfigMap = ''failed to ensure minio''"
| "group_message EnsureMinioStatefulset = ''failed to ensure minio''"
| "group_message EnsureMinioService = ''failed to ensure minio''"
| "group_message EnsureMinioJob = ''failed to ensure minio''"

fun surface_pass ::
    "((ensure_operation \<times> error) option \<times> 'a) outcome \<Rightarrow> (error option \<times> 'a) outcome" where
  "surface_pass (Returns (Some (op, err), d) w) =
     Returns (Some (Wrap (Wrap err (step_message op)) (group_message op)), d) w"
| "surface_pass (Returns (None, d) w) = Returns (None, d) w"
| "surface_pass (Exits code w) = Exits code w"
| "surface_pass Hangs = Hangs"


text \<open>
  The documents of the four secrets as the parameters give them, with nothing generated:
  the builders and the serializer applied to the fields as they are.
\<close>

definition render_secrets :: "deps \<Rightarrow> 'a DeployOptions_scheme \<Rightarrow> docs option \<times> error option" where
  "render_secrets dp d =
     (case Encode dp (jwtSecret dp (Namespace d) (JWT d)) of
        Inl err \<Rightarrow> (None, Some (Wrap err ''failed to marshal jwt secret''))
      | Inr jwt \<Rightarrow>
     (case Encode dp (pgSecret dp (Namespace d) (PostgresPassword d)) of
        Inl err \<Rightarrow> (None, Some (Wrap err ''failed to marshal pg secret''))
      | Inr pg \<Rightarrow>
     (case Encode dp (sharedPasswordSecret dp (Namespace d) (SharedPasswordBcrypt d)) of
        Inl err \<Rightarrow> (None, Some (Wrap err ''failed to marshal shared password secret''))
      | Inr sharedPassword \<Rightarrow>
     (case Encode dp (s3Secret dp (Namespace d) (S3AccessKey d) (S3SecretKey d)) of
        Inl err \<Rightarrow> (None, Some (Wrap err ''failed to marshal s3 secret''))
      | Inr s3 \<Rightarrow>
          (Some [''secret-jwt.yaml'' \<mapsto> jwt, ''secret-pg.yaml'' \<mapsto> pg,
                 ''secret-shared-password.yaml'' \<mapsto> sharedPassword,
                 ''secret-s3.yaml'' \<mapsto> s3], None)))))"

section \<open>Unfolding the model on concrete inputs\<close>

lemmas sample_defs = sample_deps_def sample_options_def fresh_cluster_def

lemmas api_defs = api_Get_def api_Create_def api_query_def record_event_def
  uuid_New_String_def bcrypt_GenerateFromPassword_def Let_def

lemmas op_defs = ensureJWTSessionSecret_def ensurePostgresSecret_def ensureS3Secret_def
  ensureSharedPasswordSecret_def ensureSharedPasswordSecret_hashed_def
  promptForSharedPassword_def validatePassword_def
  ensureMinioConfigMap_def ensureMinioStatefulset_def ensureMinioService_def ensureMinioJob_def

section \<open>The primitives\<close>

lemma record_event_fields [simp]:
  "objects (record_event ev w) = objects w"
  "get_fault (record_event ev w) = get_fault w"
  "create_fault (record_event ev w) = create_fault w"
  "entropy (record_event ev w) = entropy w"
  "salt_fault (record_event ev w) = salt_fault w"
  "console (record_event ev w) = console w"
  "trace (record_event ev w) = trace w @ [ev]"
  by (simp_all add: record_event_def)

lemma draw_fields [simp]:
  "objects (draw n w) = objects w"
  "get_fault (draw n w) = get_fault w"
  "create_fault (draw n w) = create_fault w"
  "entropy (draw n w) = entropy w + n"
  "salt_fault (draw n w) = salt_fault w"
  "console (draw n w) = console w"
  "trace (draw n w) = trace w @ replicate n UuidNew"
  by (induction n arbitrary: w; simp add: replicate_app_Cons_same)+

lemma hash_failure_cong:
  "salt_fault w' = salt_fault w \<Longrightarrow> hash_failure dp password cost w' = hash_failure dp password cost w"
  by (simp add: hash_failure_def split: option.splits)

lemma hash_failure_fields [simp]:
  "hash_failure dp password cost (record_event ev w) = hash_failure dp password cost w"
  "hash_failure dp password cost (w\<lparr>console := c\<rparr>) = hash_failure dp password cost w"
  "hash_failure dp password cost (w\<lparr>entropy := n\<rparr>) = hash_failure dp password cost w"
  by (simp_all add: hash_failure_def split: option.splits)

lemma bcrypt_GenerateFromPassword_cases:
  "bcrypt_GenerateFromPassword dp password cost w =
     (case hash_failure dp password cost w of
        Some e \<Rightarrow> (Inl e, record_event (BcryptGenerate password) w)
      | None \<Rightarrow>
          (Inr (bcrypt_hash dp (entropy w) password cost),
           record_event (BcryptGenerate password) (w\<lparr>entropy := Suc (entropy w)\<rparr>)))"
  by (simp add: bcrypt_GenerateFromPassword_def hash_failure_def split: option.splits)

lemma new_events_append: "trace w' = trace w @ evs \<Longrightarrow> new_events w w' = evs"
  by (simp add: new_events_def)

lemma new_events_self [simp]: "new_events w w = []"
  by (simp add: new_events_def)

lemma new_events_trans:
  "trace w1 = trace w @ evs1 \<Longrightarrow> trace w2 = trace w1 @ evs2 \<Longrightarrow> new_events w w2 = evs1 @ evs2"
  by (simp add: new_events_def)

lemma same_cluster_refl [simp]: "same_cluster w w"
  by (simp add: same_cluster_def)

lemma same_cluster_trans: "same_cluster w w1 \<Longrightarrow> same_cluster w1 w2 \<Longrightarrow> same_cluster w w2"
  by (simp add: same_cluster_def)

lemma same_cluster_record_event [simp]: "same_cluster w (record_event ev w)"
  by (simp add: same_cluster_def)

lemma api_query_cong:
  "objects w' = objects w \<Longrightarrow> get_fault w' = get_fault w \<Longrightarrow> api_query w' key = api_query w key"
  by (simp add: api_query_def split: option.splits)

lemma api_query_same_cluster: "same_cluster w w' \<Longrightarrow> api_query w' key = api_query w key"
  by (rule api_query_cong) (simp_all add: same_cluster_def)

lemma api_query_record_event [simp]: "api_query (record_event ev w) key = api_query w key"
  by (rule api_query_cong) simp_all

lemma fault_error_not_NotFound [simp]: "\<not> IsNotFound (fault_error f)"
  by (cases f) simp_all

lemma api_query_cases:
  obtains (found) obj where "api_query w key = Inr obj" "get_fault w key = None"
      "objects w key = Some obj"
  | (fault) f where "api_query w key = Inl (fault_error f)" "get_fault w key = Some f"
  | (absent) "api_query w key = Inl (StatusError StatusReasonNotFound)" "get_fault w key = None"
      "objects w key = None"
proof -
  consider (a) f where "get_fault w key = Some f"
    | (b) obj where "get_fault w key = None" "objects w key = Some obj"
    | (c) "get_fault w key = None" "objects w key = None"
    by (cases "get_fault w key"; cases "objects w key") auto
  then show thesis
  proof cases
    case a
    then show thesis by (intro fault[of f]) (simp_all add: api_query_def)
  next
    case b
    then show thesis by (intro found[of obj]) (simp_all add: api_query_def)
  next
    case c
    then show thesis by (intro absent) (simp_all add: api_query_def)
  qed
qed

lemma api_query_NotFound:
  assumes "api_query w key = Inl e" and "IsNotFound e"
  shows "e = StatusError StatusReasonNotFound \<and> objects w key = None \<and> get_fault w key = None"
proof (cases w key rule: api_query_cases)
  case (found obj)
  with assms show ?thesis by simp
next
  case (fault f)
  with assms have "IsNotFound (fault_error f)" by simp
  then show ?thesis by simp
next
  case absent
  with assms show ?thesis by simp
qed

lemma api_Create_cases:
  obtains (refused) e where
      "api_Create k ns obj w = (Inl e, record_event (ApiCreate (k, ns, res_name obj) False) w)"
      "create_fault w (k, ns, res_name obj) \<noteq> None \<or> objects w (k, ns, res_name obj) \<noteq> None"
      "e = (case create_fault w (k, ns, res_name obj) of Some f \<Rightarrow> fault_error f
             | None \<Rightarrow> StatusError StatusReasonAlreadyExists)"
  | (created)
      "api_Create k ns obj w =
         (Inr obj, record_event (ApiCreate (k, ns, res_name obj) True)
                     (w\<lparr>objects := (objects w)((k, ns, res_name obj) \<mapsto> obj)\<rparr>))"
      "create_fault w (k, ns, res_name obj) = None" "objects w (k, ns, res_name obj) = None"
proof (cases "create_fault w (k, ns, res_name obj)")
  case (Some f)
  then show ?thesis by (intro refused[of "fault_error f"]) (simp_all add: api_Create_def Let_def)
next
  case None
  show ?thesis
  proof (cases "objects w (k, ns, res_name obj)")
    case (Some old)
    with None show ?thesis
      by (intro refused[of "StatusError StatusReasonAlreadyExists"]) (simp_all add: api_Create_def Let_def)
  next
    case nothing: None
    with None show ?thesis by (intro created) (simp_all add: api_Create_def Let_def)
  qed
qed

section \<open>The common shape of the ensure-operations\<close>

lemma ensure_generic_cases:
  fixes k ns name n build mg mc w
  defines "key \<equiv> (k, ns, name)"
  defines "ckey \<equiv> (k, ns, res_name (build (entropy w)))"
  defines "w1 \<equiv> record_event (ApiGet key) w"
  obtains (found) obj where "api_query w key = Inr obj"
      "ensure_generic k ns name n build mg mc w = (None, w1)"
  | (fault) f where "api_query w key = Inl (fault_error f)"
      "ensure_generic k ns name n build mg mc w = (Some (Wrap (fault_error f) mg), w1)"
  | (refused) e where "api_query w key = Inl (StatusError StatusReasonNotFound)"
      "objects w key = None"
      "create_fault w ckey \<noteq> None \<or> objects w ckey \<noteq> None"
      "ensure_generic k ns name n build mg mc w =
         (Some (Wrap e mc), record_event (ApiCreate ckey False) (draw n w1))"
  | (created) "api_query w key = Inl (StatusError StatusReasonNotFound)"
      "objects w key = None" "get_fault w key = None"
      "create_fault w ckey = None" "objects w ckey = None"
      "ensure_generic k ns name n build mg mc w =
         (None, record_event (ApiCreate ckey True)
                  ((draw n w1)\<lparr>objects := (objects w)(ckey \<mapsto> build (entropy w))\<rparr>))"
proof (cases w key rule: api_query_cases)
  case (found obj)
  then show thesis
    by (intro that(1)[of obj]) (simp_all add: ensure_generic_def api_Get_def key_def w1_def)
next
  case (fault f)
  then show thesis
    by (intro that(2)[of f]) (simp_all add: ensure_generic_def api_Get_def key_def w1_def)
next
  case absent
  have G: "ensure_generic k ns name n build mg mc w =
      (case api_Create k ns (build (entropy w)) (draw n w1) of
         (Inl err2, w2) \<Rightarrow> (Some (Wrap err2 mc), w2)
       | (Inr created, w2) \<Rightarrow> (None, w2))"
    using absent by (simp add: ensure_generic_def api_Get_def key_def w1_def)
  show thesis
  proof (cases rule: api_Create_cases[where k = k and ns = ns and obj = "build (entropy w)"
        and w = "draw n w1"])
    case (refused e)
    with absent G show thesis
      by (intro that(3)[of e]) (simp_all add: ckey_def w1_def)
  next
    case created
    with absent G show thesis
      by (intro that(4)) (simp_all add: ckey_def w1_def)
  qed
qed


lemma ensure_generic_frame:
  assumes "ensure_generic k ns name n build mg mc w = (r, w')"
  shows "get_fault w' = get_fault w \<and> create_fault w' = create_fault w
     \<and> console w' = console w \<and> objects w \<subseteq>\<^sub>m objects w'"
  using assms
  by (cases rule: ensure_generic_cases[of w k ns name n build mg mc]) (auto simp: map_le_def)

lemma ensure_generic_salt:
  assumes "ensure_generic k ns name n build mg mc w = (r, w')"
  shows "salt_fault w' = salt_fault w"
  using assms
  by (cases rule: ensure_generic_cases[of w k ns name n build mg mc]) auto

lemma ensure_generic_trace:
  assumes "ensure_generic k ns name n build mg mc w = (r, w')"
  obtains evs where "trace w' = trace w @ ApiGet (k, ns, name) # evs"
    and "\<forall>ev\<in>set evs. event_kind ev = Some k \<and> is_create ev \<or> ev = UuidNew"
    and "length (filter is_create evs) \<le> 1"
  using assms
  by (cases rule: ensure_generic_cases[of w k ns name n build mg mc]) auto

lemma ensure_generic_found:
  assumes "ensure_generic k ns name n build mg mc w = (r, w')"
    and "api_query w (k, ns, name) = Inr obj"
  shows "r = None \<and> objects w' = objects w \<and> trace w' = trace w @ [ApiGet (k, ns, name)]"
  using assms
  by (cases rule: ensure_generic_cases[of w k ns name n build mg mc]) auto

lemma ensure_generic_fault:
  assumes "ensure_generic k ns name n build mg mc w = (r, w')"
    and "api_query w (k, ns, name) = Inl e" and "\<not> IsNotFound e"
  shows "r = Some (Wrap e mg) \<and> objects w' = objects w
     \<and> trace w' = trace w @ [ApiGet (k, ns, name)]"
  using assms
  by (cases rule: ensure_generic_cases[of w k ns name n build mg mc]) auto

lemma ensure_generic_create:
  assumes "ensure_generic k ns name n build mg mc w = (r, w')"
    and "\<exists>ev\<in>set (new_events w w'). is_create ev"
  shows "api_query w (k, ns, name) = Inl (StatusError StatusReasonNotFound)"
  using assms
  by (cases rule: ensure_generic_cases[of w k ns name n build mg mc])
     (auto simp: new_events_def)

lemma ensure_generic_again:
  assumes first: "ensure_generic k ns name n build mg mc w = (r, w')"
    and named: "\<forall>e. res_name (build e) = name" "\<forall>e. res_name (build2 e) = name"
    and same: "same_cluster w' w2"
    and second: "ensure_generic k ns name n2 build2 mg mc2 w2 = (r2, w3)"
  shows "objects w3 = objects w'
     \<and> (r = None \<longrightarrow> r2 = None \<and> trace w3 = trace w2 @ [ApiGet (k, ns, name)])
     \<and> ((\<exists>ev\<in>set (new_events w w'). is_created ev)
          \<longrightarrow> trace w3 = trace w2 @ [ApiGet (k, ns, name)])"
proof -
  have q: "api_query w2 (k, ns, name) = api_query w' (k, ns, name)"
    using same by (rule api_query_same_cluster)
  have o: "objects w2 = objects w'" and cf: "create_fault w2 = create_fault w'"
    using same by (simp_all add: same_cluster_def)
  note named' = named[rule_format]
  show ?thesis
  proof (cases rule: ensure_generic_cases[of w k ns name n build mg mc])
    case (found obj)
    with first have "api_query w' (k, ns, name) = Inr obj" by (auto intro: api_query_cong)
    with q have "api_query w2 (k, ns, name) = Inr obj" by simp
    from ensure_generic_found[OF second this] found first o show ?thesis
      by (auto simp: new_events_def)
  next
    case (fault f)
    with first have "api_query w' (k, ns, name) = Inl (fault_error f)"
      by (auto intro: api_query_cong)
    with q have "api_query w2 (k, ns, name) = Inl (fault_error f)" by simp
    from ensure_generic_fault[OF second this] fault first o show ?thesis
      by (auto simp: new_events_def)
  next
    case (refused e)
    with first have w': "objects w' = objects w" "create_fault w' = create_fault w"
      "get_fault w' = get_fault w" by auto
    from refused named' have blocked: "create_fault w (k, ns, name) \<noteq> None" by auto
    note outer = refused
    show ?thesis
    proof (cases rule: ensure_generic_cases[of w2 k ns name n2 build2 mg mc2])
      case (found obj)
      with second o outer first show ?thesis by (auto simp: new_events_def)
    next
      case (fault f)
      with second o outer first show ?thesis by (auto simp: new_events_def)
    next
      case (refused e2)
      with second o outer first show ?thesis by (auto simp: new_events_def)
    next
      case created
      with blocked cf w' named' show ?thesis by auto
    qed
  next
    case created
    with first named' have "objects w' (k, ns, name) = Some (build (entropy w))"
      and "get_fault w' (k, ns, name) = None" by auto
    then have "api_query w' (k, ns, name) = Inr (build (entropy w))"
      by (simp add: api_query_def)
    with q have "api_query w2 (k, ns, name) = Inr (build (entropy w))" by simp
    from ensure_generic_found[OF second this] created first o show ?thesis
      by auto
  qed
qed

lemma ensureJWTSessionSecret_generic:
  "ensureJWTSessionSecret dp ns w =
     ensure_generic Secret ns ''kotsadm-session'' (Suc 0)
       (\<lambda>e. jwtSecret dp ns (uuid_String dp e))
       ''failed to get existing session secret'' ''failed to create jwt session secret'' w"
  by (simp add: ensureJWTSessionSecret_def ensure_generic_def api_Get_def uuid_New_String_def
      split: sum.splits)

lemma ensureS3Secret_generic:
  "ensureS3Secret dp ns w =
     ensure_generic Secret ns ''kotsadm-minio'' (Suc (Suc 0))
       (\<lambda>e. s3Secret dp ns (uuid_String dp e) (uuid_String dp (Suc e)))
       ''failed to get existing s3 secret'' ''failed to create s3 secret'' w"
  by (simp add: ensureS3Secret_def ensure_generic_def api_Get_def uuid_New_String_def
      split: sum.splits)

lemma ensurePostgresSecret_generic:
  "ensurePostgresSecret dp d w =
     ensure_generic Secret (Namespace d) ''kotsadm-postgres'' 0
       (\<lambda>e. pgSecret dp (Namespace d) (PostgresPassword d))
       ''failed to get existing postgres secret'' ''failed to create postgres secret'' w"
  by (simp add: ensurePostgresSecret_def ensure_generic_def api_Get_def split: sum.splits)

lemma ensureMinioConfigMap_generic:
  "ensureMinioConfigMap dp ns w =
     ensure_generic ConfigMap ns ''kotsadm-minio'' 0 (\<lambda>e. minioConfigMap dp ns)
       ''failed to get existing config map'' ''failed to create configmap'' w"
  by (simp add: ensureMinioConfigMap_def ensure_generic_def api_Get_def split: sum.splits)

lemma ensureMinioStatefulset_generic:
  "ensureMinioStatefulset dp ns w =
     ensure_generic StatefulSet ns ''kotsadm-minio'' 0 (\<lambda>e. minioStatefulset dp ns)
       ''failed to get existing statefulset'' ''failed to create minio statefulset'' w"
  by (simp add: ensureMinioStatefulset_def ensure_generic_def api_Get_def split: sum.splits)

lemma ensureMinioService_generic:
  "ensureMinioService dp ns w =
     ensure_generic Service ns ''kotsadm-minio'' 0 (\<lambda>e. minioService dp ns)
       ''failed to get existing service'' ''failed to create service'' w"
  by (simp add: ensureMinioService_def ensure_generic_def api_Get_def split: sum.splits)

lemma ensureMinioJob_generic:
  "ensureMinioJob dp ns w =
     ensure_generic Job ns ''kotsadm-minio'' 0 (\<lambda>e. minioJob dp ns)
       ''failed to get existing job'' ''failed to create job'' w"
  by (simp add: ensureMinioJob_def ensure_generic_def api_Get_def split: sum.splits)

lemma ensureSharedPasswordSecret_hashed_generic:
  "ensureSharedPasswordSecret_hashed dp d w =
     (case hash_failure dp (SharedPassword d) 10 w of
        Some e \<Rightarrow>
          (Some (Wrap e ''failed to bcrypt shared password''),
           record_event (BcryptGenerate (SharedPassword d)) w)
      | None \<Rightarrow>
          ensure_generic Secret (Namespace d) ''kotsadm-password'' 0
            (\<lambda>e. sharedPasswordSecret dp (Namespace d)
                    (bcrypt_hash dp (entropy w) (SharedPassword d) 10))
            ''failed to get existing password secret'' ''failed to create password secret''
            (record_event (BcryptGenerate (SharedPassword d)) (w\<lparr>entropy := Suc (entropy w)\<rparr>)))"
  by (simp add: ensureSharedPasswordSecret_hashed_def ensure_generic_def api_Get_def
      bcrypt_GenerateFromPassword_cases split: sum.splits option.splits)

lemma invoke_simple:
  assumes "op \<noteq> EnsureSharedPasswordSecret"
  obtains n build mc where
    "invoke dp op d w =
       (case ensure_generic (queried_kind op) (Namespace d) (queried_name op) n build
               (get_message op) mc w of (r, w') \<Rightarrow> Returns (r, d) w')"
    "fixed_names dp \<Longrightarrow> \<forall>e. res_name (build e) = queried_name op"
proof (cases op)
  case EnsureJWTSessionSecret
  show ?thesis
    by (rule that[of "Suc 0" "\<lambda>e. jwtSecret dp (Namespace d) (uuid_String dp e)"
          "''failed to create jwt session secret''"])
       (simp_all add: EnsureJWTSessionSecret ensureJWTSessionSecret_generic fixed_names_def)
next
  case EnsurePostgresSecret
  show ?thesis
    by (rule that[of 0 "\<lambda>e. pgSecret dp (Namespace d) (PostgresPassword d)"
          "''failed to create postgres secret''"])
       (simp_all add: EnsurePostgresSecret ensurePostgresSecret_generic fixed_names_def)
next
  case EnsureSharedPasswordSecret
  with assms show ?thesis by simp
next
  case EnsureS3Secret
  show ?thesis
    by (rule that[of "Suc (Suc 0)"
          "\<lambda>e. s3Secret dp (Namespace d) (uuid_String dp e) (uuid_String dp (Suc e))"
          "''failed to create s3 secret''"])
       (simp_all add: EnsureS3Secret ensureS3Secret_generic fixed_names_def)
next
  case EnsureMinioConfigMap
  show ?thesis
    by (rule that[of 0 "\<lambda>e. minioConfigMap dp (Namespace d)" "''failed to create configmap''"])
       (simp_all add: EnsureMinioConfigMap ensureMinioConfigMap_generic fixed_names_def)
next
  case EnsureMinioStatefulset
  show ?thesis
    by (rule that[of 0 "\<lambda>e. minioStatefulset dp (Namespace d)"
          "''failed to create minio statefulset''"])
       (simp_all add: EnsureMinioStatefulset ensureMinioStatefulset_generic fixed_names_def)
next
  case EnsureMinioService
  show ?thesis
    by (rule that[of 0 "\<lambda>e. minioService dp (Namespace d)" "''failed to create service''"])
       (simp_all add: EnsureMinioService ensureMinioService_generic fixed_names_def)
next
  case EnsureMinioJob
  show ?thesis
    by (rule that[of 0 "\<lambda>e. minioJob dp (Namespace d)" "''failed to create job''"])
       (simp_all add: EnsureMinioJob ensureMinioJob_generic fixed_names_def)
qed

section \<open>The password prompt and the shared-password secret\<close>

lemma promptLoop_cases:
  "promptLoop c w = Hangs
   \<or> (\<exists>rest. promptLoop c w = Exits (- 1) (w\<lparr>console := rest\<rparr>))
   \<or> (\<exists>s rest. promptLoop c w = Returns (s, None) (w\<lparr>console := rest\<rparr>) \<and> 6 \<le> length s)"
proof (induction c)
  case Nil
  show ?case by simp
next
  case (Cons a c)
  show ?case
  proof (cases a)
    case (Typed input)
    with Cons show ?thesis by (cases "length input < 6") (auto simp: validatePassword_def)
  next
    case Interrupt
    then show ?thesis by auto
  next
    case Broken
    with Cons show ?thesis by simp
  qed
qed

lemma ensureSharedPasswordSecret_cases:
  obtains (hangs) "SharedPassword d = ''''" "ensureSharedPasswordSecret dp d w = Hangs"
  | (exits) rest where "SharedPassword d = ''''"
      "ensureSharedPasswordSecret dp d w = Exits (- 1) (w\<lparr>console := rest\<rparr>)"
  | (given) r w' where "SharedPassword d \<noteq> ''''"
      "ensureSharedPasswordSecret_hashed dp d w = (r, w')"
      "ensureSharedPasswordSecret dp d w = Returns (r, d) w'"
  | (asked) s rest r w' where "SharedPassword d = ''''" "6 \<le> length s"
      "ensureSharedPasswordSecret_hashed dp (d\<lparr>SharedPassword := s\<rparr>) (w\<lparr>console := rest\<rparr>)
         = (r, w')"
      "ensureSharedPasswordSecret dp d w = Returns (r, d\<lparr>SharedPassword := s\<rparr>) w'"
proof (cases "SharedPassword d = ''''")
  case False
  obtain r w' where h: "ensureSharedPasswordSecret_hashed dp d w = (r, w')"
    by (cases "ensureSharedPasswordSecret_hashed dp d w")
  with False show thesis
    by (intro given[of r w']) (simp_all add: ensureSharedPasswordSecret_def)
next
  case True
  from promptLoop_cases[of "console w" w]
  consider (a) "promptLoop (console w) w = Hangs"
    | (b) rest where "promptLoop (console w) w = Exits (- 1) (w\<lparr>console := rest\<rparr>)"
    | (c) s rest where "promptLoop (console w) w = Returns (s, None) (w\<lparr>console := rest\<rparr>)"
        "6 \<le> length s"
    by blast
  then show thesis
  proof cases
    case a
    with True show thesis
      by (intro hangs) (simp_all add: ensureSharedPasswordSecret_def promptForSharedPassword_def)
  next
    case b
    with True show thesis
      by (intro exits[of rest])
         (simp_all add: ensureSharedPasswordSecret_def promptForSharedPassword_def)
  next
    case c
    obtain r w' where h:
      "ensureSharedPasswordSecret_hashed dp (d\<lparr>SharedPassword := s\<rparr>) (w\<lparr>console := rest\<rparr>)
         = (r, w')"
      by (cases "ensureSharedPasswordSecret_hashed dp (d\<lparr>SharedPassword := s\<rparr>)
                   (w\<lparr>console := rest\<rparr>)")
    with True c show thesis
      by (intro asked[of s rest r w'])
         (simp_all add: ensureSharedPasswordSecret_def promptForSharedPassword_def)
  qed
qed

text \<open>The hashing step: the hash fails, or the secret is ensured with its hash.\<close>

lemma ensureSharedPasswordSecret_hashed_cases:
  fixes dp d w
  defines "pw \<equiv> SharedPassword d"
  obtains (refused) e where "hash_failure dp pw 10 w = Some e"
      "ensureSharedPasswordSecret_hashed dp d w =
         (Some (Wrap e ''failed to bcrypt shared password''), record_event (BcryptGenerate pw) w)"
  | (hashed) build where "hash_failure dp pw 10 w = None"
      "ensureSharedPasswordSecret_hashed dp d w =
         ensure_generic Secret (Namespace d) ''kotsadm-password'' 0 build
           ''failed to get existing password secret'' ''failed to create password secret''
           (record_event (BcryptGenerate pw) (w\<lparr>entropy := Suc (entropy w)\<rparr>))"
      "fixed_names dp \<Longrightarrow> \<forall>e. res_name (build e) = ''kotsadm-password''"
proof (cases "hash_failure dp pw 10 w")
  case (Some e)
  then show thesis
    by (intro refused[of e]) (simp_all add: ensureSharedPasswordSecret_hashed_generic pw_def)
next
  case None
  then show thesis
    by (intro hashed[of "\<lambda>e. sharedPasswordSecret dp (Namespace d)
                           (bcrypt_hash dp (entropy w) (SharedPassword d) 10)"])
       (simp_all add: ensureSharedPasswordSecret_hashed_generic pw_def fixed_names_def)
qed

section \<open>Every ensure-operation at once\<close>

lemma same_cluster_console [simp]: "same_cluster w (w\<lparr>console := c\<rparr>)"
  by (simp add: same_cluster_def)

lemma same_cluster_hashing [simp]:
  "same_cluster w (record_event ev (w\<lparr>console := c, entropy := n\<rparr>))"
  "same_cluster w (record_event ev (w\<lparr>entropy := n\<rparr>))"
  by (simp_all add: same_cluster_def)

lemma invoke_cases:
  fixes dp op d w
  defines "shared \<equiv> (op = EnsureSharedPasswordSecret)"
  obtains (hangs) "shared" "SharedPassword d = ''''" "invoke dp op d w = Hangs"
  | (exits) rest where "shared" "SharedPassword d = ''''"
      "invoke dp op d w = Exits (- 1) (w\<lparr>console := rest\<rparr>)"
  | (refused) d1 w1 e where "shared"
      "d1 = d \<and> SharedPassword d \<noteq> '''' \<or>
       SharedPassword d = '''' \<and> (\<exists>s. 6 \<le> length s \<and> d1 = d\<lparr>SharedPassword := s\<rparr>)"
      "same_cluster w w1" "trace w1 = trace w" "entropy w1 = entropy w"
      "hash_failure dp (SharedPassword d1) 10 w = Some e"
      "invoke dp op d w =
         Returns (Some (Wrap e ''failed to bcrypt shared password''), d1)
           (record_event (BcryptGenerate (SharedPassword d1)) w1)"
      "salt_fault w1 = salt_fault w"
  | (ensured) d1 wm n build mc r w' where
      "\<not> shared \<and> d1 = d \<or> shared \<and> d1 = d \<and> SharedPassword d \<noteq> '''' \<or>
       shared \<and> SharedPassword d = '''' \<and> (\<exists>s. 6 \<le> length s \<and> d1 = d\<lparr>SharedPassword := s\<rparr>)"
      "same_cluster w wm"
      "trace wm = trace w @ (if shared then [BcryptGenerate (SharedPassword d1)] else [])"
      "shared \<Longrightarrow> hash_failure dp (SharedPassword d1) 10 w = None"
      "fixed_names dp \<Longrightarrow> \<forall>e. res_name (build e) = queried_name op"
      "ensure_generic (queried_kind op) (Namespace d) (queried_name op) n build
         (get_message op) mc wm = (r, w')"
      "invoke dp op d w = Returns (r, d1) w'"
      "salt_fault wm = salt_fault w"
proof -
  note H = hangs and X = exits and R = refused and E = ensured
  show thesis
proof (cases "op = EnsureSharedPasswordSecret")
  case False
  from invoke_simple[OF False, of dp d w] obtain n build mc where
    inv: "invoke dp op d w =
       (case ensure_generic (queried_kind op) (Namespace d) (queried_name op) n build
               (get_message op) mc w of (r, w') \<Rightarrow> Returns (r, d) w')"
    and named: "fixed_names dp \<Longrightarrow> \<forall>e. res_name (build e) = queried_name op"
    by blast
  obtain r w' where g: "ensure_generic (queried_kind op) (Namespace d) (queried_name op) n build
               (get_message op) mc w = (r, w')"
    by (cases "ensure_generic (queried_kind op) (Namespace d) (queried_name op) n build
               (get_message op) mc w")
  show thesis
    by (rule E[where ?d1.0 = d and wm = w and build = build and n = n and mc = mc and r = r
          and w' = w'])
       (use False inv named g in \<open>simp_all add: shared_def\<close>)
next
  case True
  have hashed_step: thesis
    if d1: "d1 = d \<and> SharedPassword d \<noteq> '''' \<or>
       SharedPassword d = '''' \<and> (\<exists>s. 6 \<le> length s \<and> d1 = d\<lparr>SharedPassword := s\<rparr>)"
      and w1: "same_cluster w w1" "trace w1 = trace w" "entropy w1 = entropy w"
        "salt_fault w1 = salt_fault w"
      and h: "ensureSharedPasswordSecret_hashed dp d1 w1 = (r, w')"
      and inv: "ensureSharedPasswordSecret dp d w = Returns (r, d1) w'"
    for d1 w1 r w'
  proof (cases rule: ensureSharedPasswordSecret_hashed_cases[of dp d1 w1])
    case (refused e)
    note failure = refused(1)[unfolded hash_failure_cong[OF w1(4)]]
    show thesis
      by (rule R[where ?d1.0 = d1 and ?w1.0 = w1 and e = e])
         (use True d1 w1 h inv refused(2) failure in \<open>simp_all add: shared_def\<close>)
  next
    case (hashed build)
    note accepted = hashed(1)[unfolded hash_failure_cong[OF w1(4)]]
    have ns: "Namespace d1 = Namespace d" using d1 by auto
    show thesis
      by (rule E[where ?d1.0 = d1 and wm = "record_event (BcryptGenerate (SharedPassword d1))
            (w1\<lparr>entropy := Suc (entropy w1)\<rparr>)" and build = build and n = 0
            and mc = "''failed to create password secret''" and r = r and w' = w'])
         (use True d1 w1 h inv hashed(2,3) accepted ns in
            \<open>auto simp: shared_def same_cluster_def\<close>)
  qed
  show thesis
  proof (cases rule: ensureSharedPasswordSecret_cases[of d dp w])
    case hangs
    then show thesis by (intro H) (simp_all add: True shared_def)
  next
    case (exits rest)
    then show thesis by (intro X[of rest]) (simp_all add: True shared_def)
  next
    case (given r w')
    then show thesis by (intro hashed_step[of d w r w']) simp_all
  next
    case (asked s rest r w')
    then show thesis
      by (intro hashed_step[of "d\<lparr>SharedPassword := s\<rparr>" "w\<lparr>console := rest\<rparr>" r w']) auto
  qed
qed
qed

section \<open>The two groups as runs in order\<close>

lemma ensureSecrets_in_order:
  "ensureSecrets dp d w = surface (ensure_in_order dp secrets_order d w)"
proof -
  obtain r1 w1 where a: "ensureJWTSessionSecret dp (Namespace d) w = (r1, w1)"
    by (cases "ensureJWTSessionSecret dp (Namespace d) w")
  obtain r2 w2 where b: "ensurePostgresSecret dp d w1 = (r2, w2)"
    by (cases "ensurePostgresSecret dp d w1")
  show ?thesis
  proof (cases r1)
    case (Some e1)
    with a show ?thesis by (simp add: ensureSecrets_def secrets_order_def)
  next
    case n1: None
    show ?thesis
    proof (cases r2)
      case (Some e2)
      with a b n1 show ?thesis by (simp add: ensureSecrets_def secrets_order_def)
    next
      case n2: None
      show ?thesis
      proof (cases "ensureSharedPasswordSecret dp d w2")
        case Hangs
        with a b n1 n2 show ?thesis by (simp add: ensureSecrets_def secrets_order_def)
      next
        case (Exits code w3)
        with a b n1 n2 show ?thesis by (simp add: ensureSecrets_def secrets_order_def)
      next
        case (Returns x w3)
        obtain r3 d3 where x: "x = (r3, d3)" by (cases x)
        obtain r4 w4 where c: "ensureS3Secret dp (Namespace d3) w3 = (r4, w4)"
          by (cases "ensureS3Secret dp (Namespace d3) w3")
        show ?thesis
        proof (cases r3)
          case (Some e3)
          with a b n1 n2 Returns x show ?thesis
            by (simp add: ensureSecrets_def secrets_order_def)
        next
          case n3: None
          with a b c n1 n2 Returns x show ?thesis
            by (cases r4) (simp_all add: ensureSecrets_def secrets_order_def)
        qed
      qed
    qed
  qed
qed

lemma ensureMinio_in_order:
  "(case ensureMinio dp d w of (r, w') \<Rightarrow> Returns (r, d) w')
     = surface (ensure_in_order dp minio_order d w)"
proof -
  obtain r1 w1 where a: "ensureMinioConfigMap dp (Namespace d) w = (r1, w1)"
    by (cases "ensureMinioConfigMap dp (Namespace d) w")
  obtain r2 w2 where b: "ensureMinioStatefulset dp (Namespace d) w1 = (r2, w2)"
    by (cases "ensureMinioStatefulset dp (Namespace d) w1")
  obtain r3 w3 where c: "ensureMinioService dp (Namespace d) w2 = (r3, w3)"
    by (cases "ensureMinioService dp (Namespace d) w2")
  obtain r4 w4 where e: "ensureMinioJob dp (Namespace d) w3 = (r4, w4)"
    by (cases "ensureMinioJob dp (Namespace d) w3")
  show ?thesis
  proof (cases r1)
    case (Some e1)
    with a show ?thesis by (simp add: ensureMinio_def minio_order_def)
  next
    case n1: None
    show ?thesis
    proof (cases r2)
      case (Some e2)
      with a b n1 show ?thesis by (simp add: ensureMinio_def minio_order_def)
    next
      case n2: None
      show ?thesis
      proof (cases r3)
        case (Some e3)
        with a b c n1 n2 show ?thesis by (simp add: ensureMinio_def minio_order_def)
      next
        case n3: None
        with a b c e n1 n2 show ?thesis
          by (cases r4) (simp_all add: ensureMinio_def minio_order_def)
      qed
    qed
  qed
qed

section \<open>What an invocation and a run leave behind\<close>

lemma ensure_generic_created_object:
  assumes "ensure_generic k ns name n build mg mc w = (r, w')"
    and "ApiCreate key True \<in> set (new_events w w')"
  shows "objects w' key = Some (build (entropy w))"
  using assms
  by (cases rule: ensure_generic_cases[of w k ns name n build mg mc])
     (auto simp: new_events_def)

lemma invoke_parameters:
  assumes "invoke dp op d w = Returns (r, d1) w1"
  shows "d1 = d \<and> (op = EnsureSharedPasswordSecret \<longrightarrow> SharedPassword d \<noteq> '''')
     \<or> op = EnsureSharedPasswordSecret \<and> SharedPassword d = ''''
         \<and> (\<exists>s. 6 \<le> length s \<and> d1 = d\<lparr>SharedPassword := s\<rparr>)"
  using assms by (cases rule: invoke_cases[of op d dp w]) auto

lemma invoke_effect:
  assumes "world_of (invoke dp op d w) = Some w'"
  shows "get_fault w' = get_fault w \<and> create_fault w' = create_fault w
     \<and> objects w \<subseteq>\<^sub>m objects w'
     \<and> trace w' = trace w @ new_events w w'
     \<and> (\<forall>ev\<in>set (new_events w w').
          event_kind ev = None \<or> event_kind ev = Some (queried_kind op))"
proof (cases rule: invoke_cases[of op d dp w])
  case hangs
  from hangs(3) assms show ?thesis by simp
next
  case (exits rest)
  from exits(3) assms have "w' = w\<lparr>console := rest\<rparr>" by simp
  then show ?thesis by (simp add: new_events_def)
next
  case (refused d1 w1 e)
  from refused(7) assms have "w' = record_event (BcryptGenerate (SharedPassword d1)) w1"
    by simp
  with refused(3,4) show ?thesis by (simp add: same_cluster_def new_events_def)
next
  case (ensured d1 wm n build mc r w2)
  from ensured(7) assms have eq: "w2 = w'" by simp
  note g = ensured(6)[unfolded eq]
  obtain evs where
    tr: "trace w' = trace wm @ ApiGet (queried_kind op, Namespace d, queried_name op) # evs"
    and ks: "\<forall>ev\<in>set evs. event_kind ev = Some (queried_kind op) \<and> is_create ev \<or> ev = UuidNew"
    and "length (filter is_create evs) \<le> 1"
    by (rule ensure_generic_trace[OF g]) (rule that)
  let ?evs = "(if op = EnsureSharedPasswordSecret then [BcryptGenerate (SharedPassword d1)] else [])
         @ ApiGet (queried_kind op, Namespace d, queried_name op) # evs"
  have "trace w' = trace w @ ?evs"
    using tr ensured(3) by simp
  then have ne: "new_events w w' = ?evs" and tr': "trace w' = trace w @ new_events w w'"
    by (simp_all add: new_events_def)
  have "\<forall>ev\<in>set ?evs. event_kind ev = None \<or> event_kind ev = Some (queried_kind op)"
    using ks by auto
  with ne have kinds: "\<forall>ev\<in>set (new_events w w').
      event_kind ev = None \<or> event_kind ev = Some (queried_kind op)"
    by simp
  from ensured(2) have same: "objects wm = objects w" "get_fault wm = get_fault w"
    "create_fault wm = create_fault w"
    by (simp_all add: same_cluster_def)
  from ensure_generic_frame[OF g] have frame: "get_fault w' = get_fault wm"
    "create_fault w' = create_fault wm" "objects wm \<subseteq>\<^sub>m objects w'"
    by simp_all
  have "get_fault w' = get_fault w" "create_fault w' = create_fault w"
    "objects w \<subseteq>\<^sub>m objects w'"
    using same frame by simp_all
  with tr' kinds show ?thesis by (intro conjI)
qed

lemma surface_Returns_run:
  assumes "surface out = Returns (r, d1) w1"
  obtains x where "out = Returns (x, d1) w1"
    and "r = map_option (\<lambda>(op, err). Wrap err (step_message op)) x"
proof (cases out)
  case (Returns y w')
  obtain x d' where y: "y = (x, d')" by (cases y)
  show ?thesis
  proof (cases x)
    case None
    with assms Returns y show ?thesis by (intro that[of None]) simp_all
  next
    case (Some f)
    obtain op err where "f = (op, err)" by (cases f)
    with assms Returns y Some show ?thesis by (intro that[of "Some (op, err)"]) simp_all
  qed
next
  case (Exits code w')
  with assms show ?thesis by simp
next
  case Hangs
  with assms show ?thesis by simp
qed

lemma in_order_append:
  "ensure_in_order dp (xs @ ys) d w =
     (case ensure_in_order dp xs d w of
        Returns (None, d1) w1 \<Rightarrow> ensure_in_order dp ys d1 w1
      | Returns (Some failure, d1) w1 \<Rightarrow> Returns (Some failure, d1) w1
      | Exits code w1 \<Rightarrow> Exits code w1
      | Hangs \<Rightarrow> Hangs)"
proof (induction xs arbitrary: d w)
  case Nil
  show ?case by simp
next
  case (Cons op xs)
  show ?case
  proof (cases "invoke dp op d w")
    case (Returns x w1)
    obtain r d1 where x: "x = (r, d1)" by (cases x)
    with Returns Cons show ?thesis by (cases r) simp_all
  next
    case (Exits code w1)
    then show ?thesis by simp
  next
    case Hangs
    then show ?thesis by simp
  qed
qed

lemma in_order_parameters:
  assumes "ensure_in_order dp ops d w = Returns (r, d1) w1"
  shows "d1 = d \<or> SharedPassword d = '''' \<and> (\<exists>s. 6 \<le> length s \<and> d1 = d\<lparr>SharedPassword := s\<rparr>)"
  using assms
proof (induction ops arbitrary: d w)
  case Nil
  then show ?case by simp
next
  case (Cons op ops)
  show ?case
  proof (cases "invoke dp op d w")
    case (Returns x wa)
    obtain ra da where x: "x = (ra, da)" by (cases x)
    from invoke_parameters[OF Returns[unfolded x]]
    have da: "da = d \<or> SharedPassword d = '''' \<and> (\<exists>s. 6 \<le> length s \<and> da = d\<lparr>SharedPassword := s\<rparr>)"
      by blast
    show ?thesis
    proof (cases ra)
      case (Some e)
      with Cons.prems Returns x da show ?thesis by simp
    next
      case None
      with Cons.prems Returns x have "ensure_in_order dp ops da wa = Returns (r, d1) w1" by simp
      from Cons.IH[OF this] da show ?thesis by auto
    qed
  next
    case (Exits code wa)
    with Cons.prems show ?thesis by simp
  next
    case Hangs
    with Cons.prems show ?thesis by simp
  qed
qed

lemma in_order_effect:
  assumes "world_of (ensure_in_order dp ops d w) = Some w'"
  shows "get_fault w' = get_fault w \<and> create_fault w' = create_fault w
     \<and> objects w \<subseteq>\<^sub>m objects w'
     \<and> trace w' = trace w @ new_events w w'
     \<and> (\<forall>ev\<in>set (new_events w w').
          event_kind ev = None \<or> event_kind ev \<in> Some ` queried_kind ` set ops)"
  using assms
proof (induction ops arbitrary: d w)
  case Nil
  then show ?case by (simp add: new_events_def)
next
  case (Cons op ops)
  have step: ?case if "world_of (invoke dp op d w) = Some w'"
  proof -
    from invoke_effect[OF that] show ?thesis by auto
  qed
  show ?case
  proof (cases "invoke dp op d w")
    case (Returns x wa)
    obtain ra da where x: "x = (ra, da)" by (cases x)
    show ?thesis
    proof (cases ra)
      case (Some e)
      with Cons.prems Returns x have "world_of (invoke dp op d w) = Some w'" by simp
      then show ?thesis by (rule step)
    next
      case None
      with Cons.prems Returns x
      have rest: "world_of (ensure_in_order dp ops da wa) = Some w'" by simp
      from Returns have "world_of (invoke dp op d w) = Some wa" by simp
      from invoke_effect[OF this] have
        a: "get_fault wa = get_fault w" "create_fault wa = create_fault w"
           "objects w \<subseteq>\<^sub>m objects wa" "trace wa = trace w @ new_events w wa"
           "\<forall>ev\<in>set (new_events w wa).
              event_kind ev = None \<or> event_kind ev = Some (queried_kind op)"
        by simp_all
      from Cons.IH[OF rest] have
        b: "get_fault w' = get_fault wa" "create_fault w' = create_fault wa"
           "objects wa \<subseteq>\<^sub>m objects w'" "trace w' = trace wa @ new_events wa w'"
           "\<forall>ev\<in>set (new_events wa w').
              event_kind ev = None \<or> event_kind ev \<in> Some ` queried_kind ` set ops"
        by simp_all
      have ne: "new_events w w' = new_events w wa @ new_events wa w'"
        using a(4) b(4) by (rule new_events_trans)
      have tr: "trace w' = trace w @ new_events w w'"
        using a(4) b(4) ne by simp
      have kinds: "\<forall>ev\<in>set (new_events w w').
          event_kind ev = None \<or> event_kind ev \<in> Some ` queried_kind ` set (op # ops)"
        using a(5) b(5) ne by auto
      have "objects w \<subseteq>\<^sub>m objects w'"
        using a(3) b(3) by (rule map_le_trans)
      with tr kinds a b show ?thesis by simp
    qed
  next
    case (Exits code wa)
    with Cons.prems have "world_of (invoke dp op d w) = Some w'" by simp
    then show ?thesis by (rule step)
  next
    case Hangs
    with Cons.prems show ?thesis by simp
  qed
qed

section \<open>Rendering the secrets\<close>

lemma getSecretsYAML_cases:
  fixes dp :: deps and d :: "'a DeployOptions_scheme" and w :: world
  defines "ns \<equiv> Namespace d"
  defines "pw \<equiv> SharedPassword d"
  defines "d1 \<equiv> (if SharedPasswordBcrypt d = ''''
                 then d\<lparr>SharedPasswordBcrypt := bcrypt_hash dp (entropy w) pw 10\<rparr> else d)"
  defines "w1 \<equiv> (if SharedPasswordBcrypt d = ''''
                 then record_event (BcryptGenerate pw) (w\<lparr>entropy := Suc (entropy w)\<rparr>) else w)"
  defines "d2 \<equiv> (if S3SecretKey d = ''''
                 then d1\<lparr>S3SecretKey := uuid_String dp (entropy w1)\<rparr> else d1)"
  defines "w2 \<equiv> (if S3SecretKey d = '''' then draw (Suc 0) w1 else w1)"
  defines "d3 \<equiv> (if S3AccessKey d = ''''
                 then d2\<lparr>S3AccessKey := uuid_String dp (entropy w2)\<rparr> else d2)"
  defines "w3 \<equiv> (if S3AccessKey d = '''' then draw (Suc 0) w2 else w2)"
  obtains (jwt) e where "Encode dp (jwtSecret dp ns (JWT d)) = Inl e"
      "getSecretsYAML dp d w = ((None, Some (Wrap e ''failed to marshal jwt secret'')), d, w)"
  | (pg) a e where "Encode dp (jwtSecret dp ns (JWT d)) = Inr a"
      "Encode dp (pgSecret dp ns (PostgresPassword d)) = Inl e"
      "getSecretsYAML dp d w = ((None, Some (Wrap e ''failed to marshal pg secret'')), d, w)"
  | (bcrypt) a b e where "Encode dp (jwtSecret dp ns (JWT d)) = Inr a"
      "Encode dp (pgSecret dp ns (PostgresPassword d)) = Inr b"
      "SharedPasswordBcrypt d = ''''" "hash_failure dp pw 10 w = Some e"
      "getSecretsYAML dp d w =
         ((None, Some (Wrap e ''failed to bcrypt shared password'')), d,
          record_event (BcryptGenerate pw) w)"
  | (shared) a b e where "Encode dp (jwtSecret dp ns (JWT d)) = Inr a"
      "Encode dp (pgSecret dp ns (PostgresPassword d)) = Inr b"
      "SharedPasswordBcrypt d = '''' \<Longrightarrow> hash_failure dp pw 10 w = None"
      "Encode dp (sharedPasswordSecret dp ns (SharedPasswordBcrypt d1)) = Inl e"
      "getSecretsYAML dp d w =
         ((None, Some (Wrap e ''failed to marshal shared password secret'')), d1, w1)"
  | (s3) a b c e where "Encode dp (jwtSecret dp ns (JWT d)) = Inr a"
      "Encode dp (pgSecret dp ns (PostgresPassword d)) = Inr b"
      "SharedPasswordBcrypt d = '''' \<Longrightarrow> hash_failure dp pw 10 w = None"
      "Encode dp (sharedPasswordSecret dp ns (SharedPasswordBcrypt d1)) = Inr c"
      "Encode dp (s3Secret dp ns (S3AccessKey d3) (S3SecretKey d3)) = Inl e"
      "getSecretsYAML dp d w = ((None, Some (Wrap e ''failed to marshal s3 secret'')), d3, w3)"
  | (rendered) a b c s where "Encode dp (jwtSecret dp ns (JWT d)) = Inr a"
      "Encode dp (pgSecret dp ns (PostgresPassword d)) = Inr b"
      "SharedPasswordBcrypt d = '''' \<Longrightarrow> hash_failure dp pw 10 w = None"
      "Encode dp (sharedPasswordSecret dp ns (SharedPasswordBcrypt d1)) = Inr c"
      "Encode dp (s3Secret dp ns (S3AccessKey d3) (S3SecretKey d3)) = Inr s"
      "getSecretsYAML dp d w =
         ((Some [''secret-jwt.yaml'' \<mapsto> a, ''secret-pg.yaml'' \<mapsto> b,
                 ''secret-shared-password.yaml'' \<mapsto> c, ''secret-s3.yaml'' \<mapsto> s], None),
          d3, w3)"
proof -
  note J = jwt and P = pg and B = bcrypt and S = shared and T = s3 and R = rendered
  show thesis
  proof (cases "Encode dp (jwtSecret dp ns (JWT d))")
    case (Inl e)
    then show thesis by (intro J[of e]) (simp_all add: getSecretsYAML_def ns_def)
  next
    case a: (Inr a)
    show thesis
    proof (cases "Encode dp (pgSecret dp ns (PostgresPassword d))")
      case (Inl e)
      with a show thesis by (intro P[of a e]) (simp_all add: getSecretsYAML_def ns_def)
    next
      case b: (Inr b)
      have rejected: thesis if "SharedPasswordBcrypt d = ''''" "hash_failure dp pw 10 w = Some e"
        for e
        using a b that
        by (intro B[of a b e])
           (simp_all add: getSecretsYAML_def ns_def pw_def bcrypt_GenerateFromPassword_cases)
      have accepted: thesis if ok: "SharedPasswordBcrypt d = '''' \<Longrightarrow> hash_failure dp pw 10 w = None"
      proof -
        have stage: "(if SharedPasswordBcrypt d = ''''
            then (case bcrypt_GenerateFromPassword dp (SharedPassword d) 10 w of
                 (Inl err, w1) \<Rightarrow>
                   (Some (Wrap err ''failed to bcrypt shared password''), d, w1)
               | (Inr bcryptPassword, w1) \<Rightarrow>
                   (None, d\<lparr>SharedPasswordBcrypt := bcryptPassword\<rparr>, w1))
            else (None, d, w)) = (None, d1, w1)"
          using ok by (simp add: d1_def w1_def pw_def bcrypt_GenerateFromPassword_cases)
        have keys: "S3SecretKey d1 = S3SecretKey d" "S3AccessKey d1 = S3AccessKey d"
          "Namespace d1 = ns" "S3AccessKey d2 = S3AccessKey d" "Namespace d2 = ns"
          "Namespace d3 = ns"
          by (simp_all add: d1_def d2_def d3_def ns_def)
        have s3stage: "(if S3SecretKey d1 = ''''
            then (case uuid_New_String dp w1 of (u, w2) \<Rightarrow> (d1\<lparr>S3SecretKey := u\<rparr>, w2))
            else (d1, w1)) = (d2, w2)"
          by (simp add: keys d2_def w2_def uuid_New_String_def)
        have s3stage2: "(if S3AccessKey d2 = ''''
            then (case uuid_New_String dp w2 of (u, w3) \<Rightarrow> (d2\<lparr>S3AccessKey := u\<rparr>, w3))
            else (d2, w2)) = (d3, w3)"
          by (simp add: keys d3_def w3_def uuid_New_String_def)
        have G: "getSecretsYAML dp d w =
            (case Encode dp (sharedPasswordSecret dp ns (SharedPasswordBcrypt d1)) of
               Inl err \<Rightarrow>
                 ((None, Some (Wrap err ''failed to marshal shared password secret'')), d1, w1)
             | Inr sharedPassword \<Rightarrow>
                 (case Encode dp (s3Secret dp ns (S3AccessKey d3) (S3SecretKey d3)) of
                    Inl err \<Rightarrow> ((None, Some (Wrap err ''failed to marshal s3 secret'')), d3, w3)
                  | Inr s3 \<Rightarrow>
                      ((Some [''secret-jwt.yaml'' \<mapsto> a, ''secret-pg.yaml'' \<mapsto> b,
                              ''secret-shared-password.yaml'' \<mapsto> sharedPassword,
                              ''secret-s3.yaml'' \<mapsto> s3], None), d3, w3)))"
        proof (cases "Encode dp (sharedPasswordSecret dp ns (SharedPasswordBcrypt d1))")
          case (Inl e)
          with a b show ?thesis
            unfolding getSecretsYAML_def Let_def
            by (simp only: ns_def[symmetric] stage keys(3,5,6) sum.case prod.case option.case)
        next
          case c: (Inr c)
          show ?thesis
          proof (cases "Encode dp (s3Secret dp ns (S3AccessKey d3) (S3SecretKey d3))")
            case (Inl e)
            with a b c show ?thesis
              unfolding getSecretsYAML_def Let_def
              by (simp only: ns_def[symmetric] stage s3stage s3stage2 keys(3,5,6) sum.case
                  prod.case option.case)
          next
            case (Inr s)
            with a b c show ?thesis
              unfolding getSecretsYAML_def Let_def
              by (simp only: ns_def[symmetric] stage s3stage s3stage2 keys(3,5,6) sum.case
                  prod.case option.case)
          qed
        qed
        show thesis
        proof (cases "Encode dp (sharedPasswordSecret dp ns (SharedPasswordBcrypt d1))")
          case (Inl e)
          with a b ok G show thesis by (intro S[of a b e]) simp_all
        next
          case c: (Inr c)
          show thesis
          proof (cases "Encode dp (s3Secret dp ns (S3AccessKey d3) (S3SecretKey d3))")
            case (Inl e)
            with a b c ok G show thesis by (intro T[of a b c e]) simp_all
          next
            case (Inr s)
            with a b c ok G show thesis by (intro R[of a b c s]) simp_all
          qed
        qed
      qed
      show thesis
      proof (cases "SharedPasswordBcrypt d = ''''")
        case False
        then show thesis by (intro accepted) simp
      next
        case True
        show thesis
        proof (cases "hash_failure dp pw 10 w")
          case None
          then show thesis by (intro accepted)
        next
          case (Some e)
          with True show thesis by (intro rejected[of e])
        qed
      qed
    qed
  qed
qed

lemma getSecretsYAML_full:
  assumes "SharedPasswordBcrypt d \<noteq> ''''" "S3SecretKey d \<noteq> ''''" "S3AccessKey d \<noteq> ''''"
  shows "getSecretsYAML dp d w = (render_secrets dp d, d, w)"
  using assms
  by (cases rule: getSecretsYAML_cases[of dp d w]) (simp_all add: render_secrets_def)

lemma render_secrets_libs:
  "render_secrets (dp\<lparr>uuid_String := u, bcrypt_reject := br, bcrypt_hash := bh\<rparr>) d
     = render_secrets dp d"
  by (simp add: render_secrets_def split: sum.splits)

lemma getMinioYAML_libs:
  "getMinioYAML (dp\<lparr>uuid_String := u, bcrypt_reject := br, bcrypt_hash := bh\<rparr>) ns
     = getMinioYAML dp ns"
  by (simp add: getMinioYAML_def split: sum.splits)

section \<open>Claim C7: rendering with every credential supplied\<close>

text \<open>
  C7. When the shared-password hash and the two S3 keys of the parameters are not empty (the
  session key and the postgres password are used as they are, empty or not), rendering the
  secrets generates nothing: it leaves the parameters and the random source as they were, and
  its documents and its error are the same whatever the state of the world and whatever UUID
  and bcrypt generators are at hand, so two renders give the same documents byte for byte.
  The storage documents depend on the namespace alone.
\<close>

theorem render_deterministic_given_full_input:
  assumes "SharedPasswordBcrypt d \<noteq> ''''" and "S3SecretKey d \<noteq> ''''"
    and "S3AccessKey d \<noteq> ''''"
  shows "getSecretsYAML (dp\<lparr>uuid_String := u, bcrypt_reject := br, bcrypt_hash := bh\<rparr>) d w'
           = (fst (getSecretsYAML dp d w), d, w')
     \<and> snd (getSecretsYAML dp d w) = (d, w)
     \<and> getMinioYAML (dp\<lparr>uuid_String := u, bcrypt_reject := br, bcrypt_hash := bh\<rparr>) ns
           = getMinioYAML dp ns"
  using assms by (simp add: getSecretsYAML_full render_secrets_libs getMinioYAML_libs)

lemma getMinioYAML_cases:
  obtains (failed) e where "getMinioYAML dp ns = (None, Some e)"
      "isl (Encode dp (minioConfigMap dp ns)) \<or> isl (Encode dp (minioStatefulset dp ns))
        \<or> isl (Encode dp (minioService dp ns)) \<or> isl (Encode dp (minioJob dp ns))"
  | (rendered) a b c j where "Encode dp (minioConfigMap dp ns) = Inr a"
      "Encode dp (minioStatefulset dp ns) = Inr b" "Encode dp (minioService dp ns) = Inr c"
      "Encode dp (minioJob dp ns) = Inr j"
      "getMinioYAML dp ns =
         (Some [''minio-configmap.yaml'' \<mapsto> a, ''minio-statefulset.yaml'' \<mapsto> b,
                ''minio-service.yaml'' \<mapsto> c, ''minio-job.yaml'' \<mapsto> j], None)"
proof -
  note F = failed and R = rendered
  show thesis
  proof (cases "Encode dp (minioConfigMap dp ns)")
    case (Inl e)
    then show thesis by (intro F[of "Wrap e ''failed to marshal minio config map''"])
        (simp_all add: getMinioYAML_def)
  next
    case a: (Inr a)
    show thesis
    proof (cases "Encode dp (minioStatefulset dp ns)")
      case (Inl e)
      with a show thesis by (intro F[of "Wrap e ''failed to marshal minio statefulset''"])
          (simp_all add: getMinioYAML_def)
    next
      case b: (Inr b)
      show thesis
      proof (cases "Encode dp (minioService dp ns)")
        case (Inl e)
        with a b show thesis by (intro F[of "Wrap e ''failed to marshal minio service''"])
            (simp_all add: getMinioYAML_def)
      next
        case c: (Inr c)
        show thesis
        proof (cases "Encode dp (minioJob dp ns)")
          case (Inl e)
          with a b c show thesis by (intro F[of "Wrap e ''failed to marshal minio job''"])
              (simp_all add: getMinioYAML_def)
        next
          case (Inr j)
          with a b c show thesis by (intro R[of a b c j]) (simp_all add: getMinioYAML_def)
        qed
      qed
    qed
  qed
qed

text \<open>What a render of the secrets returns: no documents and an error, or all four.\<close>

lemma getSecretsYAML_result:
  fixes dp :: deps and d :: "'a DeployOptions_scheme" and w :: world
  defines "d' \<equiv> fst (snd (getSecretsYAML dp d w))"
  obtains (failed) e where "fst (getSecretsYAML dp d w) = (None, Some e)"
  | (rendered) a b c s where "Encode dp (jwtSecret dp (Namespace d') (JWT d')) = Inr a"
      "Encode dp (pgSecret dp (Namespace d') (PostgresPassword d')) = Inr b"
      "Encode dp (sharedPasswordSecret dp (Namespace d') (SharedPasswordBcrypt d')) = Inr c"
      "Encode dp (s3Secret dp (Namespace d') (S3AccessKey d') (S3SecretKey d')) = Inr s"
      "fst (getSecretsYAML dp d w) =
         (Some [''secret-jwt.yaml'' \<mapsto> a, ''secret-pg.yaml'' \<mapsto> b,
                ''secret-shared-password.yaml'' \<mapsto> c, ''secret-s3.yaml'' \<mapsto> s], None)"
proof -
  note F = failed and R = rendered
  show thesis
  proof (cases rule: getSecretsYAML_cases[of dp d w])
    case (jwt e)
    then show thesis by (intro F[of "Wrap e ''failed to marshal jwt secret''"]) simp
  next
    case (pg a e)
    then show thesis by (intro F[of "Wrap e ''failed to marshal pg secret''"]) simp
  next
    case (bcrypt a b e)
    then show thesis by (intro F[of "Wrap e ''failed to bcrypt shared password''"]) simp
  next
    case (shared a b e)
    then show thesis
      by (intro F[of "Wrap e ''failed to marshal shared password secret''"]) simp
  next
    case (s3 a b c e)
    then show thesis by (intro F[of "Wrap e ''failed to marshal s3 secret''"]) simp
  next
    case (rendered a b c s)
    then show thesis by (intro R[of a b c s]) (simp_all add: d'_def split: if_splits)
  qed
qed

section \<open>Claim C8: a render returns all the documents or none\<close>

text \<open>
  C8. A render of the storage service or of the secrets returns either an error and no
  documents (the map is nil) or no error and the map of all four documents, never a map of
  the documents serialized before a failure; and it returns the error and no documents as
  soon as the serializer fails on one of the four resources (for the secrets: the resources
  built from the parameters as the render leaves them).
\<close>

theorem render_returns_all_or_nothing:
  "(fst (getMinioYAML dp ns) = None \<longleftrightarrow> snd (getMinioYAML dp ns) \<noteq> None)
   \<and> (\<forall>m. fst (getMinioYAML dp ns) = Some m \<longrightarrow>
        dom m = {''minio-configmap.yaml'', ''minio-statefulset.yaml'', ''minio-service.yaml'',
                 ''minio-job.yaml''})
   \<and> (isl (Encode dp (minioConfigMap dp ns)) \<or> isl (Encode dp (minioStatefulset dp ns))
        \<or> isl (Encode dp (minioService dp ns)) \<or> isl (Encode dp (minioJob dp ns))
      \<longrightarrow> fst (getMinioYAML dp ns) = None)
   \<and> (fst (fst (getSecretsYAML dp d w)) = None \<longleftrightarrow> snd (fst (getSecretsYAML dp d w)) \<noteq> None)
   \<and> (\<forall>m. fst (fst (getSecretsYAML dp d w)) = Some m \<longrightarrow>
        dom m = {''secret-jwt.yaml'', ''secret-pg.yaml'', ''secret-shared-password.yaml'',
                 ''secret-s3.yaml''})
   \<and> (isl (Encode dp (jwtSecret dp (Namespace (fst (snd (getSecretsYAML dp d w))))
                       (JWT (fst (snd (getSecretsYAML dp d w))))))
        \<or> isl (Encode dp (pgSecret dp (Namespace (fst (snd (getSecretsYAML dp d w))))
                          (PostgresPassword (fst (snd (getSecretsYAML dp d w))))))
        \<or> isl (Encode dp (sharedPasswordSecret dp (Namespace (fst (snd (getSecretsYAML dp d w))))
                          (SharedPasswordBcrypt (fst (snd (getSecretsYAML dp d w))))))
        \<or> isl (Encode dp (s3Secret dp (Namespace (fst (snd (getSecretsYAML dp d w))))
                          (S3AccessKey (fst (snd (getSecretsYAML dp d w))))
                          (S3SecretKey (fst (snd (getSecretsYAML dp d w))))))
      \<longrightarrow> fst (fst (getSecretsYAML dp d w)) = None)"
proof -
  have minio: "(fst (getMinioYAML dp ns) = None \<longleftrightarrow> snd (getMinioYAML dp ns) \<noteq> None)
   \<and> (\<forall>m. fst (getMinioYAML dp ns) = Some m \<longrightarrow>
        dom m = {''minio-configmap.yaml'', ''minio-statefulset.yaml'', ''minio-service.yaml'',
                 ''minio-job.yaml''})
   \<and> (isl (Encode dp (minioConfigMap dp ns)) \<or> isl (Encode dp (minioStatefulset dp ns))
        \<or> isl (Encode dp (minioService dp ns)) \<or> isl (Encode dp (minioJob dp ns))
      \<longrightarrow> fst (getMinioYAML dp ns) = None)"
  proof (cases rule: getMinioYAML_cases[of dp ns])
    case (failed e)
    then show ?thesis by simp
  next
    case (rendered a b c j)
    then show ?thesis by auto
  qed
  have secrets: "(fst (fst (getSecretsYAML dp d w)) = None
        \<longleftrightarrow> snd (fst (getSecretsYAML dp d w)) \<noteq> None)
   \<and> (\<forall>m. fst (fst (getSecretsYAML dp d w)) = Some m \<longrightarrow>
        dom m = {''secret-jwt.yaml'', ''secret-pg.yaml'', ''secret-shared-password.yaml'',
                 ''secret-s3.yaml''})
   \<and> (isl (Encode dp (jwtSecret dp (Namespace (fst (snd (getSecretsYAML dp d w))))
                       (JWT (fst (snd (getSecretsYAML dp d w))))))
        \<or> isl (Encode dp (pgSecret dp (Namespace (fst (snd (getSecretsYAML dp d w))))
                          (PostgresPassword (fst (snd (getSecretsYAML dp d w))))))
        \<or> isl (Encode dp (sharedPasswordSecret dp (Namespace (fst (snd (getSecretsYAML dp d w))))
                          (SharedPasswordBcrypt (fst (snd (getSecretsYAML dp d w))))))
        \<or> isl (Encode dp (s3Secret dp (Namespace (fst (snd (getSecretsYAML dp d w))))
                          (S3AccessKey (fst (snd (getSecretsYAML dp d w))))
                          (S3SecretKey (fst (snd (getSecretsYAML dp d w))))))
      \<longrightarrow> fst (fst (getSecretsYAML dp d w)) = None)"
  proof (cases rule: getSecretsYAML_result[of dp d w])
    case (failed e)
    then show ?thesis by simp
  next
    case (rendered a b c s)
    then show ?thesis by auto
  qed
  from minio secrets show ?thesis by (intro conjI) (elim conjE, assumption)+
qed

section \<open>Claim C9: a render writes what it generates into the parameters\<close>

text \<open>
  C9. \<open>getSecretsYAML\<close> changes the parameters it is given. With libraries whose UUIDs and
  bcrypt hashes are never the empty string, a successful render leaves the shared-password
  hash and the two S3 keys not empty: a field that was empty holds the value generated for
  it (the hash of the plaintext password, a fresh UUID). A second render of the parameters
  as the first left them, in any state of the world, generates nothing, changes nothing and
  returns the same documents.
\<close>

theorem render_writes_back_and_repeats:
  assumes uuids: "\<forall>i. uuid_String dp i \<noteq> ''''"
    and hashes: "\<forall>i p. bcrypt_hash dp i p 10 \<noteq> ''''"
    and first: "getSecretsYAML dp d w = ((Some m, None), d', w')"
  shows "SharedPasswordBcrypt d' \<noteq> '''' \<and> S3SecretKey d' \<noteq> '''' \<and> S3AccessKey d' \<noteq> ''''
     \<and> (SharedPasswordBcrypt d = ''''
          \<longrightarrow> SharedPasswordBcrypt d' = bcrypt_hash dp (entropy w) (SharedPassword d) 10)
     \<and> (S3SecretKey d = '''' \<longrightarrow> (\<exists>i. S3SecretKey d' = uuid_String dp i))
     \<and> (S3AccessKey d = '''' \<longrightarrow> (\<exists>i. S3AccessKey d' = uuid_String dp i))
     \<and> (\<forall>w2. getSecretsYAML dp d' w2 = ((Some m, None), d', w2))"
proof (cases rule: getSecretsYAML_cases[of dp d w])
  case (jwt e)
  with first show ?thesis by simp
next
  case (pg a e)
  with first show ?thesis by simp
next
  case (bcrypt a b e)
  with first show ?thesis by simp
next
  case (shared a b e)
  with first show ?thesis by simp
next
  case (s3 a b c e)
  with first show ?thesis by simp
next
  case (rendered a b c s)
  from rendered(6) first have m: "m = [''secret-jwt.yaml'' \<mapsto> a, ''secret-pg.yaml'' \<mapsto> b,
      ''secret-shared-password.yaml'' \<mapsto> c, ''secret-s3.yaml'' \<mapsto> s]"
    by simp
  have h: "SharedPasswordBcrypt d' = (if SharedPasswordBcrypt d = ''''
      then bcrypt_hash dp (entropy w) (SharedPassword d) 10 else SharedPasswordBcrypt d)"
    using rendered(6) first by (simp split: if_splits)
  have k: "S3SecretKey d = '''' \<longrightarrow> (\<exists>i. S3SecretKey d' = uuid_String dp i)"
    "S3AccessKey d = '''' \<longrightarrow> (\<exists>i. S3AccessKey d' = uuid_String dp i)"
    "S3SecretKey d \<noteq> '''' \<longrightarrow> S3SecretKey d' = S3SecretKey d"
    "S3AccessKey d \<noteq> '''' \<longrightarrow> S3AccessKey d' = S3AccessKey d"
    using rendered(6) first by (auto split: if_splits)
  have same: "Namespace d' = Namespace d" "JWT d' = JWT d"
    "PostgresPassword d' = PostgresPassword d"
    using rendered(6) first by (auto split: if_splits)
  have full: "SharedPasswordBcrypt d' \<noteq> ''''" "S3SecretKey d' \<noteq> ''''" "S3AccessKey d' \<noteq> ''''"
  proof -
    show "SharedPasswordBcrypt d' \<noteq> ''''" using h hashes by simp
    show "S3SecretKey d' \<noteq> ''''" using k(1,3) uuids by (cases "S3SecretKey d = ''''") metis+
    show "S3AccessKey d' \<noteq> ''''" using k(2,4) uuids by (cases "S3AccessKey d = ''''") metis+
  qed
  have enc: "Encode dp (jwtSecret dp (Namespace d') (JWT d')) = Inr a"
    "Encode dp (pgSecret dp (Namespace d') (PostgresPassword d')) = Inr b"
    "Encode dp (sharedPasswordSecret dp (Namespace d') (SharedPasswordBcrypt d')) = Inr c"
    "Encode dp (s3Secret dp (Namespace d') (S3AccessKey d') (S3SecretKey d')) = Inr s"
    using rendered(1,2,4,5) rendered(6) first by (auto split: if_splits)
  have "render_secrets dp d' = (Some m, None)"
    by (simp add: render_secrets_def enc m)
  with getSecretsYAML_full[OF full]
  have again: "\<forall>w2. getSecretsYAML dp d' w2 = ((Some m, None), d', w2)" by simp
  from full h k(1,2) again show ?thesis by simp
qed

text \<open>
  The theorem of C7 at parameters with every credential supplied, rendered with two
  different pairs of generators in two different states of the world.
\<close>

theorem render_deterministic_given_full_input_witness:
  "SharedPasswordBcrypt
       (sample_options\<lparr>JWT := ''jwt'', SharedPasswordBcrypt := ''$2a$10$hash'',
                        S3SecretKey := ''secret'', S3AccessKey := ''access''\<rparr>) \<noteq> ''''
   \<and> getSecretsYAML sample_deps
       (sample_options\<lparr>JWT := ''jwt'', SharedPasswordBcrypt := ''$2a$10$hash'',
                        S3SecretKey := ''secret'', S3AccessKey := ''access''\<rparr>) fresh_cluster
     = ((Some [''secret-jwt.yaml'' \<mapsto> ''kotsadm-sessionns1jwt'',
               ''secret-pg.yaml'' \<mapsto> ''kotsadm-postgresns1pg'',
               ''secret-shared-password.yaml'' \<mapsto> ''kotsadm-passwordns1$2a$10$hash'',
               ''secret-s3.yaml'' \<mapsto> ''kotsadm-minions1accesssecret''], None),
        sample_options\<lparr>JWT := ''jwt'', SharedPasswordBcrypt := ''$2a$10$hash'',
                        S3SecretKey := ''secret'', S3AccessKey := ''access''\<rparr>, fresh_cluster)
   \<and> getSecretsYAML
       (sample_deps\<lparr>uuid_String := (\<lambda>i. ''other''),
                     bcrypt_reject := (\<lambda>p c. Some (ErrorString ''refused'')),
                     bcrypt_hash := (\<lambda>i p c. ''h'')\<rparr>)
       (sample_options\<lparr>JWT := ''jwt'', SharedPasswordBcrypt := ''$2a$10$hash'',
                        S3SecretKey := ''secret'', S3AccessKey := ''access''\<rparr>)
       (fresh_cluster\<lparr>entropy := 7\<rparr>)
     = ((Some [''secret-jwt.yaml'' \<mapsto> ''kotsadm-sessionns1jwt'',
               ''secret-pg.yaml'' \<mapsto> ''kotsadm-postgresns1pg'',
               ''secret-shared-password.yaml'' \<mapsto> ''kotsadm-passwordns1$2a$10$hash'',
               ''secret-s3.yaml'' \<mapsto> ''kotsadm-minions1accesssecret''], None),
        sample_options\<lparr>JWT := ''jwt'', SharedPasswordBcrypt := ''$2a$10$hash'',
                        S3SecretKey := ''secret'', S3AccessKey := ''access''\<rparr>,
        fresh_cluster\<lparr>entropy := 7\<rparr>)"
proof -
  let ?d = "sample_options\<lparr>JWT := ''jwt'', SharedPasswordBcrypt := ''$2a$10$hash'',
                        S3SecretKey := ''secret'', S3AccessKey := ''access''\<rparr>"
  have f: "SharedPasswordBcrypt ?d \<noteq> ''''" "S3SecretKey ?d \<noteq> ''''" "S3AccessKey ?d \<noteq> ''''"
    by simp_all
  have a: "getSecretsYAML sample_deps ?d fresh_cluster
     = ((Some [''secret-jwt.yaml'' \<mapsto> ''kotsadm-sessionns1jwt'',
               ''secret-pg.yaml'' \<mapsto> ''kotsadm-postgresns1pg'',
               ''secret-shared-password.yaml'' \<mapsto> ''kotsadm-passwordns1$2a$10$hash'',
               ''secret-s3.yaml'' \<mapsto> ''kotsadm-minions1accesssecret''], None), ?d, fresh_cluster)"
    by (simp add: getSecretsYAML_def sample_defs)
  note det = render_deterministic_given_full_input[OF f, where dp = sample_deps
      and w = fresh_cluster and w' = "fresh_cluster\<lparr>entropy := 7\<rparr>"
      and u = "\<lambda>i. ''other''" and br = "\<lambda>p c. Some (ErrorString ''refused'')"
      and bh = "\<lambda>i p c. ''h''", THEN conjunct1]
  from det a f show ?thesis by simp
qed

text \<open>
  The theorem of C8 where the serializer succeeds on the four storage resources, where it
  fails on the third of them, and where it fails on the last of the secrets.
\<close>

theorem render_returns_all_or_nothing_witness:
  "getMinioYAML sample_deps ''ns1''
     = (Some [''minio-configmap.yaml'' \<mapsto> ''kotsadm-minions1config'',
              ''minio-statefulset.yaml'' \<mapsto> ''kotsadm-minions1set'',
              ''minio-service.yaml'' \<mapsto> ''kotsadm-minions1service'',
              ''minio-job.yaml'' \<mapsto> ''kotsadm-minions1job''], None)
   \<and> isl (Encode (sample_deps\<lparr>minioService := (\<lambda>ns. \<lparr>res_name = ''kotsadm-minio'', res_content = []\<rparr>)\<rparr>)
          (minioService (sample_deps\<lparr>minioService :=
              (\<lambda>ns. \<lparr>res_name = ''kotsadm-minio'', res_content = []\<rparr>)\<rparr>) ''ns1''))
   \<and> getMinioYAML (sample_deps\<lparr>minioService :=
          (\<lambda>ns. \<lparr>res_name = ''kotsadm-minio'', res_content = []\<rparr>)\<rparr>) ''ns1''
     = (None, Some (Wrap (ErrorString ''nothing to encode'') ''failed to marshal minio service''))
   \<and> fst (getSecretsYAML (sample_deps\<lparr>s3Secret :=
          (\<lambda>ns a s. \<lparr>res_name = ''kotsadm-minio'', res_content = []\<rparr>)\<rparr>)
          sample_options fresh_cluster)
     = (None, Some (Wrap (ErrorString ''nothing to encode'') ''failed to marshal s3 secret''))"
proof -
  let ?dm = "sample_deps\<lparr>minioService := (\<lambda>ns. \<lparr>res_name = ''kotsadm-minio'', res_content = []\<rparr>)\<rparr>"
  let ?ds = "sample_deps\<lparr>s3Secret := (\<lambda>ns a s. \<lparr>res_name = ''kotsadm-minio'', res_content = []\<rparr>)\<rparr>"
  have a: "getMinioYAML sample_deps ''ns1''
     = (Some [''minio-configmap.yaml'' \<mapsto> ''kotsadm-minions1config'',
              ''minio-statefulset.yaml'' \<mapsto> ''kotsadm-minions1set'',
              ''minio-service.yaml'' \<mapsto> ''kotsadm-minions1service'',
              ''minio-job.yaml'' \<mapsto> ''kotsadm-minions1job''], None)"
    by (simp add: getMinioYAML_def sample_defs)
  have b: "getMinioYAML ?dm ''ns1''
     = (None, Some (Wrap (ErrorString ''nothing to encode'') ''failed to marshal minio service''))"
    by (simp add: getMinioYAML_def sample_defs)
  have c: "fst (getSecretsYAML ?ds sample_options fresh_cluster)
     = (None, Some (Wrap (ErrorString ''nothing to encode'') ''failed to marshal s3 secret''))"
    by (simp add: getSecretsYAML_def api_defs sample_defs)
  have fails: "isl (Encode ?dm (minioConfigMap ?dm ''ns1''))
      \<or> isl (Encode ?dm (minioStatefulset ?dm ''ns1''))
      \<or> isl (Encode ?dm (minioService ?dm ''ns1'')) \<or> isl (Encode ?dm (minioJob ?dm ''ns1''))"
    by (simp add: sample_defs)
  note none = render_returns_all_or_nothing[where dp = ?dm and ns = "''ns1''",
      THEN conjunct2, THEN conjunct2, THEN conjunct1, rule_format, OF fails]
  have i: "isl (Encode ?dm (minioService ?dm ''ns1''))" by (simp add: sample_defs)
  from a b c i none show ?thesis by simp
qed

text \<open>
  The theorem of C9 at parameters with no credential supplied: the first render fills the
  three fields, the second returns the documents of the first.
\<close>

theorem render_writes_back_and_repeats_witness:
  "getSecretsYAML sample_deps sample_options fresh_cluster
     = ((Some [''secret-jwt.yaml'' \<mapsto> ''kotsadm-sessionns1'',
               ''secret-pg.yaml'' \<mapsto> ''kotsadm-postgresns1pg'',
               ''secret-shared-password.yaml'' \<mapsto> ''kotsadm-passwordns1$2a$10$password'',
               ''secret-s3.yaml'' \<mapsto> ''kotsadm-minions1uuid-xxuuid-x''], None),
        sample_options\<lparr>SharedPasswordBcrypt := ''$2a$10$password'', S3SecretKey := ''uuid-x'',
                        S3AccessKey := ''uuid-xx''\<rparr>,
        fresh_cluster\<lparr>entropy := 3, trace := [BcryptGenerate ''password'', UuidNew, UuidNew]\<rparr>)
   \<and> getSecretsYAML sample_deps
       (sample_options\<lparr>SharedPasswordBcrypt := ''$2a$10$password'', S3SecretKey := ''uuid-x'',
                        S3AccessKey := ''uuid-xx''\<rparr>) fresh_cluster
     = ((Some [''secret-jwt.yaml'' \<mapsto> ''kotsadm-sessionns1'',
               ''secret-pg.yaml'' \<mapsto> ''kotsadm-postgresns1pg'',
               ''secret-shared-password.yaml'' \<mapsto> ''kotsadm-passwordns1$2a$10$password'',
               ''secret-s3.yaml'' \<mapsto> ''kotsadm-minions1uuid-xxuuid-x''], None),
        sample_options\<lparr>SharedPasswordBcrypt := ''$2a$10$password'', S3SecretKey := ''uuid-x'',
                        S3AccessKey := ''uuid-xx''\<rparr>, fresh_cluster)"
proof -
  let ?m = "[''secret-jwt.yaml'' \<mapsto> ''kotsadm-sessionns1'',
               ''secret-pg.yaml'' \<mapsto> ''kotsadm-postgresns1pg'',
               ''secret-shared-password.yaml'' \<mapsto> ''kotsadm-passwordns1$2a$10$password'',
               ''secret-s3.yaml'' \<mapsto> ''kotsadm-minions1uuid-xxuuid-x'']"
  let ?d' = "sample_options\<lparr>SharedPasswordBcrypt := ''$2a$10$password'', S3SecretKey := ''uuid-x'',
                        S3AccessKey := ''uuid-xx''\<rparr>"
  let ?w' = "fresh_cluster\<lparr>entropy := 3, trace := [BcryptGenerate ''password'', UuidNew, UuidNew]\<rparr>"
  have u: "\<forall>i. uuid_String sample_deps i \<noteq> ''''" by (simp add: sample_defs)
  have h: "\<forall>i p. bcrypt_hash sample_deps i p 10 \<noteq> ''''" by (simp add: sample_defs)
  have a: "getSecretsYAML sample_deps sample_options fresh_cluster = ((Some ?m, None), ?d', ?w')"
    by (simp add: getSecretsYAML_def api_defs sample_defs numeral_eq_Suc)
  note again = render_writes_back_and_repeats[OF u h a, THEN conjunct2, THEN conjunct2,
      THEN conjunct2, THEN conjunct2, THEN conjunct2, THEN conjunct2, rule_format,
      of fresh_cluster]
  from a again show ?thesis by simp
qed

section \<open>A second invocation\<close>

lemma created_le_create: "length (filter is_created evs) \<le> length (filter is_create evs)"
proof (induction evs)
  case Nil
  show ?case by simp
next
  case (Cons ev evs)
  then show ?case by (cases ev) auto
qed

lemma no_create_no_created: "\<forall>ev\<in>set evs. \<not> is_create ev \<Longrightarrow> filter is_created evs = []"
proof (induction evs)
  case Nil
  show ?case by simp
next
  case (Cons ev evs)
  then show ?case by (cases ev) auto
qed

lemma invoke_again:
  assumes names: "fixed_names dp"
    and first: "invoke dp op d w = Returns (r1, d1) w1"
  obtains r2 w2 where "invoke dp op d1 w1 = Returns (r2, d1) w2"
    and "objects w2 = objects w1"
    and "r1 = None \<Longrightarrow> r2 = None \<and> (\<forall>ev\<in>set (new_events w1 w2). \<not> is_create ev)"
    and "length (filter is_created (new_events w w2)) \<le> 1"
proof (cases rule: invoke_cases[of op d dp w])
  case hangs
  with first show ?thesis by simp
next
  case (exits rest)
  with first show ?thesis by simp
next
  case (refused da wa e)
  from refused first have d1: "d1 = da" and r1: "r1 = Some (Wrap e ''failed to bcrypt shared password'')"
    and w1: "w1 = record_event (BcryptGenerate (SharedPassword da)) wa" by auto
  from refused have pw: "SharedPassword da \<noteq> ''''" by auto
  have tr1: "trace w1 = trace w @ [BcryptGenerate (SharedPassword da)]"
    using w1 refused by simp
  have sf: "salt_fault w1 = salt_fault w" using w1 refused(8) by simp
  note failed = refused(6)
  show ?thesis
  proof (cases rule: invoke_cases[of op d1 dp w1])
    case hangs
    with pw d1 show ?thesis by simp
  next
    case (exits rest)
    with pw d1 show ?thesis by simp
  next
    case (refused db wb e2)
    with pw d1 have db: "db = d1" by auto
    let ?w2 = "record_event (BcryptGenerate (SharedPassword db)) wb"
    have "trace ?w2 = trace w @ [BcryptGenerate (SharedPassword da), BcryptGenerate (SharedPassword db)]"
      using refused tr1 by simp
    then have ne: "new_events w ?w2 =
        [BcryptGenerate (SharedPassword da), BcryptGenerate (SharedPassword db)]"
      by (simp add: new_events_def)
    show ?thesis
      by (rule that[of "Some (Wrap e2 ''failed to bcrypt shared password'')" ?w2])
         (use refused db r1 ne in \<open>simp_all add: same_cluster_def\<close>)
  next
    case (ensured db wm n build mc r w')
    with pw d1 have "db = d1" by auto
    with ensured(4)[unfolded hash_failure_cong[OF sf]] ensured(1) refused(1) failed d1 pw
    show ?thesis by auto
  qed
next
  case (ensured da wm n build mc r w')
  from ensured first have d1: "d1 = da" and r1: "r1 = r" and w1: "w1 = w'" by auto
  note g1 = ensured(6)[unfolded r1[symmetric] w1[symmetric]]
  from ensured(1) have ns: "Namespace da = Namespace d" by auto
  from ensured(1) have pw: "op = EnsureSharedPasswordSecret \<Longrightarrow> SharedPassword da \<noteq> ''''"
    by auto
  have sf: "salt_fault w1 = salt_fault w" using ensure_generic_salt[OF g1] ensured(8) by simp
  note accepted = ensured(4)
  let ?pre1 = "if op = EnsureSharedPasswordSecret then [BcryptGenerate (SharedPassword da)] else []"
  from ensure_generic_trace[OF g1] obtain evs1 where
    tr1: "trace w1 = trace wm @ ApiGet (queried_kind op, Namespace d, queried_name op) # evs1"
    and c1: "length (filter is_create evs1) \<le> 1"
    by blast
  show ?thesis
  proof (cases rule: invoke_cases[of op d1 dp w1])
    case hangs
    with pw d1 show ?thesis by simp
  next
    case (exits rest)
    with pw d1 show ?thesis by simp
  next
    case (refused db wb e2)
    with pw d1 have "db = d1" by auto
    with refused(1) refused(6)[unfolded hash_failure_cong[OF sf]] accepted d1
    show ?thesis by simp
  next
    case second: (ensured db wm2 n2 build2 mc2 r2 w2)
    with pw d1 have db: "db = d1" by auto
    note g2 = second(6)[unfolded d1 ns]
    have named: "\<forall>e. res_name (build e) = queried_name op"
      "\<forall>e. res_name (build2 e) = queried_name op"
      using names ensured(5) second(5) by simp_all
    from ensure_generic_again[OF g1 named second(2) g2]
    have o: "objects w2 = objects w1"
      and none: "r1 = None \<longrightarrow> r2 = None
         \<and> trace w2 = trace wm2 @ [ApiGet (queried_kind op, Namespace d, queried_name op)]"
      and once: "(\<exists>ev\<in>set (new_events wm w1). is_created ev)
         \<longrightarrow> trace w2 = trace wm2 @ [ApiGet (queried_kind op, Namespace d, queried_name op)]"
      by simp_all
    let ?pre2 = "if op = EnsureSharedPasswordSecret then [BcryptGenerate (SharedPassword db)] else []"
    from ensure_generic_trace[OF g2] obtain evs2 where
      tr2: "trace w2 = trace wm2 @ ApiGet (queried_kind op, Namespace d, queried_name op) # evs2"
      and c2: "length (filter is_create evs2) \<le> 1"
      by blast
    have ne12: "new_events w1 w2 =
        ?pre2 @ ApiGet (queried_kind op, Namespace d, queried_name op) # evs2"
      using tr2 second(3) by (simp add: new_events_def)
    have ne: "new_events w w2 =
        ?pre1 @ ApiGet (queried_kind op, Namespace d, queried_name op) # evs1
        @ ?pre2 @ ApiGet (queried_kind op, Namespace d, queried_name op) # evs2"
      using tr1 tr2 ensured(3) second(3) by (simp add: new_events_def)
    have cnt: "length (filter is_created (new_events w w2))
        = length (filter is_created evs1) + length (filter is_created evs2)"
      by (simp add: ne)
    have le1: "length (filter is_created evs1) \<le> 1" "length (filter is_created evs2) \<le> 1"
      using c1 c2 created_le_create[of evs1] created_le_create[of evs2] by linarith+
    have total: "length (filter is_created (new_events w w2)) \<le> 1"
    proof (cases "filter is_created evs1 = []")
      case True
      with cnt le1 show ?thesis by simp
    next
      case False
      then have "\<exists>ev\<in>set evs1. is_created ev"
        by (metis filter_False)
      then have "\<exists>ev\<in>set (new_events wm w1). is_created ev"
        using tr1 by (auto simp: new_events_def)
      with once tr2 have "evs2 = []" by simp
      with cnt le1 show ?thesis by simp
    qed
    have quiet: "r2 = None \<and> (\<forall>ev\<in>set (new_events w1 w2). \<not> is_create ev)" if "r1 = None"
    proof -
      from that none tr2 have "r2 = None" "evs2 = []" by simp_all
      with ne12 show ?thesis by auto
    qed
    show ?thesis
      by (rule that[of r2 w2]) (use second db o quiet total in simp_all)
  qed
qed

lemma invoke_found:
  assumes "invoke dp op d w = Returns (r1, d1) w1"
    and "api_query w (queried_key op (Namespace d)) = Inr obj"
  shows "objects w1 = objects w \<and> (\<forall>ev\<in>set (new_events w w1). \<not> is_create ev)"
proof (cases rule: invoke_cases[of op d dp w])
  case hangs
  with assms show ?thesis by simp
next
  case (exits rest)
  with assms show ?thesis by simp
next
  case (refused da wa e)
  with assms(1) have "w1 = record_event (BcryptGenerate (SharedPassword da)) wa" by auto
  with refused show ?thesis by (simp add: new_events_def same_cluster_def)
next
  case (ensured da wm n build mc r w')
  with assms(1) have eq: "r = r1" "w' = w1" by auto
  note g = ensured(6)[unfolded eq]
  have "api_query wm (queried_kind op, Namespace d, queried_name op) = Inr obj"
    using api_query_same_cluster[OF ensured(2)] assms(2) by (simp add: queried_key_def)
  from ensure_generic_found[OF g this] ensured(2) ensured(3) show ?thesis
    by (auto simp: new_events_def same_cluster_def)
qed

section \<open>Claim C1: the ensure-operations are idempotent\<close>

text \<open>
  C1. For each of the eight ensure-operations, whose builders give the resource the name the
  operation queries, and for every state of the cluster: the objects of the cluster after two
  invocations in succession are the objects after one; an operation that returned is followed
  by a second invocation that returns without asking again and leaves the objects as the
  first left them; over both invocations at most one create succeeds, and after a first
  invocation that returned no error the second attempts no create; and when the query finds
  the resource, the operation changes no object and attempts no create.
\<close>

theorem ensure_idempotent:
  assumes "fixed_names dp"
  shows "map_option objects (world_of (invoke_twice dp op d w))
           = map_option objects (world_of (invoke dp op d w))
     \<and> (\<forall>r1 d1 w1. invoke dp op d w = Returns (r1, d1) w1 \<longrightarrow>
          (\<exists>r2 w2. invoke dp op d1 w1 = Returns (r2, d1) w2 \<and> objects w2 = objects w1
             \<and> length (filter is_created (new_events w w2)) \<le> 1
             \<and> (r1 = None \<longrightarrow> r2 = None \<and> (\<forall>ev\<in>set (new_events w1 w2). \<not> is_create ev)))
          \<and> (\<forall>obj. api_query w (queried_key op (Namespace d)) = Inr obj
                \<longrightarrow> objects w1 = objects w \<and> (\<forall>ev\<in>set (new_events w w1). \<not> is_create ev)))"
proof -
  have second: "\<exists>r2 w2. invoke dp op d1 w1 = Returns (r2, d1) w2 \<and> objects w2 = objects w1
             \<and> length (filter is_created (new_events w w2)) \<le> 1
             \<and> (r1 = None \<longrightarrow> r2 = None \<and> (\<forall>ev\<in>set (new_events w1 w2). \<not> is_create ev))"
    if first: "invoke dp op d w = Returns (r1, d1) w1" for r1 d1 w1
  proof -
    obtain r2 w2 where "invoke dp op d1 w1 = Returns (r2, d1) w2"
      and "objects w2 = objects w1"
      and "r1 = None \<Longrightarrow> r2 = None \<and> (\<forall>ev\<in>set (new_events w1 w2). \<not> is_create ev)"
      and "length (filter is_created (new_events w w2)) \<le> 1"
      by (rule invoke_again[OF assms first]) (rule that)
    then show ?thesis by (intro exI[of _ r2] exI[of _ w2]) simp
  qed
  have twice: "map_option objects (world_of (invoke_twice dp op d w))
           = map_option objects (world_of (invoke dp op d w))"
  proof (cases "invoke dp op d w")
    case (Returns x w1)
    obtain r1 d1 where x: "x = (r1, d1)" by (cases x)
    from second[OF Returns[unfolded x]] obtain r2 w2 where
      "invoke dp op d1 w1 = Returns (r2, d1) w2" "objects w2 = objects w1" by blast
    with Returns x show ?thesis by (simp add: invoke_twice_def)
  next
    case (Exits code w1)
    then show ?thesis by (simp add: invoke_twice_def)
  next
    case Hangs
    then show ?thesis by (simp add: invoke_twice_def)
  qed
  have found: "objects w1 = objects w \<and> (\<forall>ev\<in>set (new_events w w1). \<not> is_create ev)"
    if "invoke dp op d w = Returns (r1, d1) w1"
      and "api_query w (queried_key op (Namespace d)) = Inr obj" for r1 d1 w1 obj
    using that by (rule invoke_found)
  show ?thesis
  proof (intro conjI allI impI)
    show "map_option objects (world_of (invoke_twice dp op d w))
           = map_option objects (world_of (invoke dp op d w))"
      by (rule twice)
  next
    fix r1 d1 w1
    assume "invoke dp op d w = Returns (r1, d1) w1"
    then show "\<exists>r2 w2. invoke dp op d1 w1 = Returns (r2, d1) w2 \<and> objects w2 = objects w1
             \<and> length (filter is_created (new_events w w2)) \<le> 1
             \<and> (r1 = None \<longrightarrow> r2 = None \<and> (\<forall>ev\<in>set (new_events w1 w2). \<not> is_create ev))"
      by (rule second)
  next
    fix r1 d1 w1 obj
    assume "invoke dp op d w = Returns (r1, d1) w1"
      and "api_query w (queried_key op (Namespace d)) = Inr obj"
    then show "objects w1 = objects w" using found by blast
  next
    fix r1 d1 w1 obj
    assume "invoke dp op d w = Returns (r1, d1) w1"
      and "api_query w (queried_key op (Namespace d)) = Inr obj"
    then show "\<forall>ev\<in>set (new_events w w1). \<not> is_create ev" using found by blast
  qed
qed

text \<open>
  The theorem at the S3 secret in an empty cluster, where the secret is created once, and at
  the cluster that the first invocation leaves, where the secret is found.
\<close>

theorem ensure_idempotent_witness:
  "fixed_names sample_deps
   \<and> invoke sample_deps EnsureS3Secret sample_options fresh_cluster
     = Returns (None, sample_options)
         (fresh_cluster\<lparr>objects := [(Secret, ''ns1'', ''kotsadm-minio'')
                             \<mapsto> \<lparr>res_name = ''kotsadm-minio'',
                                 res_content = [''ns1'', ''uuid-'', ''uuid-x'']\<rparr>],
                         entropy := 2,
                         trace := [ApiGet (Secret, ''ns1'', ''kotsadm-minio''), UuidNew, UuidNew,
                                   ApiCreate (Secret, ''ns1'', ''kotsadm-minio'') True]\<rparr>)
   \<and> map_option objects (world_of (invoke_twice sample_deps EnsureS3Secret sample_options
         fresh_cluster))
     = Some [(Secret, ''ns1'', ''kotsadm-minio'')
               \<mapsto> \<lparr>res_name = ''kotsadm-minio'', res_content = [''ns1'', ''uuid-'', ''uuid-x'']\<rparr>]
   \<and> invoke sample_deps EnsureS3Secret sample_options
         (fresh_cluster\<lparr>objects := [(Secret, ''ns1'', ''kotsadm-minio'')
                             \<mapsto> \<lparr>res_name = ''kotsadm-minio'',
                                 res_content = [''ns1'', ''uuid-'', ''uuid-x'']\<rparr>],
                         entropy := 2,
                         trace := [ApiGet (Secret, ''ns1'', ''kotsadm-minio''), UuidNew, UuidNew,
                                   ApiCreate (Secret, ''ns1'', ''kotsadm-minio'') True]\<rparr>)
     = Returns (None, sample_options)
         (fresh_cluster\<lparr>objects := [(Secret, ''ns1'', ''kotsadm-minio'')
                             \<mapsto> \<lparr>res_name = ''kotsadm-minio'',
                                 res_content = [''ns1'', ''uuid-'', ''uuid-x'']\<rparr>],
                         entropy := 2,
                         trace := [ApiGet (Secret, ''ns1'', ''kotsadm-minio''), UuidNew, UuidNew,
                                   ApiCreate (Secret, ''ns1'', ''kotsadm-minio'') True,
                                   ApiGet (Secret, ''ns1'', ''kotsadm-minio'')]\<rparr>)"
proof -
  let ?obj = "\<lparr>res_name = ''kotsadm-minio'', res_content = [''ns1'', ''uuid-'', ''uuid-x'']\<rparr>"
  let ?w1 = "fresh_cluster\<lparr>objects := [(Secret, ''ns1'', ''kotsadm-minio'') \<mapsto> ?obj],
                         entropy := 2,
                         trace := [ApiGet (Secret, ''ns1'', ''kotsadm-minio''), UuidNew, UuidNew,
                                   ApiCreate (Secret, ''ns1'', ''kotsadm-minio'') True]\<rparr>"
  let ?w2 = "fresh_cluster\<lparr>objects := [(Secret, ''ns1'', ''kotsadm-minio'') \<mapsto> ?obj],
                         entropy := 2,
                         trace := [ApiGet (Secret, ''ns1'', ''kotsadm-minio''), UuidNew, UuidNew,
                                   ApiCreate (Secret, ''ns1'', ''kotsadm-minio'') True,
                                   ApiGet (Secret, ''ns1'', ''kotsadm-minio'')]\<rparr>"
  have names: "fixed_names sample_deps"
    by (simp add: fixed_names_def sample_deps_def)
  have a: "invoke sample_deps EnsureS3Secret sample_options fresh_cluster
      = Returns (None, sample_options) ?w1"
    by (simp add: ensureS3Secret_def api_defs sample_defs numeral_2_eq_2)
  have b: "invoke sample_deps EnsureS3Secret sample_options ?w1
      = Returns (None, sample_options) ?w2"
    by (simp add: ensureS3Secret_def api_defs sample_defs)
  have q: "api_query ?w1 (queried_key EnsureS3Secret (Namespace sample_options)) = Inr ?obj"
    by (simp add: api_defs sample_defs queried_key_def)
  note idem = ensure_idempotent[OF names, of EnsureS3Secret sample_options]
  from idem[of fresh_cluster] a
  have "map_option objects (world_of (invoke_twice sample_deps EnsureS3Secret sample_options
         fresh_cluster)) = Some (objects ?w1)"
    by simp
  moreover from idem[of ?w1] b q have "objects ?w2 = objects ?w1" by blast
  ultimately show ?thesis using names a b by (simp add: sample_defs)
qed

section \<open>Claim C2: a failed query is fatal and creates nothing\<close>

text \<open>
  C2. For every ensure-operation that returns: if the existence query was made and failed with
  an error that is not a not-found error, the operation returns that error wrapped with the
  message of its query, leaves the objects of the cluster as they were and attempts no create;
  a create is attempted only when the query answered not-found; and every operation other than
  the shared-password one (which hashes first) always makes its query.
\<close>

theorem ensure_query_failure_is_fatal:
  assumes "invoke dp op d w = Returns (r, d') w'"
  shows "(\<forall>e. ApiGet (queried_key op (Namespace d)) \<in> set (new_events w w')
            \<and> api_query w (queried_key op (Namespace d)) = Inl e \<and> \<not> IsNotFound e
          \<longrightarrow> r = Some (Wrap e (get_message op)) \<and> objects w' = objects w
              \<and> (\<forall>ev\<in>set (new_events w w'). \<not> is_create ev))
       \<and> ((\<exists>ev\<in>set (new_events w w'). is_create ev)
          \<longrightarrow> (\<exists>e. api_query w (queried_key op (Namespace d)) = Inl e \<and> IsNotFound e))
       \<and> (op \<noteq> EnsureSharedPasswordSecret
          \<longrightarrow> ApiGet (queried_key op (Namespace d)) \<in> set (new_events w w'))"
proof (cases rule: invoke_cases[of op d dp w])
  case hangs
  with assms show ?thesis by simp
next
  case (exits rest)
  with assms show ?thesis by simp
next
  case (refused d1 w1 e)
  with assms have "new_events w w' = [BcryptGenerate (SharedPassword d1)]"
    by (auto simp: new_events_def)
  with refused show ?thesis by simp
next
  case (ensured d1 wm n build mc r2 w2)
  let ?key = "queried_key op (Namespace d)"
  from ensured assms have eq: "r2 = r" "w2 = w'" by simp_all
  note g = ensured(6)[unfolded eq]
  have q: "api_query wm ?key = api_query w ?key"
    using ensured(2) by (rule api_query_same_cluster)
  have o: "objects wm = objects w" using ensured(2) by (simp add: same_cluster_def)
  from ensure_generic_trace[OF g] obtain evs where
    tr: "trace w' = trace wm @ ApiGet ?key # evs"
    by (auto simp: queried_key_def)
  have ne: "new_events w w' =
      (if op = EnsureSharedPasswordSecret then [BcryptGenerate (SharedPassword d1)] else [])
        @ new_events wm w'"
    using tr ensured(3) by (simp add: new_events_def)
  have c: "(\<exists>ev\<in>set (new_events w w'). is_create ev)
      \<longleftrightarrow> (\<exists>ev\<in>set (new_events wm w'). is_create ev)"
    by (auto simp: ne)
  have 1: "r = Some (Wrap e (get_message op)) \<and> objects w' = objects w
      \<and> (\<forall>ev\<in>set (new_events w w'). \<not> is_create ev)"
    if "api_query w ?key = Inl e" "\<not> IsNotFound e" for e
  proof -
    from that q have "api_query wm (queried_kind op, Namespace d, queried_name op) = Inl e"
      by (simp add: queried_key_def)
    from ensure_generic_fault[OF g this that(2)] o
    have "r = Some (Wrap e (get_message op))" "objects w' = objects w"
      "new_events wm w' = [ApiGet ?key]"
      by (simp_all add: new_events_def queried_key_def)
    then show ?thesis using c by simp
  qed
  have 2: "\<exists>e. api_query w ?key = Inl e \<and> IsNotFound e"
    if "\<exists>ev\<in>set (new_events w w'). is_create ev"
  proof -
    from that c have "\<exists>ev\<in>set (new_events wm w'). is_create ev" by simp
    then have "api_query wm (queried_kind op, Namespace d, queried_name op)
        = Inl (StatusError StatusReasonNotFound)"
      by (rule ensure_generic_create[OF g])
    with q have "api_query w ?key = Inl (StatusError StatusReasonNotFound)"
      by (simp add: queried_key_def)
    then show ?thesis by simp
  qed
  have 3: "ApiGet ?key \<in> set (new_events w w')"
    using ne tr by (simp add: new_events_def)
  from 1 2 3 show ?thesis by blast
qed

text \<open>
  The theorem at two inputs: the job operation against a control plane that forbids every
  request, and the session-secret operation against an empty cluster.
\<close>

theorem ensure_query_failure_is_fatal_witness:
  "invoke sample_deps EnsureMinioJob sample_options
       (fresh_cluster\<lparr>get_fault := (\<lambda>key. Some Forbidden)\<rparr>)
     = Returns (Some (Wrap (StatusError StatusReasonForbidden) ''failed to get existing job''),
                sample_options)
         (fresh_cluster\<lparr>get_fault := (\<lambda>key. Some Forbidden),
                         trace := [ApiGet (Job, ''ns1'', ''kotsadm-minio'')]\<rparr>)
   \<and> api_query (fresh_cluster\<lparr>get_fault := (\<lambda>key. Some Forbidden)\<rparr>)
         (queried_key EnsureMinioJob (Namespace sample_options))
       = Inl (StatusError StatusReasonForbidden)
   \<and> \<not> IsNotFound (StatusError StatusReasonForbidden)
   \<and> invoke sample_deps EnsureJWTSessionSecret sample_options fresh_cluster
     = Returns (None, sample_options)
         (fresh_cluster\<lparr>objects := [(Secret, ''ns1'', ''kotsadm-session'')
                             \<mapsto> \<lparr>res_name = ''kotsadm-session'', res_content = [''ns1'', ''uuid-'']\<rparr>],
                         entropy := 1,
                         trace := [ApiGet (Secret, ''ns1'', ''kotsadm-session''), UuidNew,
                                   ApiCreate (Secret, ''ns1'', ''kotsadm-session'') True]\<rparr>)
   \<and> api_query fresh_cluster (queried_key EnsureJWTSessionSecret (Namespace sample_options))
       = Inl (StatusError StatusReasonNotFound)"
proof -
  let ?wF = "fresh_cluster\<lparr>get_fault := (\<lambda>key. Some Forbidden)\<rparr>"
  let ?wF' = "fresh_cluster\<lparr>get_fault := (\<lambda>key. Some Forbidden),
                         trace := [ApiGet (Job, ''ns1'', ''kotsadm-minio'')]\<rparr>"
  let ?w' = "fresh_cluster\<lparr>objects := [(Secret, ''ns1'', ''kotsadm-session'')
                             \<mapsto> \<lparr>res_name = ''kotsadm-session'', res_content = [''ns1'', ''uuid-'']\<rparr>],
                         entropy := 1,
                         trace := [ApiGet (Secret, ''ns1'', ''kotsadm-session''), UuidNew,
                                   ApiCreate (Secret, ''ns1'', ''kotsadm-session'') True]\<rparr>"
  have a: "invoke sample_deps EnsureMinioJob sample_options ?wF
     = Returns (Some (Wrap (StatusError StatusReasonForbidden) ''failed to get existing job''),
                sample_options) ?wF'"
    by (simp add: ensureMinioJob_def api_defs sample_defs)
  have b: "invoke sample_deps EnsureJWTSessionSecret sample_options fresh_cluster
     = Returns (None, sample_options) ?w'"
    by (simp add: ensureJWTSessionSecret_def api_defs sample_defs)
  have qa: "api_query ?wF (queried_key EnsureMinioJob (Namespace sample_options))
       = Inl (StatusError StatusReasonForbidden)"
    by (simp add: api_defs sample_defs queried_key_def)
  have ga: "ApiGet (queried_key EnsureMinioJob (Namespace sample_options))
       \<in> set (new_events ?wF ?wF')"
    by (simp add: new_events_def sample_defs queried_key_def)
  have cb: "\<exists>ev\<in>set (new_events fresh_cluster ?w'). is_create ev"
    by (simp add: new_events_def sample_defs)
  from ensure_query_failure_is_fatal[OF a] ga qa
  have "objects ?wF' = objects ?wF" by simp
  moreover from ensure_query_failure_is_fatal[OF b] cb
  have "\<exists>e. api_query fresh_cluster
            (queried_key EnsureJWTSessionSecret (Namespace sample_options)) = Inl e
          \<and> IsNotFound e"
    by blast
  then have "api_query fresh_cluster
      (queried_key EnsureJWTSessionSecret (Namespace sample_options))
       = Inl (StatusError StatusReasonNotFound)"
    by (simp add: api_defs sample_defs queried_key_def)
  ultimately show ?thesis using a b qa by simp
qed

section \<open>The order of a pass\<close>

lemma world_of_surface [simp]: "world_of (surface out) = world_of out"
proof (cases out)
  case (Returns y w)
  obtain x d where y: "y = (x, d)" by (cases y)
  show ?thesis
  proof (cases x)
    case None
    with Returns y show ?thesis by simp
  next
    case (Some f)
    with Returns y show ?thesis by (cases f) simp
  qed
qed simp_all

lemma world_of_surface_pass [simp]: "world_of (surface_pass out) = world_of out"
proof (cases out)
  case (Returns y w)
  obtain x d where y: "y = (x, d)" by (cases y)
  show ?thesis
  proof (cases x)
    case None
    with Returns y show ?thesis by simp
  next
    case (Some f)
    with Returns y show ?thesis by (cases f) simp
  qed
qed simp_all

lemma in_order_failure:
  assumes "ensure_in_order dp ops d w = Returns (Some (op, e), d1) w1"
  shows "\<exists>pre post d0 w0. ops = pre @ op # post
     \<and> ensure_in_order dp pre d w = Returns (None, d0) w0
     \<and> invoke dp op d0 w0 = Returns (Some e, d1) w1"
  using assms
proof (induction ops arbitrary: d w)
  case Nil
  then show ?case by simp
next
  case (Cons a ops)
  show ?case
  proof (cases "invoke dp a d w")
    case (Returns x wa)
    obtain ra da where x: "x = (ra, da)" by (cases x)
    show ?thesis
    proof (cases ra)
      case (Some ea)
      with Cons.prems Returns x have "a = op" "ea = e" "da = d1" "wa = w1" by simp_all
      with Returns x Some have "a # ops = [] @ op # ops"
        "ensure_in_order dp [] d w = Returns (None, d) w"
        "invoke dp op d w = Returns (Some e, d1) w1"
        by simp_all
      then show ?thesis by blast
    next
      case None
      with Cons.prems Returns x
      have "ensure_in_order dp ops da wa = Returns (Some (op, e), d1) w1" by simp
      from Cons.IH[OF this] obtain pre post d0 w0 where
        p: "ops = pre @ op # post" "ensure_in_order dp pre da wa = Returns (None, d0) w0"
          "invoke dp op d0 w0 = Returns (Some e, d1) w1"
        by blast
      from p(1) have "a # ops = (a # pre) @ op # post" by simp
      moreover from p(2) Returns x None
      have "ensure_in_order dp (a # pre) d w = Returns (None, d0) w0" by simp
      ultimately show ?thesis using p(3) by blast
    qed
  next
    case (Exits code wa)
    with Cons.prems show ?thesis by simp
  next
    case Hangs
    with Cons.prems show ?thesis by simp
  qed
qed

lemma in_order_failure_member:
  assumes "ensure_in_order dp ops d w = Returns (Some (op, e), d1) w1"
  shows "op \<in> set ops"
proof -
  from in_order_failure[OF assms] obtain pre post where "ops = pre @ op # post" by blast
  then show ?thesis by simp
qed

lemma in_order_single:
  "world_of (ensure_in_order dp [op] d w) = world_of (invoke dp op d w)"
proof (cases "invoke dp op d w")
  case (Returns x wa)
  obtain ra da where x: "x = (ra, da)" by (cases x)
  with Returns show ?thesis by (cases ra) simp_all
qed simp_all

lemma last_step_ran:
  assumes whole: "world_of (ensure_in_order dp (ops @ [op]) d w) = Some w'"
    and seen: "\<exists>ev\<in>set (new_events w w'). event_kind ev = Some (queried_kind op)"
    and other: "queried_kind op \<notin> queried_kind ` set ops"
  shows "\<exists>d1 w1. ensure_in_order dp ops d w = Returns (None, d1) w1
     \<and> world_of (invoke dp op d1 w1) = Some w'"
proof -
  have stopped: False if "world_of (ensure_in_order dp ops d w) = Some w'"
  proof -
    from in_order_effect[OF that]
    have all: "\<forall>ev\<in>set (new_events w w').
        event_kind ev = None \<or> event_kind ev \<in> Some ` queried_kind ` set ops"
      by simp
    from seen obtain ev where ev: "ev \<in> set (new_events w w')"
      "event_kind ev = Some (queried_kind op)" by blast
    from all ev(1) have "event_kind ev = None \<or> event_kind ev \<in> Some ` queried_kind ` set ops"
      by (rule bspec)
    with ev(2) have "Some (queried_kind op) \<in> Some ` queried_kind ` set ops" by simp
    then have "queried_kind op \<in> queried_kind ` set ops" by blast
    with other show False by simp
  qed
  show ?thesis
  proof (cases "ensure_in_order dp ops d w")
    case (Returns x w1)
    obtain r d1 where x: "x = (r, d1)" by (cases x)
    show ?thesis
    proof (cases r)
      case None
      with whole Returns x have "world_of (ensure_in_order dp [op] d1 w1) = Some w'"
        by (simp add: in_order_append)
      then have "world_of (invoke dp op d1 w1) = Some w'" by (simp only: in_order_single)
      with Returns x None show ?thesis by simp
    next
      case (Some f)
      with whole Returns x have "world_of (ensure_in_order dp ops d w) = Some w'"
        by (simp add: in_order_append)
      with stopped show ?thesis by simp
    qed
  next
    case (Exits code w1)
    with whole have "world_of (ensure_in_order dp ops d w) = Some w'"
      by (simp add: in_order_append)
    with stopped show ?thesis by simp
  next
    case Hangs
    with whole show ?thesis by (simp add: in_order_append)
  qed
qed

lemma provision_in_order:
  "provision dp d w = surface_pass (ensure_in_order dp pass_order d w)"
proof (cases "ensure_in_order dp secrets_order d w")
  case Hangs
  then show ?thesis
    by (simp add: provision_def ensureSecrets_in_order pass_order_def in_order_append)
next
  case (Exits code w1)
  then show ?thesis
    by (simp add: provision_def ensureSecrets_in_order pass_order_def in_order_append)
next
  case (Returns x w1)
  obtain r d1 where x: "x = (r, d1)" by (cases x)
  show ?thesis
  proof (cases r)
    case (Some f)
    obtain op e where f: "f = (op, e)" by (cases f)
    from Returns x Some f have "op \<in> set secrets_order" by (intro in_order_failure_member) simp
    then have "group_message op = ''failed to ensure secrets''"
      by (auto simp: secrets_order_def)
    with Returns x Some f show ?thesis
      by (simp add: provision_def ensureSecrets_in_order pass_order_def in_order_append)
  next
    case None
    let ?m = "ensure_in_order dp minio_order d1 w1"
    obtain rm wm where m: "ensureMinio dp d1 w1 = (rm, wm)" by (cases "ensureMinio dp d1 w1")
    with ensureMinio_in_order[where dp = dp and d = d1 and w = w1]
    have s: "surface ?m = Returns (rm, d1) wm" by simp
    then obtain y where y: "?m = Returns (y, d1) wm"
      and rm: "rm = map_option (\<lambda>(op, err). Wrap err (step_message op)) y"
      by (rule surface_Returns_run)
    have p: "provision dp d w =
        (case rm of Some err \<Rightarrow> Returns (Some (Wrap err ''failed to ensure minio''), d1) wm
         | None \<Rightarrow> Returns (None, d1) wm)"
      using Returns x None m
      by (simp add: provision_def ensureSecrets_in_order split: option.splits)
    have q: "surface_pass (ensure_in_order dp pass_order d w) = surface_pass ?m"
      using Returns x None by (simp add: pass_order_def in_order_append)
    show ?thesis
    proof (cases y)
      case None
      with p q y rm show ?thesis by simp
    next
      case (Some f)
      obtain op e where f: "f = (op, e)" by (cases f)
      from y Some f have "op \<in> set minio_order" by (intro in_order_failure_member) simp
      then have "group_message op = ''failed to ensure minio''"
        by (auto simp: minio_order_def)
      with p q y rm Some f show ?thesis by simp
    qed
  qed
qed

lemma job_step_ran:
  assumes whole: "world_of (ensure_in_order dp (ops @ [EnsureMinioJob]) d w) = Some w'"
    and seen: "\<exists>ev\<in>set (new_events w w'). event_kind ev = Some Job"
    and other: "Job \<notin> queried_kind ` set ops"
  shows "\<exists>d1 w1 r. ensure_in_order dp ops d w = Returns (None, d1) w1
     \<and> ensureMinioJob dp (Namespace d) w1 = (r, w')"
proof -
  from last_step_ran[of dp ops EnsureMinioJob d w w'] whole seen other
  obtain d1 w1 where run: "ensure_in_order dp ops d w = Returns (None, d1) w1"
    and last: "world_of (invoke dp EnsureMinioJob d1 w1) = Some w'"
    by auto
  from in_order_parameters[OF run] have "Namespace d1 = Namespace d" by auto
  with last have "snd (ensureMinioJob dp (Namespace d) w1) = w'"
    by (cases "ensureMinioJob dp (Namespace d) w1") simp
  then have "ensureMinioJob dp (Namespace d) w1 = (fst (ensureMinioJob dp (Namespace d) w1), w')"
    by (cases "ensureMinioJob dp (Namespace d) w1") simp
  with run show ?thesis by blast
qed

section \<open>Claim C6: the order of the pass and its first failure\<close>

text \<open>
  C6. The credentials group, the storage group and the pass over both run their
  ensure-operations in the fixed order (session, postgres, shared password and S3 secrets,
  then config map, stateful set, service, job), each from the cluster the one before left,
  and end at the first operation that returns an error: the error reported is that
  operation's own error, wrapped with the message of its step (and of its group, for the
  pass), every operation before it returned no error, and the cluster and the trace are as
  that operation left them, so that no later operation was attempted. Nothing is cleaned up:
  every object of the cluster before the run is there after it. The job operation leaves a
  mark in the trace only when all the operations before it have returned without error.
\<close>

theorem pass_runs_in_order:
  "ensureSecrets dp d w = surface (ensure_in_order dp secrets_order d w)
   \<and> (case ensureMinio dp d w of (r, w') \<Rightarrow> Returns (r, d) w')
       = surface (ensure_in_order dp minio_order d w)
   \<and> provision dp d w = surface_pass (ensure_in_order dp pass_order d w)
   \<and> (\<forall>ops op e d1 w1. ensure_in_order dp ops d w = Returns (Some (op, e), d1) w1 \<longrightarrow>
        (\<exists>pre post d0 w0. ops = pre @ op # post
           \<and> ensure_in_order dp pre d w = Returns (None, d0) w0
           \<and> invoke dp op d0 w0 = Returns (Some e, d1) w1))
   \<and> (\<forall>w'. world_of (provision dp d w) = Some w' \<longrightarrow> objects w \<subseteq>\<^sub>m objects w')
   \<and> (\<forall>w'. world_of (ensureSecrets dp d w) = Some w' \<longrightarrow> objects w \<subseteq>\<^sub>m objects w')
   \<and> (\<forall>r w'. ensureMinio dp d w = (r, w') \<longrightarrow> objects w \<subseteq>\<^sub>m objects w')
   \<and> (\<forall>w'. world_of (provision dp d w) = Some w'
          \<and> (\<exists>ev\<in>set (new_events w w'). event_kind ev = Some Job) \<longrightarrow>
        (\<exists>d1 w7 r.
           ensure_in_order dp
             [EnsureJWTSessionSecret, EnsurePostgresSecret, EnsureSharedPasswordSecret,
              EnsureS3Secret, EnsureMinioConfigMap, EnsureMinioStatefulset, EnsureMinioService]
             d w = Returns (None, d1) w7
           \<and> ensureMinioJob dp (Namespace d) w7 = (r, w')))
   \<and> (\<forall>r w'. ensureMinio dp d w = (r, w')
          \<and> (\<exists>ev\<in>set (new_events w w'). event_kind ev = Some Job) \<longrightarrow>
        (\<exists>d1 w3 rj.
           ensure_in_order dp [EnsureMinioConfigMap, EnsureMinioStatefulset, EnsureMinioService]
             d w = Returns (None, d1) w3
           \<and> ensureMinioJob dp (Namespace d) w3 = (rj, w')))"
proof -
  have minio_world: "world_of (ensure_in_order dp minio_order d w) = Some w'"
    if "ensureMinio dp d w = (r, w')" for r w'
  proof -
    from that have "world_of (case ensureMinio dp d w of (r, w') \<Rightarrow> Returns (r, d) w') = Some w'"
      by simp
    then show ?thesis by (simp only: ensureMinio_in_order world_of_surface)
  qed
  have pass_world: "world_of (ensure_in_order dp pass_order d w) = Some w'"
    if "world_of (provision dp d w) = Some w'" for w'
    using that by (simp only: provision_in_order world_of_surface_pass)
  have secrets_world: "world_of (ensure_in_order dp secrets_order d w) = Some w'"
    if "world_of (ensureSecrets dp d w) = Some w'" for w'
    using that by (simp only: ensureSecrets_in_order world_of_surface)
  have grows: "objects w \<subseteq>\<^sub>m objects w'"
    if "world_of (ensure_in_order dp ops d w) = Some w'" for ops w'
    using in_order_effect[OF that] by simp
  have p7: "pass_order =
      [EnsureJWTSessionSecret, EnsurePostgresSecret, EnsureSharedPasswordSecret,
       EnsureS3Secret, EnsureMinioConfigMap, EnsureMinioStatefulset, EnsureMinioService]
      @ [EnsureMinioJob]"
    by (simp add: pass_order_def secrets_order_def minio_order_def)
  have m3: "minio_order =
      [EnsureMinioConfigMap, EnsureMinioStatefulset, EnsureMinioService] @ [EnsureMinioJob]"
    by (simp add: minio_order_def)
  show ?thesis
  proof (intro conjI allI impI)
    show "ensureSecrets dp d w = surface (ensure_in_order dp secrets_order d w)"
      by (rule ensureSecrets_in_order)
  next
    show "(case ensureMinio dp d w of (r, w') \<Rightarrow> Returns (r, d) w')
       = surface (ensure_in_order dp minio_order d w)"
      by (rule ensureMinio_in_order)
  next
    show "provision dp d w = surface_pass (ensure_in_order dp pass_order d w)"
      by (rule provision_in_order)
  next
    fix ops op e d1 w1
    assume "ensure_in_order dp ops d w = Returns (Some (op, e), d1) w1"
    then show "\<exists>pre post d0 w0. ops = pre @ op # post
           \<and> ensure_in_order dp pre d w = Returns (None, d0) w0
           \<and> invoke dp op d0 w0 = Returns (Some e, d1) w1"
      by (rule in_order_failure)
  next
    fix w'
    assume "world_of (provision dp d w) = Some w'"
    then have "world_of (ensure_in_order dp pass_order d w) = Some w'" by (rule pass_world)
    then show "objects w \<subseteq>\<^sub>m objects w'" by (rule grows)
  next
    fix w'
    assume "world_of (ensureSecrets dp d w) = Some w'"
    then have "world_of (ensure_in_order dp secrets_order d w) = Some w'"
      by (rule secrets_world)
    then show "objects w \<subseteq>\<^sub>m objects w'" by (rule grows)
  next
    fix r w'
    assume "ensureMinio dp d w = (r, w')"
    then have "world_of (ensure_in_order dp minio_order d w) = Some w'" by (rule minio_world)
    then show "objects w \<subseteq>\<^sub>m objects w'" by (rule grows)
  next
    fix w'
    assume a: "world_of (provision dp d w) = Some w'
          \<and> (\<exists>ev\<in>set (new_events w w'). event_kind ev = Some Job)"
    then have "world_of (ensure_in_order dp pass_order d w) = Some w'"
      by (intro pass_world) simp
    then have "world_of (ensure_in_order dp
        ([EnsureJWTSessionSecret, EnsurePostgresSecret, EnsureSharedPasswordSecret,
          EnsureS3Secret, EnsureMinioConfigMap, EnsureMinioStatefulset, EnsureMinioService]
         @ [EnsureMinioJob]) d w) = Some w'"
      by (simp only: p7)
    moreover from a have "\<exists>ev\<in>set (new_events w w'). event_kind ev = Some Job" by simp
    ultimately show "\<exists>d1 w7 r.
           ensure_in_order dp
             [EnsureJWTSessionSecret, EnsurePostgresSecret, EnsureSharedPasswordSecret,
              EnsureS3Secret, EnsureMinioConfigMap, EnsureMinioStatefulset, EnsureMinioService]
             d w = Returns (None, d1) w7
           \<and> ensureMinioJob dp (Namespace d) w7 = (r, w')"
      by (rule job_step_ran) simp
  next
    fix r w'
    assume a: "ensureMinio dp d w = (r, w')
          \<and> (\<exists>ev\<in>set (new_events w w'). event_kind ev = Some Job)"
    then have "world_of (ensure_in_order dp minio_order d w) = Some w'"
      by (intro minio_world[of r]) simp
    then have "world_of (ensure_in_order dp
        ([EnsureMinioConfigMap, EnsureMinioStatefulset, EnsureMinioService]
         @ [EnsureMinioJob]) d w) = Some w'"
      by (simp only: m3)
    moreover from a have "\<exists>ev\<in>set (new_events w w'). event_kind ev = Some Job" by simp
    ultimately show "\<exists>d1 w3 rj.
           ensure_in_order dp [EnsureMinioConfigMap, EnsureMinioStatefulset, EnsureMinioService]
             d w = Returns (None, d1) w3
           \<and> ensureMinioJob dp (Namespace d) w3 = (rj, w')"
      by (rule job_step_ran) simp
  qed
qed

text \<open>
  The theorem at a pass over an empty cluster, which creates the eight resources in order,
  and at a storage group whose stateful set the control plane refuses to create: the
  config map created before it stays, the service and the job are not attempted.
\<close>

theorem pass_runs_in_order_witness:
  "provision sample_deps sample_options fresh_cluster
     = Returns (None, sample_options)
         (fresh_cluster\<lparr>objects :=
            [(Secret, ''ns1'', ''kotsadm-session'')
               \<mapsto> \<lparr>res_name = ''kotsadm-session'', res_content = [''ns1'', ''uuid-'']\<rparr>,
             (Secret, ''ns1'', ''kotsadm-postgres'')
               \<mapsto> \<lparr>res_name = ''kotsadm-postgres'', res_content = [''ns1'', ''pg'']\<rparr>,
             (Secret, ''ns1'', ''kotsadm-password'')
               \<mapsto> \<lparr>res_name = ''kotsadm-password'',
                   res_content = [''ns1'', ''$2a$10$spassword'']\<rparr>,
             (Secret, ''ns1'', ''kotsadm-minio'')
               \<mapsto> \<lparr>res_name = ''kotsadm-minio'',
                   res_content = [''ns1'', ''uuid-xx'', ''uuid-xxx'']\<rparr>,
             (ConfigMap, ''ns1'', ''kotsadm-minio'')
               \<mapsto> \<lparr>res_name = ''kotsadm-minio'', res_content = [''ns1'', ''config'']\<rparr>,
             (StatefulSet, ''ns1'', ''kotsadm-minio'')
               \<mapsto> \<lparr>res_name = ''kotsadm-minio'', res_content = [''ns1'', ''set'']\<rparr>,
             (Service, ''ns1'', ''kotsadm-minio'')
               \<mapsto> \<lparr>res_name = ''kotsadm-minio'', res_content = [''ns1'', ''service'']\<rparr>,
             (Job, ''ns1'', ''kotsadm-minio'')
               \<mapsto> \<lparr>res_name = ''kotsadm-minio'', res_content = [''ns1'', ''job'']\<rparr>],
          entropy := 4,
          trace :=
            [ApiGet (Secret, ''ns1'', ''kotsadm-session''), UuidNew,
             ApiCreate (Secret, ''ns1'', ''kotsadm-session'') True,
             ApiGet (Secret, ''ns1'', ''kotsadm-postgres''),
             ApiCreate (Secret, ''ns1'', ''kotsadm-postgres'') True,
             BcryptGenerate ''password'',
             ApiGet (Secret, ''ns1'', ''kotsadm-password''),
             ApiCreate (Secret, ''ns1'', ''kotsadm-password'') True,
             ApiGet (Secret, ''ns1'', ''kotsadm-minio''), UuidNew, UuidNew,
             ApiCreate (Secret, ''ns1'', ''kotsadm-minio'') True,
             ApiGet (ConfigMap, ''ns1'', ''kotsadm-minio''),
             ApiCreate (ConfigMap, ''ns1'', ''kotsadm-minio'') True,
             ApiGet (StatefulSet, ''ns1'', ''kotsadm-minio''),
             ApiCreate (StatefulSet, ''ns1'', ''kotsadm-minio'') True,
             ApiGet (Service, ''ns1'', ''kotsadm-minio''),
             ApiCreate (Service, ''ns1'', ''kotsadm-minio'') True,
             ApiGet (Job, ''ns1'', ''kotsadm-minio''),
             ApiCreate (Job, ''ns1'', ''kotsadm-minio'') True]\<rparr>)
   \<and> ensureMinio sample_deps sample_options
       (fresh_cluster\<lparr>create_fault :=
          (\<lambda>key. if fst key = StatefulSet then Some Forbidden else None)\<rparr>)
     = (Some (Wrap (Wrap (StatusError StatusReasonForbidden) ''failed to create minio statefulset'')
                ''failed to ensure minio statefulset''),
        fresh_cluster\<lparr>objects :=
            [(ConfigMap, ''ns1'', ''kotsadm-minio'')
               \<mapsto> \<lparr>res_name = ''kotsadm-minio'', res_content = [''ns1'', ''config'']\<rparr>],
          create_fault := (\<lambda>key. if fst key = StatefulSet then Some Forbidden else None),
          trace :=
            [ApiGet (ConfigMap, ''ns1'', ''kotsadm-minio''),
             ApiCreate (ConfigMap, ''ns1'', ''kotsadm-minio'') True,
             ApiGet (StatefulSet, ''ns1'', ''kotsadm-minio''),
             ApiCreate (StatefulSet, ''ns1'', ''kotsadm-minio'') False]\<rparr>)
   \<and> ensure_in_order sample_deps minio_order sample_options
       (fresh_cluster\<lparr>create_fault :=
          (\<lambda>key. if fst key = StatefulSet then Some Forbidden else None)\<rparr>)
     = Returns (Some (EnsureMinioStatefulset,
                      Wrap (StatusError StatusReasonForbidden)
                        ''failed to create minio statefulset''), sample_options)
         (fresh_cluster\<lparr>objects :=
            [(ConfigMap, ''ns1'', ''kotsadm-minio'')
               \<mapsto> \<lparr>res_name = ''kotsadm-minio'', res_content = [''ns1'', ''config'']\<rparr>],
          create_fault := (\<lambda>key. if fst key = StatefulSet then Some Forbidden else None),
          trace :=
            [ApiGet (ConfigMap, ''ns1'', ''kotsadm-minio''),
             ApiCreate (ConfigMap, ''ns1'', ''kotsadm-minio'') True,
             ApiGet (StatefulSet, ''ns1'', ''kotsadm-minio''),
             ApiCreate (StatefulSet, ''ns1'', ''kotsadm-minio'') False]\<rparr>)"
proof -
  let ?wp = "fresh_cluster\<lparr>objects :=
            [(Secret, ''ns1'', ''kotsadm-session'')
               \<mapsto> \<lparr>res_name = ''kotsadm-session'', res_content = [''ns1'', ''uuid-'']\<rparr>,
             (Secret, ''ns1'', ''kotsadm-postgres'')
               \<mapsto> \<lparr>res_name = ''kotsadm-postgres'', res_content = [''ns1'', ''pg'']\<rparr>,
             (Secret, ''ns1'', ''kotsadm-password'')
               \<mapsto> \<lparr>res_name = ''kotsadm-password'',
                   res_content = [''ns1'', ''$2a$10$spassword'']\<rparr>,
             (Secret, ''ns1'', ''kotsadm-minio'')
               \<mapsto> \<lparr>res_name = ''kotsadm-minio'',
                   res_content = [''ns1'', ''uuid-xx'', ''uuid-xxx'']\<rparr>,
             (ConfigMap, ''ns1'', ''kotsadm-minio'')
               \<mapsto> \<lparr>res_name = ''kotsadm-minio'', res_content = [''ns1'', ''config'']\<rparr>,
             (StatefulSet, ''ns1'', ''kotsadm-minio'')
               \<mapsto> \<lparr>res_name = ''kotsadm-minio'', res_content = [''ns1'', ''set'']\<rparr>,
             (Service, ''ns1'', ''kotsadm-minio'')
               \<mapsto> \<lparr>res_name = ''kotsadm-minio'', res_content = [''ns1'', ''service'']\<rparr>,
             (Job, ''ns1'', ''kotsadm-minio'')
               \<mapsto> \<lparr>res_name = ''kotsadm-minio'', res_content = [''ns1'', ''job'']\<rparr>],
          entropy := 4,
          trace :=
            [ApiGet (Secret, ''ns1'', ''kotsadm-session''), UuidNew,
             ApiCreate (Secret, ''ns1'', ''kotsadm-session'') True,
             ApiGet (Secret, ''ns1'', ''kotsadm-postgres''),
             ApiCreate (Secret, ''ns1'', ''kotsadm-postgres'') True,
             BcryptGenerate ''password'',
             ApiGet (Secret, ''ns1'', ''kotsadm-password''),
             ApiCreate (Secret, ''ns1'', ''kotsadm-password'') True,
             ApiGet (Secret, ''ns1'', ''kotsadm-minio''), UuidNew, UuidNew,
             ApiCreate (Secret, ''ns1'', ''kotsadm-minio'') True,
             ApiGet (ConfigMap, ''ns1'', ''kotsadm-minio''),
             ApiCreate (ConfigMap, ''ns1'', ''kotsadm-minio'') True,
             ApiGet (StatefulSet, ''ns1'', ''kotsadm-minio''),
             ApiCreate (StatefulSet, ''ns1'', ''kotsadm-minio'') True,
             ApiGet (Service, ''ns1'', ''kotsadm-minio''),
             ApiCreate (Service, ''ns1'', ''kotsadm-minio'') True,
             ApiGet (Job, ''ns1'', ''kotsadm-minio''),
             ApiCreate (Job, ''ns1'', ''kotsadm-minio'') True]\<rparr>"
  let ?wf = "fresh_cluster\<lparr>create_fault :=
          (\<lambda>key. if fst key = StatefulSet then Some Forbidden else None)\<rparr>"
  let ?wf' = "fresh_cluster\<lparr>objects :=
            [(ConfigMap, ''ns1'', ''kotsadm-minio'')
               \<mapsto> \<lparr>res_name = ''kotsadm-minio'', res_content = [''ns1'', ''config'']\<rparr>],
          create_fault := (\<lambda>key. if fst key = StatefulSet then Some Forbidden else None),
          trace :=
            [ApiGet (ConfigMap, ''ns1'', ''kotsadm-minio''),
             ApiCreate (ConfigMap, ''ns1'', ''kotsadm-minio'') True,
             ApiGet (StatefulSet, ''ns1'', ''kotsadm-minio''),
             ApiCreate (StatefulSet, ''ns1'', ''kotsadm-minio'') False]\<rparr>"
  let ?err = "Wrap (StatusError StatusReasonForbidden) ''failed to create minio statefulset''"
  have a: "provision sample_deps sample_options fresh_cluster
      = Returns (None, sample_options) ?wp"
    by (simp add: provision_def ensureSecrets_def ensureMinio_def op_defs api_defs sample_defs
        numeral_eq_Suc)
  have b: "ensureMinio sample_deps sample_options ?wf
      = (Some (Wrap ?err ''failed to ensure minio statefulset''), ?wf')"
    by (simp add: ensureMinio_def op_defs api_defs sample_defs)
  have job: "\<exists>ev\<in>set (new_events fresh_cluster ?wp). event_kind ev = Some Job"
    by (simp add: new_events_def sample_defs)
  have c: "ensure_in_order sample_deps minio_order sample_options ?wf
      = Returns (Some (EnsureMinioStatefulset, ?err), sample_options) ?wf'"
    by (simp add: minio_order_def op_defs api_defs sample_defs)
  have reached: "world_of (provision sample_deps sample_options fresh_cluster) = Some ?wp
      \<and> (\<exists>ev\<in>set (new_events fresh_cluster ?wp). event_kind ev = Some Job)"
    using a job by simp
  note order = pass_runs_in_order[where dp = sample_deps and d = sample_options]
  note job_last = order[where w = fresh_cluster, THEN conjunct2, THEN conjunct2,
      THEN conjunct2, THEN conjunct2, THEN conjunct2, THEN conjunct2, THEN conjunct2,
      THEN conjunct1, rule_format, OF reached]
  note first_failure = order[where w = ?wf, THEN conjunct2, THEN conjunct2,
      THEN conjunct2, THEN conjunct1, rule_format, OF c]
  from a b c show ?thesis
    using job_last first_failure by simp
qed

lemma entered_nonempty:
  assumes "d1 = d \<or> P \<and> (\<exists>s. 6 \<le> length s \<and> d1 = d\<lparr>SharedPassword := s\<rparr>)"
  shows "d1 = d \<or> P \<and> (\<exists>s. s \<noteq> '''' \<and> d1 = d\<lparr>SharedPassword := s\<rparr>)"
proof -
  from assms consider "d1 = d"
    | s where "P" "6 \<le> length s" "d1 = d\<lparr>SharedPassword := s\<rparr>"
    by blast
  then show ?thesis
  proof cases
    case 1
    then show ?thesis by simp
  next
    case 2
    from 2(2) have "s \<noteq> ''''" by auto
    with 2 show ?thesis by blast
  qed
qed

lemma ensureSecrets_parameters:
  assumes "ensureSecrets dp d w = Returns (r, d1) w1"
  shows "d1 = d \<or> SharedPassword d = '''' \<and> (\<exists>s. 6 \<le> length s \<and> d1 = d\<lparr>SharedPassword := s\<rparr>)"
proof -
  from assms have "surface (ensure_in_order dp secrets_order d w) = Returns (r, d1) w1"
    by (simp add: ensureSecrets_in_order)
  then obtain x where "ensure_in_order dp secrets_order d w = Returns (x, d1) w1"
    by (rule surface_Returns_run)
  then show ?thesis by (rule in_order_parameters)
qed

section \<open>Claim C10: the ensure-operations keep the parameters\<close>

text \<open>
  C10. In apply mode no ensure-operation writes generated credential material into the
  parameters: an operation that returns leaves the parameters as they were, except that the
  shared-password operation sets the plaintext password, when it was empty, to the line the
  operator entered; so \<open>ensureSecrets\<close> changes no field but that one, and the session key,
  the password hash and the two S3 keys of the parameters are after the pass what they were
  before. The values the session-secret and the S3 operations generate go into the object
  they create and nowhere else.
\<close>

theorem ensure_operations_keep_parameters:
  "(\<forall>r d1 w1. invoke dp op d w = Returns (r, d1) w1 \<longrightarrow>
      d1 = d \<or> op = EnsureSharedPasswordSecret \<and> SharedPassword d = ''''
                \<and> (\<exists>s. s \<noteq> '''' \<and> d1 = d\<lparr>SharedPassword := s\<rparr>))
   \<and> (\<forall>r d1 w1. ensureSecrets dp d w = Returns (r, d1) w1 \<longrightarrow>
      (d1 = d \<or> SharedPassword d = '''' \<and> (\<exists>s. s \<noteq> '''' \<and> d1 = d\<lparr>SharedPassword := s\<rparr>))
      \<and> JWT d1 = JWT d \<and> SharedPasswordBcrypt d1 = SharedPasswordBcrypt d
      \<and> S3SecretKey d1 = S3SecretKey d \<and> S3AccessKey d1 = S3AccessKey d)
   \<and> (\<forall>r w1 key. ensureJWTSessionSecret dp ns w = (r, w1)
          \<and> ApiCreate key True \<in> set (new_events w w1)
        \<longrightarrow> objects w1 key = Some (jwtSecret dp ns (uuid_String dp (entropy w))))
   \<and> (\<forall>r w1 key. ensureS3Secret dp ns w = (r, w1)
          \<and> ApiCreate key True \<in> set (new_events w w1)
        \<longrightarrow> objects w1 key
            = Some (s3Secret dp ns (uuid_String dp (entropy w)) (uuid_String dp (Suc (entropy w)))))"
proof (intro conjI allI impI)
  fix r d1 w1
  assume "invoke dp op d w = Returns (r, d1) w1"
  from invoke_parameters[OF this]
  have "d1 = d \<or> (op = EnsureSharedPasswordSecret \<and> SharedPassword d = '''')
                \<and> (\<exists>s. 6 \<le> length s \<and> d1 = d\<lparr>SharedPassword := s\<rparr>)"
    by blast
  from entered_nonempty[OF this]
  show "d1 = d \<or> op = EnsureSharedPasswordSecret \<and> SharedPassword d = ''''
                \<and> (\<exists>s. s \<noteq> '''' \<and> d1 = d\<lparr>SharedPassword := s\<rparr>)"
    by blast
next
  fix r d1 w1
  assume a: "ensureSecrets dp d w = Returns (r, d1) w1"
  from entered_nonempty[OF ensureSecrets_parameters[OF a]]
  show "d1 = d \<or> SharedPassword d = '''' \<and> (\<exists>s. s \<noteq> '''' \<and> d1 = d\<lparr>SharedPassword := s\<rparr>)" .
  from ensureSecrets_parameters[OF a] show "JWT d1 = JWT d" by auto
  from ensureSecrets_parameters[OF a]
  show "SharedPasswordBcrypt d1 = SharedPasswordBcrypt d" by auto
  from ensureSecrets_parameters[OF a] show "S3SecretKey d1 = S3SecretKey d" by auto
  from ensureSecrets_parameters[OF a] show "S3AccessKey d1 = S3AccessKey d" by auto
next
  fix r w1 key
  assume "ensureJWTSessionSecret dp ns w = (r, w1) \<and> ApiCreate key True \<in> set (new_events w w1)"
  then have g: "ensure_generic Secret ns ''kotsadm-session'' (Suc 0)
       (\<lambda>e. jwtSecret dp ns (uuid_String dp e))
       ''failed to get existing session secret'' ''failed to create jwt session secret'' w
       = (r, w1)"
    and c: "ApiCreate key True \<in> set (new_events w w1)"
    by (simp_all add: ensureJWTSessionSecret_generic)
  from ensure_generic_created_object[OF g c]
  show "objects w1 key = Some (jwtSecret dp ns (uuid_String dp (entropy w)))" .
next
  fix r w1 key
  assume "ensureS3Secret dp ns w = (r, w1) \<and> ApiCreate key True \<in> set (new_events w w1)"
  then have g: "ensure_generic Secret ns ''kotsadm-minio'' (Suc (Suc 0))
       (\<lambda>e. s3Secret dp ns (uuid_String dp e) (uuid_String dp (Suc e)))
       ''failed to get existing s3 secret'' ''failed to create s3 secret'' w = (r, w1)"
    and c: "ApiCreate key True \<in> set (new_events w w1)"
    by (simp_all add: ensureS3Secret_generic)
  from ensure_generic_created_object[OF g c]
  show "objects w1 key
     = Some (s3Secret dp ns (uuid_String dp (entropy w)) (uuid_String dp (Suc (entropy w))))" .
qed

text \<open>
  The theorem where the operator enters a line that is too short and then a password, at a
  pass that stops at its first query, and at the two operations that generate their values.
\<close>

theorem ensure_operations_keep_parameters_witness:
  "invoke sample_deps EnsureSharedPasswordSecret (sample_options\<lparr>SharedPassword := []\<rparr>)
       (fresh_cluster\<lparr>console := [Typed ''abc'', Typed ''secret1'']\<rparr>)
     = Returns (None, sample_options\<lparr>SharedPassword := ''secret1''\<rparr>)
         (fresh_cluster\<lparr>objects := [(Secret, ''ns1'', ''kotsadm-password'')
                             \<mapsto> \<lparr>res_name = ''kotsadm-password'',
                                 res_content = [''ns1'', ''$2a$10$secret1'']\<rparr>],
                         entropy := 1,
                         trace := [BcryptGenerate ''secret1'',
                                   ApiGet (Secret, ''ns1'', ''kotsadm-password''),
                                   ApiCreate (Secret, ''ns1'', ''kotsadm-password'') True]\<rparr>)
   \<and> ensureSecrets sample_deps sample_options (fresh_cluster\<lparr>get_fault := (\<lambda>key. Some Forbidden)\<rparr>)
     = Returns (Some (Wrap (Wrap (StatusError StatusReasonForbidden)
                              ''failed to get existing session secret'')
                        ''failed to ensure jwt session secret''), sample_options)
         (fresh_cluster\<lparr>get_fault := (\<lambda>key. Some Forbidden),
                         trace := [ApiGet (Secret, ''ns1'', ''kotsadm-session'')]\<rparr>)
   \<and> JWT sample_options = ''''
   \<and> S3SecretKey sample_options = '''' \<and> S3AccessKey sample_options = ''''
   \<and> objects (snd (ensureJWTSessionSecret sample_deps ''ns1'' fresh_cluster))
         (Secret, ''ns1'', ''kotsadm-session'')
       = Some (jwtSecret sample_deps ''ns1'' (uuid_String sample_deps 0))
   \<and> objects (snd (ensureS3Secret sample_deps ''ns1'' fresh_cluster))
         (Secret, ''ns1'', ''kotsadm-minio'')
       = Some (s3Secret sample_deps ''ns1'' (uuid_String sample_deps 0)
                 (uuid_String sample_deps (Suc 0)))"
proof -
  let ?d = "sample_options\<lparr>SharedPassword := []\<rparr>"
  let ?wc = "fresh_cluster\<lparr>console := [Typed ''abc'', Typed ''secret1'']\<rparr>"
  let ?wc' = "fresh_cluster\<lparr>objects := [(Secret, ''ns1'', ''kotsadm-password'')
                             \<mapsto> \<lparr>res_name = ''kotsadm-password'',
                                 res_content = [''ns1'', ''$2a$10$secret1'']\<rparr>],
                         entropy := 1,
                         trace := [BcryptGenerate ''secret1'',
                                   ApiGet (Secret, ''ns1'', ''kotsadm-password''),
                                   ApiCreate (Secret, ''ns1'', ''kotsadm-password'') True]\<rparr>"
  let ?wF = "fresh_cluster\<lparr>get_fault := (\<lambda>key. Some Forbidden)\<rparr>"
  let ?wF' = "fresh_cluster\<lparr>get_fault := (\<lambda>key. Some Forbidden),
                         trace := [ApiGet (Secret, ''ns1'', ''kotsadm-session'')]\<rparr>"
  let ?wj = "fresh_cluster\<lparr>objects := [(Secret, ''ns1'', ''kotsadm-session'')
                             \<mapsto> \<lparr>res_name = ''kotsadm-session'', res_content = [''ns1'', ''uuid-'']\<rparr>],
                         entropy := 1,
                         trace := [ApiGet (Secret, ''ns1'', ''kotsadm-session''), UuidNew,
                                   ApiCreate (Secret, ''ns1'', ''kotsadm-session'') True]\<rparr>"
  let ?ws = "fresh_cluster\<lparr>objects := [(Secret, ''ns1'', ''kotsadm-minio'')
                             \<mapsto> \<lparr>res_name = ''kotsadm-minio'',
                                 res_content = [''ns1'', ''uuid-'', ''uuid-x'']\<rparr>],
                         entropy := 2,
                         trace := [ApiGet (Secret, ''ns1'', ''kotsadm-minio''), UuidNew, UuidNew,
                                   ApiCreate (Secret, ''ns1'', ''kotsadm-minio'') True]\<rparr>"
  have a: "invoke sample_deps EnsureSharedPasswordSecret ?d ?wc
      = Returns (None, sample_options\<lparr>SharedPassword := ''secret1''\<rparr>) ?wc'"
    by (simp add: ensureSharedPasswordSecret_def ensureSharedPasswordSecret_hashed_def
        promptForSharedPassword_def validatePassword_def api_defs sample_defs)
  have b: "ensureSecrets sample_deps sample_options ?wF
      = Returns (Some (Wrap (Wrap (StatusError StatusReasonForbidden)
                              ''failed to get existing session secret'')
                        ''failed to ensure jwt session secret''), sample_options) ?wF'"
    by (simp add: ensureSecrets_def ensureJWTSessionSecret_def api_defs sample_defs)
  have c: "ensureJWTSessionSecret sample_deps ''ns1'' fresh_cluster = (None, ?wj)"
    by (simp add: ensureJWTSessionSecret_def api_defs sample_defs)
  have cj: "ApiCreate (Secret, ''ns1'', ''kotsadm-session'') True \<in> set (new_events fresh_cluster ?wj)"
    by (simp add: new_events_def sample_defs)
  have e: "ensureS3Secret sample_deps ''ns1'' fresh_cluster = (None, ?ws)"
    by (simp add: ensureS3Secret_def api_defs sample_defs numeral_2_eq_2)
  have cs: "ApiCreate (Secret, ''ns1'', ''kotsadm-minio'') True \<in> set (new_events fresh_cluster ?ws)"
    by (simp add: new_events_def sample_defs)
  have cj': "ensureJWTSessionSecret sample_deps ''ns1'' fresh_cluster = (None, ?wj)
      \<and> ApiCreate (Secret, ''ns1'', ''kotsadm-session'') True \<in> set (new_events fresh_cluster ?wj)"
    using c cj by simp
  have cs': "ensureS3Secret sample_deps ''ns1'' fresh_cluster = (None, ?ws)
      \<and> ApiCreate (Secret, ''ns1'', ''kotsadm-minio'') True \<in> set (new_events fresh_cluster ?ws)"
    using e cs by simp
  note keep = ensure_operations_keep_parameters[where dp = sample_deps]
  note 1 = keep[where op = EnsureSharedPasswordSecret and d = ?d and w = ?wc,
      THEN conjunct1, rule_format, OF a]
  note 2 = keep[where d = sample_options and w = ?wF,
      THEN conjunct2, THEN conjunct1, rule_format, OF b]
  note 3 = keep[where ns = "''ns1''" and w = fresh_cluster,
      THEN conjunct2, THEN conjunct2, THEN conjunct1, rule_format, OF cj']
  note 4 = keep[where ns = "''ns1''" and w = fresh_cluster,
      THEN conjunct2, THEN conjunct2, THEN conjunct2, rule_format, OF cs']
  have z: "entropy fresh_cluster = 0" by (simp add: fresh_cluster_def)
  from a b show ?thesis
    using 1 2 3 4 c e z by (simp add: sample_options_def)
qed

section \<open>Claim C3: which credential fields a pass fills\<close>

text \<open>
  What a render leaves in the parameters, whatever its result: the namespace, the session
  key and the two passwords are the ones given, and so is a hash or an S3 key that was not
  empty.
\<close>

lemma getSecretsYAML_keeps:
  assumes "getSecretsYAML dp d w = (x, d', w')"
  shows "Namespace d' = Namespace d \<and> JWT d' = JWT d
     \<and> PostgresPassword d' = PostgresPassword d \<and> SharedPassword d' = SharedPassword d
     \<and> (SharedPasswordBcrypt d \<noteq> '''' \<longrightarrow> SharedPasswordBcrypt d' = SharedPasswordBcrypt d)
     \<and> (S3SecretKey d \<noteq> '''' \<longrightarrow> S3SecretKey d' = S3SecretKey d)
     \<and> (S3AccessKey d \<noteq> '''' \<longrightarrow> S3AccessKey d' = S3AccessKey d)"
proof (cases rule: getSecretsYAML_cases[of dp d w])
  case (jwt e)
  with assms show ?thesis by simp
next
  case (pg a e)
  with assms show ?thesis by simp
next
  case (bcrypt a b e)
  with assms show ?thesis by simp
next
  case (shared a b e)
  from shared(5) assms show ?thesis by (auto split: if_splits)
next
  case (s3 a b c e)
  from s3(6) assms show ?thesis by (auto split: if_splits)
next
  case (rendered a b c s)
  from rendered(6) assms show ?thesis by (auto split: if_splits)
qed

text \<open>A render that succeeds: what it generated, in the order it generated it.\<close>

lemma getSecretsYAML_generated:
  assumes "getSecretsYAML dp d w = ((m, None), d', w')"
  shows "(SharedPasswordBcrypt d = ''''
          \<longrightarrow> SharedPasswordBcrypt d' = bcrypt_hash dp (entropy w) (SharedPassword d) 10)
     \<and> (S3SecretKey d = ''''
          \<longrightarrow> S3SecretKey d'
              = uuid_String dp (entropy w + (if SharedPasswordBcrypt d = '''' then 1 else 0)))
     \<and> (S3AccessKey d = ''''
          \<longrightarrow> S3AccessKey d'
              = uuid_String dp (entropy w + (if SharedPasswordBcrypt d = '''' then 1 else 0)
                                  + (if S3SecretKey d = '''' then 1 else 0)))
     \<and> new_events w w'
         = (if SharedPasswordBcrypt d = '''' then [BcryptGenerate (SharedPassword d)] else [])
           @ (if S3SecretKey d = '''' then [UuidNew] else [])
           @ (if S3AccessKey d = '''' then [UuidNew] else [])"
proof (cases rule: getSecretsYAML_cases[of dp d w])
  case (jwt e)
  with assms show ?thesis by simp
next
  case (pg a e)
  with assms show ?thesis by simp
next
  case (bcrypt a b e)
  with assms show ?thesis by simp
next
  case (shared a b e)
  with assms show ?thesis by simp
next
  case (s3 a b c e)
  with assms show ?thesis by simp
next
  case (rendered a b c s)
  from rendered(6) assms show ?thesis
    by (cases "SharedPasswordBcrypt d = ''''"; cases "S3SecretKey d = ''''";
        cases "S3AccessKey d = ''''")
       (simp_all add: new_events_def record_event_def)
qed

text \<open>
  C3 as the claim states it does not hold: with the session key, the hash and the two S3
  keys empty, a render that succeeds leaves the session key empty, and a pass of
  \<open>ensureSecrets\<close> that succeeds returns the parameters as they were, all four fields
  empty.
\<close>

theorem pass_leaves_credential_fields_empty:
  "JWT sample_options = '''' \<and> SharedPasswordBcrypt sample_options = ''''
   \<and> S3SecretKey sample_options = '''' \<and> S3AccessKey sample_options = ''''
   \<and> snd (fst (getSecretsYAML sample_deps sample_options fresh_cluster)) = None
   \<and> JWT (fst (snd (getSecretsYAML sample_deps sample_options fresh_cluster))) = ''''
   \<and> returned (ensureSecrets sample_deps sample_options fresh_cluster)
       = Some (None, sample_options)"
proof -
  have "snd (fst (getSecretsYAML sample_deps sample_options fresh_cluster)) = None
     \<and> JWT (fst (snd (getSecretsYAML sample_deps sample_options fresh_cluster))) = ''''"
    by (simp add: getSecretsYAML_def api_defs sample_defs)
  moreover have "returned (ensureSecrets sample_deps sample_options fresh_cluster)
       = Some (None, sample_options)"
    by (simp add: ensureSecrets_def op_defs api_defs sample_defs)
  ultimately show ?thesis by (simp add: sample_defs)
qed

text \<open>
  C3, amended. A render never changes the namespace, the session key or the two passwords,
  and never changes a hash or an S3 key that was not empty. A render that succeeds sets
  each of the hash, the S3 secret key and the S3 access key that was empty to one value
  generated for it, and generates nothing else: one hash of the plaintext password, then one
  UUID for each empty key, the secret key first. The session key is never generated by a
  render. A pass of \<open>ensureSecrets\<close> populates no field: the session key, the hash and the
  two S3 keys it returns are the ones it was given.
\<close>

theorem render_fills_empty_fields_once:
  "(\<forall>x d' w'. getSecretsYAML dp d w = (x, d', w') \<longrightarrow>
       Namespace d' = Namespace d \<and> JWT d' = JWT d
     \<and> PostgresPassword d' = PostgresPassword d \<and> SharedPassword d' = SharedPassword d
     \<and> (SharedPasswordBcrypt d \<noteq> '''' \<longrightarrow> SharedPasswordBcrypt d' = SharedPasswordBcrypt d)
     \<and> (S3SecretKey d \<noteq> '''' \<longrightarrow> S3SecretKey d' = S3SecretKey d)
     \<and> (S3AccessKey d \<noteq> '''' \<longrightarrow> S3AccessKey d' = S3AccessKey d))
   \<and> (\<forall>m d' w'. getSecretsYAML dp d w = ((m, None), d', w') \<longrightarrow>
       (SharedPasswordBcrypt d = ''''
          \<longrightarrow> SharedPasswordBcrypt d' = bcrypt_hash dp (entropy w) (SharedPassword d) 10)
     \<and> (S3SecretKey d = ''''
          \<longrightarrow> S3SecretKey d'
              = uuid_String dp (entropy w + (if SharedPasswordBcrypt d = '''' then 1 else 0)))
     \<and> (S3AccessKey d = ''''
          \<longrightarrow> S3AccessKey d'
              = uuid_String dp (entropy w + (if SharedPasswordBcrypt d = '''' then 1 else 0)
                                  + (if S3SecretKey d = '''' then 1 else 0)))
     \<and> new_events w w'
         = (if SharedPasswordBcrypt d = '''' then [BcryptGenerate (SharedPassword d)] else [])
           @ (if S3SecretKey d = '''' then [UuidNew] else [])
           @ (if S3AccessKey d = '''' then [UuidNew] else []))
   \<and> (\<forall>r d' w'. ensureSecrets dp d w = Returns (r, d') w' \<longrightarrow>
       JWT d' = JWT d \<and> SharedPasswordBcrypt d' = SharedPasswordBcrypt d
     \<and> S3SecretKey d' = S3SecretKey d \<and> S3AccessKey d' = S3AccessKey d)"
proof -
  have keeps: "\<forall>x d' w'. getSecretsYAML dp d w = (x, d', w') \<longrightarrow>
       Namespace d' = Namespace d \<and> JWT d' = JWT d
     \<and> PostgresPassword d' = PostgresPassword d \<and> SharedPassword d' = SharedPassword d
     \<and> (SharedPasswordBcrypt d \<noteq> '''' \<longrightarrow> SharedPasswordBcrypt d' = SharedPasswordBcrypt d)
     \<and> (S3SecretKey d \<noteq> '''' \<longrightarrow> S3SecretKey d' = S3SecretKey d)
     \<and> (S3AccessKey d \<noteq> '''' \<longrightarrow> S3AccessKey d' = S3AccessKey d)"
    by (intro allI impI) (rule getSecretsYAML_keeps)
  have generated: "\<forall>m d' w'. getSecretsYAML dp d w = ((m, None), d', w') \<longrightarrow>
       (SharedPasswordBcrypt d = ''''
          \<longrightarrow> SharedPasswordBcrypt d' = bcrypt_hash dp (entropy w) (SharedPassword d) 10)
     \<and> (S3SecretKey d = ''''
          \<longrightarrow> S3SecretKey d'
              = uuid_String dp (entropy w + (if SharedPasswordBcrypt d = '''' then 1 else 0)))
     \<and> (S3AccessKey d = ''''
          \<longrightarrow> S3AccessKey d'
              = uuid_String dp (entropy w + (if SharedPasswordBcrypt d = '''' then 1 else 0)
                                  + (if S3SecretKey d = '''' then 1 else 0)))
     \<and> new_events w w'
         = (if SharedPasswordBcrypt d = '''' then [BcryptGenerate (SharedPassword d)] else [])
           @ (if S3SecretKey d = '''' then [UuidNew] else [])
           @ (if S3AccessKey d = '''' then [UuidNew] else [])"
    by (intro allI impI) (rule getSecretsYAML_generated)
  have applied: "\<forall>r d' w'. ensureSecrets dp d w = Returns (r, d') w' \<longrightarrow>
       JWT d' = JWT d \<and> SharedPasswordBcrypt d' = SharedPasswordBcrypt d
     \<and> S3SecretKey d' = S3SecretKey d \<and> S3AccessKey d' = S3AccessKey d"
  proof (intro allI impI)
    fix r d' w'
    assume "ensureSecrets dp d w = Returns (r, d') w'"
    from ensureSecrets_parameters[OF this]
    have "d' = d \<or> (\<exists>s. d' = d\<lparr>SharedPassword := s\<rparr>)" by blast
    then show "JWT d' = JWT d \<and> SharedPasswordBcrypt d' = SharedPasswordBcrypt d
       \<and> S3SecretKey d' = S3SecretKey d \<and> S3AccessKey d' = S3AccessKey d"
      by auto
  qed
  from keeps generated applied show ?thesis by (intro conjI)
qed

text \<open>
  The amended statement at parameters in which the four fields are empty: the render fills
  three of them, the pass of \<open>ensureSecrets\<close> none.
\<close>

theorem render_fills_empty_fields_once_witness:
  "getSecretsYAML sample_deps sample_options fresh_cluster
     = ((Some [''secret-jwt.yaml'' \<mapsto> ''kotsadm-sessionns1'',
               ''secret-pg.yaml'' \<mapsto> ''kotsadm-postgresns1pg'',
               ''secret-shared-password.yaml'' \<mapsto> ''kotsadm-passwordns1$2a$10$password'',
               ''secret-s3.yaml'' \<mapsto> ''kotsadm-minions1uuid-xxuuid-x''], None),
        sample_options\<lparr>SharedPasswordBcrypt := ''$2a$10$password'', S3SecretKey := ''uuid-x'',
                        S3AccessKey := ''uuid-xx''\<rparr>,
        fresh_cluster\<lparr>entropy := 3, trace := [BcryptGenerate ''password'', UuidNew, UuidNew]\<rparr>)
   \<and> new_events fresh_cluster
        (fresh_cluster\<lparr>entropy := 3, trace := [BcryptGenerate ''password'', UuidNew, UuidNew]\<rparr>)
       = [BcryptGenerate (SharedPassword sample_options), UuidNew, UuidNew]
   \<and> uuid_String sample_deps (entropy fresh_cluster + 1 + 1) = ''uuid-xx''
   \<and> S3AccessKey (sample_options\<lparr>SharedPasswordBcrypt := ''$2a$10$password'',
                        S3SecretKey := ''uuid-x'', S3AccessKey := ''uuid-xx''\<rparr>)
       = uuid_String sample_deps (entropy fresh_cluster + 1 + 1)
   \<and> ensureSecrets sample_deps sample_options
        (fresh_cluster\<lparr>get_fault := (\<lambda>key. Some Forbidden)\<rparr>)
     = Returns (Some (Wrap (Wrap (StatusError StatusReasonForbidden)
                              ''failed to get existing session secret'')
                        ''failed to ensure jwt session secret''), sample_options)
         (fresh_cluster\<lparr>get_fault := (\<lambda>key. Some Forbidden),
                         trace := [ApiGet (Secret, ''ns1'', ''kotsadm-session'')]\<rparr>)"
proof -
  let ?m = "Some [''secret-jwt.yaml'' \<mapsto> ''kotsadm-sessionns1'',
               ''secret-pg.yaml'' \<mapsto> ''kotsadm-postgresns1pg'',
               ''secret-shared-password.yaml'' \<mapsto> ''kotsadm-passwordns1$2a$10$password'',
               ''secret-s3.yaml'' \<mapsto> ''kotsadm-minions1uuid-xxuuid-x'']"
  let ?d' = "sample_options\<lparr>SharedPasswordBcrypt := ''$2a$10$password'', S3SecretKey := ''uuid-x'',
                        S3AccessKey := ''uuid-xx''\<rparr>"
  let ?w' = "fresh_cluster\<lparr>entropy := 3, trace := [BcryptGenerate ''password'', UuidNew, UuidNew]\<rparr>"
  let ?wF = "fresh_cluster\<lparr>get_fault := (\<lambda>key. Some Forbidden)\<rparr>"
  let ?wF' = "fresh_cluster\<lparr>get_fault := (\<lambda>key. Some Forbidden),
                         trace := [ApiGet (Secret, ''ns1'', ''kotsadm-session'')]\<rparr>"
  have a: "getSecretsYAML sample_deps sample_options fresh_cluster = ((?m, None), ?d', ?w')"
    by (simp add: getSecretsYAML_def api_defs sample_defs numeral_eq_Suc)
  have b: "ensureSecrets sample_deps sample_options ?wF
      = Returns (Some (Wrap (Wrap (StatusError StatusReasonForbidden)
                              ''failed to get existing session secret'')
                        ''failed to ensure jwt session secret''), sample_options) ?wF'"
    by (simp add: ensureSecrets_def ensureJWTSessionSecret_def api_defs sample_defs)
  have e: "SharedPasswordBcrypt sample_options = ''''" "S3SecretKey sample_options = ''''"
    "S3AccessKey sample_options = ''''"
    by (simp_all add: sample_defs)
  note gen = render_fills_empty_fields_once[where dp = sample_deps and d = sample_options
      and w = fresh_cluster, THEN conjunct2, THEN conjunct1, rule_format, OF a]
  note app = render_fills_empty_fields_once[where dp = sample_deps and d = sample_options
      and w = ?wF, THEN conjunct2, THEN conjunct2, rule_format, OF b]
  from gen[THEN conjunct2, THEN conjunct2, THEN conjunct2] e
  have ev: "new_events fresh_cluster ?w'
      = [BcryptGenerate (SharedPassword sample_options), UuidNew, UuidNew]"
    by simp
  from gen[THEN conjunct2, THEN conjunct2, THEN conjunct1, rule_format, OF e(3)] e
  have ak: "S3AccessKey ?d' = uuid_String sample_deps (entropy fresh_cluster + 1 + 1)"
    by simp
  have u: "uuid_String sample_deps (entropy fresh_cluster + 1 + 1) = ''uuid-xx''"
    by (simp add: sample_defs numeral_eq_Suc)
  from a b ev ak u app show ?thesis by simp
qed

section \<open>Claim C4: how often the password is hashed\<close>

text \<open>The hashes a render computes.\<close>

lemma getSecretsYAML_hashes:
  assumes "getSecretsYAML dp d w = ((m, err), d', w')"
  shows "length (filter is_hash (new_events w w')) \<le> 1
     \<and> (SharedPasswordBcrypt d \<noteq> '''' \<longrightarrow> filter is_hash (new_events w w') = [])
     \<and> (SharedPasswordBcrypt d = '''' \<and> err = None
          \<longrightarrow> filter is_hash (new_events w w') = [BcryptGenerate (SharedPassword d)])"
proof (cases rule: getSecretsYAML_cases[of dp d w])
  case (jwt e)
  with assms show ?thesis by auto
next
  case (pg a e)
  with assms show ?thesis by auto
next
  case (bcrypt a b e)
  with assms show ?thesis by (auto simp: new_events_def record_event_def)
next
  case (shared a b e)
  from shared(5) assms show ?thesis
    by (cases "SharedPasswordBcrypt d = ''''") (auto simp: new_events_def record_event_def)
next
  case (s3 a b c e)
  from s3(6) assms show ?thesis
    by (cases "SharedPasswordBcrypt d = ''''"; cases "S3SecretKey d = ''''";
        cases "S3AccessKey d = ''''")
       (auto simp: new_events_def record_event_def)
next
  case (rendered a b c s)
  from rendered(6) assms show ?thesis
    by (cases "SharedPasswordBcrypt d = ''''"; cases "S3SecretKey d = ''''";
        cases "S3AccessKey d = ''''")
       (auto simp: new_events_def record_event_def)
qed

text \<open>The hashes an ensure-operation computes.\<close>

lemma invoke_hashes:
  assumes "invoke dp op d w = Returns (r, d') w'"
  shows "filter is_hash (new_events w w')
     = (if op = EnsureSharedPasswordSecret then [BcryptGenerate (SharedPassword d')] else [])"
proof (cases rule: invoke_cases[of op d dp w])
  case hangs
  from hangs(3) assms show ?thesis by simp
next
  case (exits rest)
  from exits(3) assms show ?thesis by simp
next
  case (refused d1 w1 e)
  from refused(7) assms have "w' = record_event (BcryptGenerate (SharedPassword d1)) w1"
    and "d' = d1"
    by simp_all
  with refused(1,4) show ?thesis by (simp add: new_events_def)
next
  case (ensured d1 wm n build mc r1 w2)
  from ensured(7) assms have eq: "w2 = w'" "d' = d1" by simp_all
  note g = ensured(6)[unfolded eq]
  obtain evs where
    tr: "trace w' = trace wm @ ApiGet (queried_kind op, Namespace d, queried_name op) # evs"
    and ks: "\<forall>ev\<in>set evs. event_kind ev = Some (queried_kind op) \<and> is_create ev \<or> ev = UuidNew"
    and "length (filter is_create evs) \<le> 1"
    by (rule ensure_generic_trace[OF g]) (rule that)
  have no: "filter is_hash evs = []"
  proof -
    have "\<not> is_hash ev" if "ev \<in> set evs" for ev
      using ks that by (cases ev) auto
    then show ?thesis by (simp add: filter_empty_conv)
  qed
  have "new_events w w'
      = (if op = EnsureSharedPasswordSecret then [BcryptGenerate (SharedPassword d1)] else [])
        @ ApiGet (queried_kind op, Namespace d, queried_name op) # evs"
    using tr ensured(3) by (simp add: new_events_def)
  with no eq(2) show ?thesis by simp
qed

text \<open>The hashes a run of operations computes: at most one for each password operation.\<close>

lemma in_order_hashes:
  assumes "ensure_in_order dp ops d w = Returns (x, d') w'"
  shows "length (filter is_hash (new_events w w'))
     \<le> length (filter (\<lambda>op. op = EnsureSharedPasswordSecret) ops)"
  using assms
proof (induction ops arbitrary: d w)
  case Nil
  then show ?case by simp
next
  case (Cons op ops)
  show ?case
  proof (cases "invoke dp op d w")
    case (Returns y wa)
    obtain ra da where y: "y = (ra, da)" by (cases y)
    note inv = Returns[unfolded y]
    from invoke_hashes[OF inv]
    have one: "length (filter is_hash (new_events w wa))
        \<le> (if op = EnsureSharedPasswordSecret then 1 else 0)"
      by simp
    show ?thesis
    proof (cases ra)
      case (Some e)
      with Cons.prems inv have "w' = wa" by simp
      with one show ?thesis by (auto split: if_splits)
    next
      case None
      with Cons.prems inv have rest: "ensure_in_order dp ops da wa = Returns (x, d') w'"
        by simp
      from inv have "world_of (invoke dp op d w) = Some wa" by simp
      from invoke_effect[OF this] have a: "trace wa = trace w @ new_events w wa" by simp
      from rest have "world_of (ensure_in_order dp ops da wa) = Some w'" by simp
      from in_order_effect[OF this] have b: "trace w' = trace wa @ new_events wa w'" by simp
      from new_events_trans[OF a b]
      have "new_events w w' = new_events w wa @ new_events wa w'" .
      with one Cons.IH[OF rest] show ?thesis by (auto split: if_splits)
    qed
  next
    case (Exits code wa)
    with Cons.prems show ?thesis by simp
  next
    case Hangs
    with Cons.prems show ?thesis by simp
  qed
qed

text \<open>
  C4 as the claim states it does not hold in apply mode: with the hash already in the
  parameters, \<open>ensureSharedPasswordSecret\<close> hashes the plaintext again, and the secret it
  creates holds the new hash, not the one supplied.
\<close>

theorem supplied_hash_is_recomputed:
  "SharedPasswordBcrypt (sample_options\<lparr>SharedPasswordBcrypt := ''$2a$10$supplied''\<rparr>)
     = ''$2a$10$supplied''
   \<and> ensureSharedPasswordSecret sample_deps
       (sample_options\<lparr>SharedPasswordBcrypt := ''$2a$10$supplied''\<rparr>) fresh_cluster
     = Returns (None, sample_options\<lparr>SharedPasswordBcrypt := ''$2a$10$supplied''\<rparr>)
         (fresh_cluster\<lparr>objects := [(Secret, ''ns1'', ''kotsadm-password'')
                             \<mapsto> \<lparr>res_name = ''kotsadm-password'',
                                 res_content = [''ns1'', ''$2a$10$password'']\<rparr>],
                         entropy := 1,
                         trace := [BcryptGenerate ''password'',
                                   ApiGet (Secret, ''ns1'', ''kotsadm-password''),
                                   ApiCreate (Secret, ''ns1'', ''kotsadm-password'') True]\<rparr>)"
  by (simp add: ensureSharedPasswordSecret_def ensureSharedPasswordSecret_hashed_def
      api_defs sample_defs)

text \<open>
  C4, amended. A render hashes the plaintext at most once, never when the hash field is not
  empty, and exactly once when the field is empty and the render succeeds. In apply mode
  the hash field is not read: every invocation of \<open>ensureSharedPasswordSecret\<close> that
  returns has hashed the plaintext exactly once, whatever the hash field holds, and has
  left the field as it was; a pass of \<open>ensureSecrets\<close> hashes at most once.
\<close>

theorem password_hashed_once_per_call:
  "(\<forall>m err d' w'. getSecretsYAML dp d w = ((m, err), d', w') \<longrightarrow>
       length (filter is_hash (new_events w w')) \<le> 1
     \<and> (SharedPasswordBcrypt d \<noteq> '''' \<longrightarrow> filter is_hash (new_events w w') = [])
     \<and> (SharedPasswordBcrypt d = '''' \<and> err = None
          \<longrightarrow> filter is_hash (new_events w w') = [BcryptGenerate (SharedPassword d)]))
   \<and> (\<forall>r d' w'. ensureSharedPasswordSecret dp d w = Returns (r, d') w' \<longrightarrow>
       filter is_hash (new_events w w') = [BcryptGenerate (SharedPassword d')]
     \<and> SharedPasswordBcrypt d' = SharedPasswordBcrypt d)
   \<and> (\<forall>r d' w'. ensureSecrets dp d w = Returns (r, d') w' \<longrightarrow>
       length (filter is_hash (new_events w w')) \<le> 1)"
proof -
  have render: "\<forall>m err d' w'. getSecretsYAML dp d w = ((m, err), d', w') \<longrightarrow>
       length (filter is_hash (new_events w w')) \<le> 1
     \<and> (SharedPasswordBcrypt d \<noteq> '''' \<longrightarrow> filter is_hash (new_events w w') = [])
     \<and> (SharedPasswordBcrypt d = '''' \<and> err = None
          \<longrightarrow> filter is_hash (new_events w w') = [BcryptGenerate (SharedPassword d)])"
    by (intro allI impI) (rule getSecretsYAML_hashes)
  have operation: "\<forall>r d' w'. ensureSharedPasswordSecret dp d w = Returns (r, d') w' \<longrightarrow>
       filter is_hash (new_events w w') = [BcryptGenerate (SharedPassword d')]
     \<and> SharedPasswordBcrypt d' = SharedPasswordBcrypt d"
  proof (intro allI impI)
    fix r d' w'
    assume "ensureSharedPasswordSecret dp d w = Returns (r, d') w'"
    then have inv: "invoke dp EnsureSharedPasswordSecret d w = Returns (r, d') w'" by simp
    from invoke_hashes[OF inv]
    have h: "filter is_hash (new_events w w') = [BcryptGenerate (SharedPassword d')]" by simp
    from invoke_parameters[OF inv] have "d' = d \<or> (\<exists>s. d' = d\<lparr>SharedPassword := s\<rparr>)"
      by blast
    then have "SharedPasswordBcrypt d' = SharedPasswordBcrypt d" by auto
    with h show "filter is_hash (new_events w w') = [BcryptGenerate (SharedPassword d')]
       \<and> SharedPasswordBcrypt d' = SharedPasswordBcrypt d"
      by simp
  qed
  have pass: "\<forall>r d' w'. ensureSecrets dp d w = Returns (r, d') w' \<longrightarrow>
       length (filter is_hash (new_events w w')) \<le> 1"
  proof (intro allI impI)
    fix r d' w'
    assume "ensureSecrets dp d w = Returns (r, d') w'"
    then have "surface (ensure_in_order dp secrets_order d w) = Returns (r, d') w'"
      by (simp add: ensureSecrets_in_order)
    then obtain x where "ensure_in_order dp secrets_order d w = Returns (x, d') w'"
      by (rule surface_Returns_run)
    from in_order_hashes[OF this]
    show "length (filter is_hash (new_events w w')) \<le> 1"
      by (simp add: secrets_order_def)
  qed
  from render operation pass show ?thesis by (intro conjI)
qed

text \<open>
  The amended statement where the hash is supplied: the render computes no hash, the
  operation of apply mode computes one.
\<close>

theorem password_hashed_once_per_call_witness:
  "getSecretsYAML sample_deps
       (sample_options\<lparr>SharedPasswordBcrypt := ''$2a$10$supplied''\<rparr>) fresh_cluster
     = ((Some [''secret-jwt.yaml'' \<mapsto> ''kotsadm-sessionns1'',
               ''secret-pg.yaml'' \<mapsto> ''kotsadm-postgresns1pg'',
               ''secret-shared-password.yaml'' \<mapsto> ''kotsadm-passwordns1$2a$10$supplied'',
               ''secret-s3.yaml'' \<mapsto> ''kotsadm-minions1uuid-xuuid-''], None),
        sample_options\<lparr>SharedPasswordBcrypt := ''$2a$10$supplied'', S3SecretKey := ''uuid-'',
                        S3AccessKey := ''uuid-x''\<rparr>,
        fresh_cluster\<lparr>entropy := 2, trace := [UuidNew, UuidNew]\<rparr>)
   \<and> filter is_hash (new_events fresh_cluster
        (fresh_cluster\<lparr>entropy := 2, trace := [UuidNew, UuidNew]\<rparr>)) = []
   \<and> ensureSharedPasswordSecret sample_deps
       (sample_options\<lparr>SharedPasswordBcrypt := ''$2a$10$supplied''\<rparr>)
       (fresh_cluster\<lparr>get_fault := (\<lambda>key. Some Forbidden)\<rparr>)
     = Returns (Some (Wrap (StatusError StatusReasonForbidden)
                        ''failed to get existing password secret''),
                sample_options\<lparr>SharedPasswordBcrypt := ''$2a$10$supplied''\<rparr>)
         (fresh_cluster\<lparr>get_fault := (\<lambda>key. Some Forbidden), entropy := 1,
                         trace := [BcryptGenerate ''password'',
                                   ApiGet (Secret, ''ns1'', ''kotsadm-password'')]\<rparr>)
   \<and> filter is_hash (new_events (fresh_cluster\<lparr>get_fault := (\<lambda>key. Some Forbidden)\<rparr>)
        (fresh_cluster\<lparr>get_fault := (\<lambda>key. Some Forbidden), entropy := 1,
                         trace := [BcryptGenerate ''password'',
                                   ApiGet (Secret, ''ns1'', ''kotsadm-password'')]\<rparr>))
       = [BcryptGenerate ''password'']"
proof -
  let ?d = "sample_options\<lparr>SharedPasswordBcrypt := ''$2a$10$supplied''\<rparr>"
  let ?m = "Some [''secret-jwt.yaml'' \<mapsto> ''kotsadm-sessionns1'',
               ''secret-pg.yaml'' \<mapsto> ''kotsadm-postgresns1pg'',
               ''secret-shared-password.yaml'' \<mapsto> ''kotsadm-passwordns1$2a$10$supplied'',
               ''secret-s3.yaml'' \<mapsto> ''kotsadm-minions1uuid-xuuid-'']"
  let ?d' = "sample_options\<lparr>SharedPasswordBcrypt := ''$2a$10$supplied'', S3SecretKey := ''uuid-'',
                        S3AccessKey := ''uuid-x''\<rparr>"
  let ?w' = "fresh_cluster\<lparr>entropy := 2, trace := [UuidNew, UuidNew]\<rparr>"
  let ?wF = "fresh_cluster\<lparr>get_fault := (\<lambda>key. Some Forbidden)\<rparr>"
  let ?wF' = "fresh_cluster\<lparr>get_fault := (\<lambda>key. Some Forbidden), entropy := 1,
                         trace := [BcryptGenerate ''password'',
                                   ApiGet (Secret, ''ns1'', ''kotsadm-password'')]\<rparr>"
  have a: "getSecretsYAML sample_deps ?d fresh_cluster = ((?m, None), ?d', ?w')"
    by (simp add: getSecretsYAML_def api_defs sample_defs numeral_eq_Suc)
  have b: "ensureSharedPasswordSecret sample_deps ?d ?wF
      = Returns (Some (Wrap (StatusError StatusReasonForbidden)
                        ''failed to get existing password secret''), ?d) ?wF'"
    by (simp add: ensureSharedPasswordSecret_def ensureSharedPasswordSecret_hashed_def
        api_defs sample_defs)
  have f: "SharedPasswordBcrypt ?d \<noteq> ''''" by simp
  note none = password_hashed_once_per_call[where dp = sample_deps and d = ?d
      and w = fresh_cluster, THEN conjunct1, rule_format, OF a, THEN conjunct2,
      THEN conjunct1, rule_format, OF f]
  note one = password_hashed_once_per_call[where dp = sample_deps and d = ?d
      and w = ?wF, THEN conjunct2, THEN conjunct1, rule_format, OF b, THEN conjunct1]
  have p: "SharedPassword ?d = ''password''" by (simp add: sample_defs)
  from a b none one p show ?thesis by simp
qed

section \<open>Claim C5: a hashing failure\<close>

text \<open>No ensure-operation changes whether the read of a salt fails.\<close>

lemma invoke_salt:
  assumes "world_of (invoke dp op d w) = Some w'"
  shows "salt_fault w' = salt_fault w"
proof (cases rule: invoke_cases[of op d dp w])
  case hangs
  from hangs(3) assms show ?thesis by simp
next
  case (exits rest)
  from exits(3) assms show ?thesis by auto
next
  case (refused d1 w1 e)
  from refused(7) assms have "w' = record_event (BcryptGenerate (SharedPassword d1)) w1"
    by simp
  with refused(8) show ?thesis by simp
next
  case (ensured d1 wm n build mc r w2)
  from ensured(7) assms have "w2 = w'" by simp
  with ensure_generic_salt[OF ensured(6)] ensured(8) show ?thesis by simp
qed

text \<open>Where the hashing error of the password operation comes from.\<close>

lemma hashed_bcrypt_error:
  assumes "ensureSharedPasswordSecret_hashed dp d w
      = (Some (Wrap e ''failed to bcrypt shared password''), w')"
  shows "hash_failure dp (SharedPassword d) 10 w = Some e
     \<and> w' = record_event (BcryptGenerate (SharedPassword d)) w"
  using assms
  by (auto simp: ensureSharedPasswordSecret_hashed_def bcrypt_GenerateFromPassword_cases
      api_Get_def api_Create_def Let_def
      split: option.splits sum.splits prod.splits if_splits)

lemma shared_bcrypt_error:
  assumes "ensureSharedPasswordSecret dp d w
      = Returns (Some (Wrap e ''failed to bcrypt shared password''), d') w'"
  shows "hash_failure dp (SharedPassword d') 10 w = Some e
     \<and> trace w' = trace w @ [BcryptGenerate (SharedPassword d')]
     \<and> same_cluster w w' \<and> entropy w' = entropy w"
proof (cases rule: ensureSharedPasswordSecret_cases[of d dp w])
  case hangs
  with assms show ?thesis by simp
next
  case (exits rest)
  with assms show ?thesis by simp
next
  case (given r w2)
  from given(3) assms have eq: "r = Some (Wrap e ''failed to bcrypt shared password'')"
    "d' = d" "w2 = w'"
    by simp_all
  from hashed_bcrypt_error[OF given(2)[unfolded eq]] eq(2) show ?thesis by simp
next
  case (asked s rest r w2)
  from asked(4) assms have eq: "r = Some (Wrap e ''failed to bcrypt shared password'')"
    "d' = d\<lparr>SharedPassword := s\<rparr>" "w2 = w'"
    by simp_all
  from hashed_bcrypt_error[OF asked(3)[unfolded eq]] eq(2) show ?thesis
    by (simp add: same_cluster_def)
qed

text \<open>
  C5 as the claim states it does not hold: the password is hashed inside the third
  operation of \<open>ensureSecrets\<close>. In a namespace that holds the session secret and
  nothing else, with a random source whose read fails, the pass creates the postgres
  secret and then returns the hashing error: bcrypt could not read its salt. No UUID is
  generated in this pass, the session secret being found.
\<close>

theorem hashing_failure_after_a_creation:
  "ensureSecrets sample_deps sample_options
       (fresh_cluster\<lparr>objects := [(Secret, ''ns1'', ''kotsadm-session'')
                             \<mapsto> \<lparr>res_name = ''kotsadm-session'',
                                 res_content = [''ns1'', ''old'']\<rparr>],
                       salt_fault := Some ''unexpected EOF''\<rparr>)
     = Returns (Some (Wrap (Wrap (ErrorString ''unexpected EOF'')
                              ''failed to bcrypt shared password'')
                        ''failed to ensure shared password secret''),
                sample_options)
         (fresh_cluster\<lparr>objects := [(Secret, ''ns1'', ''kotsadm-session'')
                             \<mapsto> \<lparr>res_name = ''kotsadm-session'',
                                 res_content = [''ns1'', ''old'']\<rparr>,
                           (Secret, ''ns1'', ''kotsadm-postgres'')
                             \<mapsto> \<lparr>res_name = ''kotsadm-postgres'',
                                 res_content = [''ns1'', ''pg'']\<rparr>],
                         salt_fault := Some ''unexpected EOF'',
                         trace := [ApiGet (Secret, ''ns1'', ''kotsadm-session''),
                                   ApiGet (Secret, ''ns1'', ''kotsadm-postgres''),
                                   ApiCreate (Secret, ''ns1'', ''kotsadm-postgres'') True,
                                   BcryptGenerate ''password'']\<rparr>)"
  by (simp add: ensureSecrets_def op_defs api_defs sample_defs)

text \<open>
  C5, amended. A failure of the random source reaches \<open>ensureSecrets\<close> as an error
  through bcrypt alone, which returns the failure of the read of its salt
  (\<^verbatim>\<open>uuid.New()\<close> returns no error: it panics, and a panic is outside of what is stated
  here). When \<open>ensureSecrets\<close> returns a hashing error, the session-secret and the
  postgres-secret operations have run before it and have returned no error (what they
  created stays in the cluster); after them the pass has only called bcrypt, which failed
  with that error, the failure of the salt read whenever bcrypt accepts the cost: the
  password secret and the S3 secret are neither queried nor created, and the objects of
  the cluster are the ones the first two operations left. When a render returns a hashing
  error, it returns no documents, the hash field was empty, and the parameters are as they
  were given: no field is populated.
\<close>

theorem hashing_failure_stops_the_pass:
  "(\<forall>e d' w'. ensureSecrets dp d w
        = Returns (Some (Wrap (Wrap e ''failed to bcrypt shared password'')
                           ''failed to ensure shared password secret''), d') w' \<longrightarrow>
       fst (ensureJWTSessionSecret dp (Namespace d) w) = None
     \<and> fst (ensurePostgresSecret dp d (snd (ensureJWTSessionSecret dp (Namespace d) w))) = None
     \<and> hash_failure dp (SharedPassword d') 10
          (snd (ensurePostgresSecret dp d (snd (ensureJWTSessionSecret dp (Namespace d) w))))
         = Some e
     \<and> (bcrypt_reject dp (SharedPassword d') 10 = None
          \<longrightarrow> map_option ErrorString (salt_fault w) = Some e)
     \<and> new_events (snd (ensurePostgresSecret dp d
                          (snd (ensureJWTSessionSecret dp (Namespace d) w)))) w'
         = [BcryptGenerate (SharedPassword d')]
     \<and> objects w'
         = objects (snd (ensurePostgresSecret dp d
                           (snd (ensureJWTSessionSecret dp (Namespace d) w))))
     \<and> objects w \<subseteq>\<^sub>m objects w')
   \<and> (\<forall>m e d' w'. getSecretsYAML dp d w
        = ((m, Some (Wrap e ''failed to bcrypt shared password'')), d', w') \<longrightarrow>
       m = None \<and> d' = d \<and> SharedPasswordBcrypt d = ''''
     \<and> hash_failure dp (SharedPassword d) 10 w = Some e
     \<and> (bcrypt_reject dp (SharedPassword d) 10 = None
          \<longrightarrow> map_option ErrorString (salt_fault w) = Some e)
     \<and> w' = record_event (BcryptGenerate (SharedPassword d)) w)"
proof -
  have pass: "fst (ensureJWTSessionSecret dp (Namespace d) w) = None
     \<and> fst (ensurePostgresSecret dp d (snd (ensureJWTSessionSecret dp (Namespace d) w))) = None
     \<and> hash_failure dp (SharedPassword d') 10
          (snd (ensurePostgresSecret dp d (snd (ensureJWTSessionSecret dp (Namespace d) w))))
         = Some e
     \<and> (bcrypt_reject dp (SharedPassword d') 10 = None
          \<longrightarrow> map_option ErrorString (salt_fault w) = Some e)
     \<and> new_events (snd (ensurePostgresSecret dp d
                          (snd (ensureJWTSessionSecret dp (Namespace d) w)))) w'
         = [BcryptGenerate (SharedPassword d')]
     \<and> objects w'
         = objects (snd (ensurePostgresSecret dp d
                           (snd (ensureJWTSessionSecret dp (Namespace d) w))))
     \<and> objects w \<subseteq>\<^sub>m objects w'"
    if H: "ensureSecrets dp d w
        = Returns (Some (Wrap (Wrap e ''failed to bcrypt shared password'')
                           ''failed to ensure shared password secret''), d') w'"
    for e d' w'
  proof -
    obtain r1 w1 where a: "ensureJWTSessionSecret dp (Namespace d) w = (r1, w1)"
      by (cases "ensureJWTSessionSecret dp (Namespace d) w")
    obtain r2 w2 where b: "ensurePostgresSecret dp d w1 = (r2, w2)"
      by (cases "ensurePostgresSecret dp d w1")
    from H a have n1: "r1 = None" by (cases r1) (simp_all add: ensureSecrets_def)
    from H a b n1 have n2: "r2 = None" by (cases r2) (simp_all add: ensureSecrets_def)
    have third: "ensureSharedPasswordSecret dp d w2
        = Returns (Some (Wrap e ''failed to bcrypt shared password''), d') w'"
    proof (cases "ensureSharedPasswordSecret dp d w2")
      case Hangs
      with H a b n1 n2 show ?thesis by (simp add: ensureSecrets_def)
    next
      case (Exits code w3)
      with H a b n1 n2 show ?thesis by (simp add: ensureSecrets_def)
    next
      case (Returns x w3)
      obtain r3 d3 where x: "x = (r3, d3)" by (cases x)
      show ?thesis
      proof (cases r3)
        case (Some e3)
        with H a b n1 n2 Returns x show ?thesis by (simp add: ensureSecrets_def)
      next
        case None
        obtain r4 w4 where c: "ensureS3Secret dp (Namespace d3) w3 = (r4, w4)"
          by (cases "ensureS3Secret dp (Namespace d3) w3")
        with H a b n1 n2 Returns x None show ?thesis
          by (cases r4) (simp_all add: ensureSecrets_def)
      qed
    qed
    from shared_bcrypt_error[OF third]
    have rej: "hash_failure dp (SharedPassword d') 10 w2 = Some e"
      and tr: "trace w' = trace w2 @ [BcryptGenerate (SharedPassword d')]"
      and same: "same_cluster w2 w'"
      by simp_all
    from tr have ne: "new_events w2 w' = [BcryptGenerate (SharedPassword d')]"
      by (rule new_events_append)
    from same have obj: "objects w' = objects w2" by (simp add: same_cluster_def)
    from a have i1: "world_of (invoke dp EnsureJWTSessionSecret d w) = Some w1" by simp
    from invoke_effect[OF i1] have m1: "objects w \<subseteq>\<^sub>m objects w1" by simp
    from b have i2: "world_of (invoke dp EnsurePostgresSecret d w1) = Some w2" by simp
    from invoke_effect[OF i2] have m2: "objects w1 \<subseteq>\<^sub>m objects w2" by simp
    from m1 m2 have "objects w \<subseteq>\<^sub>m objects w2" by (rule map_le_trans)
    with obj have grow: "objects w \<subseteq>\<^sub>m objects w'" by simp
    from invoke_salt[OF i1] invoke_salt[OF i2] have sf: "salt_fault w2 = salt_fault w"
      by simp
    from rej sf have random: "bcrypt_reject dp (SharedPassword d') 10 = None
        \<longrightarrow> map_option ErrorString (salt_fault w) = Some e"
      by (auto simp: hash_failure_def)
    from a b n1 n2 rej random ne obj grow show ?thesis by simp
  qed
  have render: "m = None \<and> d' = d \<and> SharedPasswordBcrypt d = ''''
     \<and> hash_failure dp (SharedPassword d) 10 w = Some e
     \<and> (bcrypt_reject dp (SharedPassword d) 10 = None
          \<longrightarrow> map_option ErrorString (salt_fault w) = Some e)
     \<and> w' = record_event (BcryptGenerate (SharedPassword d)) w"
    if R: "getSecretsYAML dp d w
        = ((m, Some (Wrap e ''failed to bcrypt shared password'')), d', w')"
    for m e d' w'
  proof (cases rule: getSecretsYAML_cases[of dp d w])
    case (jwt e1)
    with R show ?thesis by simp
  next
    case (pg a e1)
    with R show ?thesis by simp
  next
    case (bcrypt a b e1)
    with R show ?thesis by (auto simp: hash_failure_def)
  next
    case (shared a b e1)
    with R show ?thesis by simp
  next
    case (s3 a b c e1)
    with R show ?thesis by simp
  next
    case (rendered a b c s)
    with R show ?thesis by simp
  qed
  from pass render show ?thesis by blast
qed

text \<open>
  The amended statement with a random source whose read fails, in a namespace that holds
  the session secret and the postgres secret, the operator entering the password at the
  prompt: the pass stops at the hash and creates nothing. The render of the parameters
  with that random source returns the hashing error and no documents.
\<close>

theorem hashing_failure_stops_the_pass_witness:
  "ensureSecrets sample_deps (sample_options\<lparr>SharedPassword := ''''\<rparr>)
       (fresh_cluster\<lparr>objects := [(Secret, ''ns1'', ''kotsadm-session'')
                             \<mapsto> \<lparr>res_name = ''kotsadm-session'',
                                 res_content = [''ns1'', ''old'']\<rparr>,
                           (Secret, ''ns1'', ''kotsadm-postgres'')
                             \<mapsto> \<lparr>res_name = ''kotsadm-postgres'',
                                 res_content = [''ns1'', ''pg'']\<rparr>],
                       salt_fault := Some ''unexpected EOF'',
                       console := [Typed ''secret1'']\<rparr>)
     = Returns (Some (Wrap (Wrap (ErrorString ''unexpected EOF'')
                              ''failed to bcrypt shared password'')
                        ''failed to ensure shared password secret''),
                sample_options\<lparr>SharedPassword := ''secret1''\<rparr>)
         (fresh_cluster\<lparr>objects := [(Secret, ''ns1'', ''kotsadm-session'')
                             \<mapsto> \<lparr>res_name = ''kotsadm-session'',
                                 res_content = [''ns1'', ''old'']\<rparr>,
                           (Secret, ''ns1'', ''kotsadm-postgres'')
                             \<mapsto> \<lparr>res_name = ''kotsadm-postgres'',
                                 res_content = [''ns1'', ''pg'']\<rparr>],
                         salt_fault := Some ''unexpected EOF'',
                         console := [],
                         trace := [ApiGet (Secret, ''ns1'', ''kotsadm-session''),
                                   ApiGet (Secret, ''ns1'', ''kotsadm-postgres''),
                                   BcryptGenerate ''secret1'']\<rparr>)
   \<and> bcrypt_reject sample_deps
        (SharedPassword (sample_options\<lparr>SharedPassword := ''secret1''\<rparr>)) 10 = None
   \<and> map_option ErrorString
        (salt_fault (fresh_cluster\<lparr>objects := [(Secret, ''ns1'', ''kotsadm-session'')
                             \<mapsto> \<lparr>res_name = ''kotsadm-session'',
                                 res_content = [''ns1'', ''old'']\<rparr>,
                           (Secret, ''ns1'', ''kotsadm-postgres'')
                             \<mapsto> \<lparr>res_name = ''kotsadm-postgres'',
                                 res_content = [''ns1'', ''pg'']\<rparr>],
                       salt_fault := Some ''unexpected EOF'',
                       console := [Typed ''secret1'']\<rparr>))
       = Some (ErrorString ''unexpected EOF'')
   \<and> getSecretsYAML sample_deps sample_options
       (fresh_cluster\<lparr>salt_fault := Some ''unexpected EOF''\<rparr>)
     = ((None, Some (Wrap (ErrorString ''unexpected EOF'')
                       ''failed to bcrypt shared password'')),
        sample_options,
        fresh_cluster\<lparr>salt_fault := Some ''unexpected EOF'',
                        trace := [BcryptGenerate ''password'']\<rparr>)
   \<and> SharedPasswordBcrypt sample_options = ''''"
proof -
  let ?d = "sample_options\<lparr>SharedPassword := ''''\<rparr>"
  let ?d' = "sample_options\<lparr>SharedPassword := ''secret1''\<rparr>"
  let ?e = "ErrorString ''unexpected EOF''"
  let ?w = "fresh_cluster\<lparr>objects := [(Secret, ''ns1'', ''kotsadm-session'')
                             \<mapsto> \<lparr>res_name = ''kotsadm-session'',
                                 res_content = [''ns1'', ''old'']\<rparr>,
                           (Secret, ''ns1'', ''kotsadm-postgres'')
                             \<mapsto> \<lparr>res_name = ''kotsadm-postgres'',
                                 res_content = [''ns1'', ''pg'']\<rparr>],
                       salt_fault := Some ''unexpected EOF'',
                       console := [Typed ''secret1'']\<rparr>"
  let ?w' = "fresh_cluster\<lparr>objects := [(Secret, ''ns1'', ''kotsadm-session'')
                             \<mapsto> \<lparr>res_name = ''kotsadm-session'',
                                 res_content = [''ns1'', ''old'']\<rparr>,
                           (Secret, ''ns1'', ''kotsadm-postgres'')
                             \<mapsto> \<lparr>res_name = ''kotsadm-postgres'',
                                 res_content = [''ns1'', ''pg'']\<rparr>],
                         salt_fault := Some ''unexpected EOF'',
                         console := [],
                         trace := [ApiGet (Secret, ''ns1'', ''kotsadm-session''),
                                   ApiGet (Secret, ''ns1'', ''kotsadm-postgres''),
                                   BcryptGenerate ''secret1'']\<rparr>"
  let ?wr = "fresh_cluster\<lparr>salt_fault := Some ''unexpected EOF''\<rparr>"
  have a: "ensureSecrets sample_deps ?d ?w
      = Returns (Some (Wrap (Wrap ?e ''failed to bcrypt shared password'')
                         ''failed to ensure shared password secret''), ?d') ?w'"
    by (simp add: ensureSecrets_def op_defs api_defs sample_defs)
  have b: "getSecretsYAML sample_deps sample_options ?wr
      = ((None, Some (Wrap ?e ''failed to bcrypt shared password'')), sample_options,
         fresh_cluster\<lparr>salt_fault := Some ''unexpected EOF'',
                         trace := [BcryptGenerate ''password'']\<rparr>)"
    by (simp add: getSecretsYAML_def api_defs sample_defs)
  have c: "bcrypt_reject sample_deps (SharedPassword ?d') 10 = None"
    by (simp add: sample_defs)
  note pass = hashing_failure_stops_the_pass[where dp = sample_deps and d = ?d and w = ?w,
      THEN conjunct1, rule_format, OF a]
  note render = hashing_failure_stops_the_pass[where dp = sample_deps and d = sample_options
      and w = ?wr, THEN conjunct2, rule_format, OF b]
  from pass have "bcrypt_reject sample_deps (SharedPassword ?d') 10 = None
      \<longrightarrow> map_option ErrorString (salt_fault ?w) = Some ?e"
    by (rule conjunct2[THEN conjunct2, THEN conjunct2, THEN conjunct1])
  with c have random: "map_option ErrorString (salt_fault ?w) = Some ?e" by (rule mp[rotated])
  from render have empty: "SharedPasswordBcrypt sample_options = ''''"
    by (rule conjunct2[THEN conjunct2, THEN conjunct1])
  from a b c random empty show ?thesis by (intro conjI)
qed

end
